theory Spec2Isabelle
  imports Complex_Main "HOL-Library.Log_Nat"
begin

section \<open>Python values shared by all modules\<close>

text \<open>
  Exceptions are values. The type \<open>exn\<close> holds the subclasses of Python's \<open>Exception\<close>,
  which the handlers of the program catch (they are all \<open>except Exception\<close>); every
  constructor carries the text from which \<open>str(e)\<close> is computed. \<open>OtherError\<close> stands
  for any exception class of a collaborator (HTTP errors, JSON errors, ...). The
  exceptions that derive from \<open>BaseException\<close> and not from \<open>Exception\<close> are the type
  \<open>base_exn\<close>: \<open>asyncio.CancelledError\<close> (raised inside a coroutine at the \<open>await\<close>
  where it is suspended when its task is cancelled), \<open>KeyboardInterrupt\<close> and
  \<open>SystemExit\<close>.
  A \<open>char\<close> of a \<open>string\<close> stands for one code point of a Python \<open>str\<close>.
\<close>

datatype exn =
    KeyError string
  | IndexError string
  | AttributeError string
  | RuntimeError string
  | ValueError string
  | ValidationError string
  | TypeError string
  | RateLimitError string
  | OtherError string

datatype base_exn = CancelledError string | KeyboardInterrupt | SystemExit

text \<open>
  A name in single quotes: \<open>repr\<close> of a string without quotes or escapes (job
  identifiers, model identifiers), and the quoted names of Python's messages.
\<close>

definition py_repr :: "string \<Rightarrow> string" where
  "py_repr s = [CHR 0x27] @ s @ [CHR 0x27]"

fun str_exn :: "exn \<Rightarrow> string" where
  "str_exn (KeyError k) = py_repr k"
| "str_exn (IndexError m) = m"
| "str_exn (AttributeError m) = m"
| "str_exn (RuntimeError m) = m"
| "str_exn (ValueError m) = m"
| "str_exn (ValidationError m) = m"
| "str_exn (TypeError m) = m"
| "str_exn (RateLimitError m) = m"
| "str_exn (OtherError m) = m"

fun is_RateLimitError :: "exn \<Rightarrow> bool" where
  "is_RateLimitError (RateLimitError m) = True"
| "is_RateLimitError e = False"

text \<open>\<open>s.startswith(p)\<close> and \<open>d[k]\<close> on a dictionary kept as an association list.\<close>

definition startswith :: "string \<Rightarrow> string \<Rightarrow> bool" where
  "startswith s p = (take (length p) s = p)"

definition py_getitem :: "(string \<times> 'v) list \<Rightarrow> string \<Rightarrow> exn + 'v" where
  "py_getitem d k = (case map_of d k of None \<Rightarrow> Inl (KeyError k) | Some v \<Rightarrow> Inr v)"

section \<open>Python floats\<close>

text \<open>
  A Python \<open>float\<close> is an IEEE 754 binary64 number. A finite float is modelled by the
  rational number it denotes, and an operation on floats by the exact operation followed
  by the rounding \<open>fl\<close> to the nearest number with a significand of 53 bits, a tie going
  to the even significand. The range of the exponent is not bounded here: overflow (above
  about \<open>1.8e308\<close>), subnormal numbers and the sign of zero are not modelled.
\<close>

definition pow2 :: "int \<Rightarrow> rat" where
  "pow2 k = (if 0 \<le> k then 2 ^ nat k else 1 / 2 ^ nat (- k))"

text \<open>The integer nearest to \<open>x\<close>; of two that are equally near, the even one.\<close>

definition round_half_even :: "rat \<Rightarrow> int" where
  "round_half_even x =
     (let f = \<lfloor>x\<rfloor>; r = x - of_int f
      in if r < 1 / 2 then f
         else if 1 / 2 < r then f + 1
         else if even f then f else f + 1)"

text \<open>
  The binary exponent \<open>e\<close> of \<open>x \<noteq> 0\<close>, with \<open>2 ^ e \<le> \<bar>x\<bar> < 2 ^ (e + 1)\<close>: for
  \<open>\<bar>x\<bar> = a / b\<close> it is the difference of the bit lengths of \<open>a\<close> and \<open>b\<close>, or one less.
\<close>

definition binary_exponent :: "rat \<Rightarrow> int" where
  "binary_exponent x =
     (let (a, b) = quotient_of \<bar>x\<bar>;
          d = bitlen a - bitlen b
      in if pow2 d \<le> \<bar>x\<bar> then d else d - 1)"

definition fl :: "rat \<Rightarrow> rat" where
  "fl x =
     (if x = 0 then 0
      else (let ulp = pow2 (binary_exponent x - 52)
            in sgn x * of_int (round_half_even (\<bar>x\<bar> / ulp)) * ulp))"

text \<open>
  \<open>x + y\<close>, \<open>x * y\<close> and \<open>x / y\<close> on floats (\<open>y \<noteq> 0\<close> for the division, which the
  program only does by \<open>1000000\<close>), and the conversion of a Python \<open>int\<close> that an operation
  on a float and an \<open>int\<close> does first.
\<close>

definition fadd :: "rat \<Rightarrow> rat \<Rightarrow> rat" where
  "fadd x y = fl (x + y)"

definition fmul :: "rat \<Rightarrow> rat \<Rightarrow> rat" where
  "fmul x y = fl (x * y)"

definition fdiv :: "rat \<Rightarrow> rat \<Rightarrow> rat" where
  "fdiv x y = fl (x / y)"

definition float_of_int :: "int \<Rightarrow> rat" where
  "float_of_int n = fl (of_int n)"

section \<open>app/constants.py and app/core/openai\_api.py\<close>

definition OPENAI_MODEL :: string where
  "OPENAI_MODEL = ''gpt-4.1-2025-04-14''"

text \<open>
  The price table. A float literal is the float nearest to the decimal written: \<open>0.15\<close>
  is \<open>fl (15 / 100)\<close>.
\<close>

definition MODEL_COSTS :: "(string \<times> (string \<times> rat) list) list" where
  "MODEL_COSTS =
    [(''gpt-4.1-2025-04-14'', [(''prompt'', fl 2), (''completion'', fl 8)]),
     (''gpt-4o-2024-11-20'', [(''prompt'', fl (25 / 10)), (''completion'', fl 10)]),
     (''gpt-4o-2024-05-13'', [(''prompt'', fl 5), (''completion'', fl 15)]),
     (''o1-mini'', [(''prompt'', fl 3), (''completion'', fl 12)]),
     (''o1-preview'', [(''prompt'', fl 15), (''completion'', fl 60)]),
     (''gpt-4o'', [(''prompt'', fl (25 / 10)), (''completion'', fl 10)]),
     (''gpt-4o-mini'', [(''prompt'', fl (15 / 100)), (''completion'', fl (6 / 10))]),
     (''gpt-4o-search-preview'', [(''prompt'', fl (25 / 10)), (''completion'', fl 10)])]"

text \<open>
  The request handed to \<open>openai_client.chat.completions.create\<close>: the keyword arguments
  the call site passes; an argument that is not passed is \<open>None\<close>.
\<close>

datatype message_body = PlainContent string | TextParts "string list"

record chat_request =
  model :: string
  messages :: "(string \<times> message_body) list"
  max_tokens :: "int option"
  temperature :: "rat option"
  seed :: "int option"

record completion_usage =
  prompt_tokens :: int
  completion_tokens :: int

record chat_message =
  content :: "string option"
  annotations :: "string list"

record chat_completion =
  usage :: "completion_usage option"
  choices :: "chat_message list"

text \<open>
  The two branches of the \<open>if model.startswith("o1-") or model.startswith("gpt-4o-search")\<close>
  inside the retry loop, as the request each of them sends.
\<close>

definition build_request :: "string \<Rightarrow> string \<Rightarrow> int \<Rightarrow> string \<Rightarrow> chat_request" where
  "build_request prompt system_prompt max_tokens_arg model_arg =
     (if startswith model_arg ''o1-'' \<or> startswith model_arg ''gpt-4o-search'' then
        \<lparr>model = model_arg,
         messages = [(''user'', TextParts [prompt])],
         max_tokens = None, temperature = None, seed = None\<rparr>
      else
        \<lparr>model = model_arg,
         messages = [(''system'', PlainContent system_prompt), (''user'', PlainContent prompt)],
         max_tokens = Some max_tokens_arg, temperature = Some (1 / 2), seed = Some 666\<rparr>)"

definition max_retries :: nat where
  "max_retries = 5"

text \<open>
  What one call of \<open>get_openai_response\<close> does to the outside: the requests it sends and
  the delays it waits (\<open>asyncio.sleep\<close>), in order.
\<close>

datatype event = Create chat_request | Sleep nat

text \<open>
  The loop \<open>for attempt in range(max_retries)\<close>. The backend is a parameter: \<open>create n r\<close>
  is what the \<open>n\<close>-th attempt (from 0) answers to request \<open>r\<close>, a completion or an
  exception. The equation for the empty range is the \<open>raise RuntimeError\<close> after the loop.
\<close>

fun retry_loop ::
  "(nat \<Rightarrow> chat_request \<Rightarrow> exn + chat_completion) \<Rightarrow> string \<Rightarrow> string \<Rightarrow> int \<Rightarrow> string \<Rightarrow>
   nat list \<Rightarrow> nat \<Rightarrow> event list \<times> (exn + chat_completion)" where
  "retry_loop create prompt system_prompt max_tokens_arg model_arg [] backoff_seconds =
     ([], Inl (RuntimeError ''Unable to get a valid OpenAI response after max retries.''))"
| "retry_loop create prompt system_prompt max_tokens_arg model_arg (attempt # rest) backoff_seconds =
     (let req = build_request prompt system_prompt max_tokens_arg model_arg in
      case create attempt req of
        Inr response \<Rightarrow> ([Create req], Inr response)
      | Inl exc \<Rightarrow>
          if is_RateLimitError exc then
            if attempt < max_retries - 1 then
              (case retry_loop create prompt system_prompt max_tokens_arg model_arg rest
                      (backoff_seconds * 2) of
                 (events, r) \<Rightarrow> (Create req # Sleep backoff_seconds # events, r))
            else ([Create req], Inl exc)
          else ([Create req], Inl exc))"

text \<open>\<open>system_prompt or "You are an AI publishing assistant"\<close>.\<close>

definition system_prompt_or_default :: "string option \<Rightarrow> string" where
  "system_prompt_or_default system_prompt =
     (case system_prompt of
        None \<Rightarrow> ''You are an AI publishing assistant''
      | Some s \<Rightarrow> if s = [] then ''You are an AI publishing assistant'' else s)"

definition get_openai_response ::
  "(nat \<Rightarrow> chat_request \<Rightarrow> exn + chat_completion) \<Rightarrow> string \<Rightarrow> string option \<Rightarrow> int \<Rightarrow> string \<Rightarrow>
   event list \<times> (exn + chat_completion)" where
  "get_openai_response create prompt system_prompt max_tokens_arg model_arg =
     retry_loop create prompt (system_prompt_or_default system_prompt) max_tokens_arg model_arg
       [0..<max_retries] 1"

section \<open>app/core/llm\_api\_wrapper.py\<close>

text \<open>
  What \<open>get_response\<close> returns: the message content (a \<open>str\<close>, or \<open>None\<close>), or, when the
  message carries annotations, the dictionary of annotations and content.
\<close>

datatype llm_reply = ContentReply "string option" | AnnotatedReply "string list" "string option"

text \<open>\<open>model = model or OPENAI_MODEL\<close>: \<open>None\<close> and the empty string select the default.\<close>

definition model_or_default :: "string option \<Rightarrow> string" where
  "model_or_default model_arg =
     (case model_arg of None \<Rightarrow> OPENAI_MODEL | Some m \<Rightarrow> if m = [] then OPENAI_MODEL else m)"

text \<open>
  The object: its one attribute, the cost accumulated by its calls. \<open>__init__\<close> sets it
  to the \<open>int\<close> \<open>0\<close>, to which the first cost, a float, is added as to \<open>0.0\<close>.
\<close>

record LLMAPIWrapper =
  accumulated_cost :: rat

definition LLMAPIWrapper_init :: LLMAPIWrapper where
  "LLMAPIWrapper_init = \<lparr>accumulated_cost = 0\<rparr>"

text \<open>
  \<open>LLMAPIWrapper.get_response\<close> in the two parts its \<open>await\<close> separates. The first,
  \<open>time.sleep(1)\<close> (blocking; it touches no state and is left out) and
  \<open>model = model or OPENAI_MODEL\<close>, ends at \<open>await get_openai_response(...)\<close>. The
  second runs when the awaited call has returned or raised, on the object as it is then:
  \<open>call_cost\<close> is the four statements that compute \<open>total_cost\<close>, every subscript and
  attribute access that can raise a branch; \<open>after_response\<close> adds it to the attribute
  and builds the value returned; \<open>await_returns\<close> is the whole second part, an exception
  of the awaited call leaving the function at the \<open>await\<close>.
\<close>

definition call_cost :: "string \<Rightarrow> chat_completion \<Rightarrow> exn + rat" where
  "call_cost m response =
     (case py_getitem MODEL_COSTS m of
        Inl e \<Rightarrow> Inl e
      | Inr model_prices \<Rightarrow>
          (case py_getitem model_prices ''prompt'' of
             Inl e \<Rightarrow> Inl e
           | Inr prompt_price \<Rightarrow>
               (case usage response of
                  None \<Rightarrow>
                    Inl (AttributeError
                          (py_repr ''NoneType'' @ '' object has no attribute ''
                           @ py_repr ''prompt_tokens''))
                | Some u \<Rightarrow>
                    (case py_getitem model_prices ''completion'' of
                       Inl e \<Rightarrow> Inl e
                     | Inr completion_price \<Rightarrow>
                         (let prompt_cost = fmul prompt_price (float_of_int (prompt_tokens u));
                              completion_cost =
                                fmul completion_price (float_of_int (completion_tokens u));
                              total_cost =
                                fdiv (fadd prompt_cost completion_cost) (float_of_int 1000000)
                          in Inr total_cost)))))"

definition after_response ::
  "LLMAPIWrapper \<Rightarrow> string \<Rightarrow> chat_completion \<Rightarrow> LLMAPIWrapper \<times> (exn + llm_reply)" where
  "after_response self m response =
     (case call_cost m response of
        Inl e \<Rightarrow> (self, Inl e)
      | Inr total_cost \<Rightarrow>
          (let self' = self\<lparr>accumulated_cost := fadd (accumulated_cost self) total_cost\<rparr>
           in case choices response of
                [] \<Rightarrow> (self', Inl (IndexError ''list index out of range''))
              | response_message # _ \<Rightarrow>
                  if annotations response_message \<noteq> [] then
                    (self', Inr (AnnotatedReply (annotations response_message)
                                   (chat_message.content response_message)))
                  else (self', Inr (ContentReply (chat_message.content response_message)))))"

definition await_returns ::
  "LLMAPIWrapper \<Rightarrow> string \<Rightarrow> exn + chat_completion \<Rightarrow> LLMAPIWrapper \<times> (exn + llm_reply)" where
  "await_returns self m outcome =
     (case outcome of
        Inl e \<Rightarrow> (self, Inl e)
      | Inr response \<Rightarrow> after_response self m response)"

text \<open>One call with no other task running: the object is the same before and after the \<open>await\<close>.\<close>

definition get_response ::
  "(nat \<Rightarrow> chat_request \<Rightarrow> exn + chat_completion) \<Rightarrow> LLMAPIWrapper \<Rightarrow> string \<Rightarrow> string option \<Rightarrow>
   int \<Rightarrow> string option \<Rightarrow> LLMAPIWrapper \<times> (exn + llm_reply)" where
  "get_response create self prompt system_prompt max_tokens_arg model_arg =
     (let m = model_or_default model_arg in
      await_returns self m
        (snd (get_openai_response create prompt system_prompt max_tokens_arg m)))"

text \<open>
  Concurrent calls of \<open>get_response\<close> on one object, as tasks of the single-threaded
  event loop. A call runs without interruption from its start to its \<open>await\<close>, where it
  is suspended and other tasks run; once the awaited call has returned or raised, the
  loop resumes it and it runs to its end without interruption: the statements after the
  \<open>await\<close>, among them \<open>self.accumulated_cost += total_cost\<close>, hold no \<open>await\<close>. A call
  is given by its model argument and by what its \<open>await\<close> gives; a schedule is the
  sequence in which the loop starts and resumes the calls. A step of a schedule that
  starts a call already started, or resumes a call that is not suspended, does nothing.
\<close>

datatype coroutine = NotStarted | Suspended | Finished

datatype sched = Start nat | Resume nat

type_synonym generation_call = "string option \<times> (exn + chat_completion)"

record event_loop =
  wrapper :: LLMAPIWrapper
  coroutines :: "coroutine list"

definition loop_step :: "generation_call list \<Rightarrow> event_loop \<Rightarrow> sched \<Rightarrow> event_loop" where
  "loop_step calls s st =
     (case st of
        Start i \<Rightarrow>
          if i < length (coroutines s) \<and> coroutines s ! i = NotStarted
          then s\<lparr>coroutines := (coroutines s)[i := Suspended]\<rparr>
          else s
      | Resume i \<Rightarrow>
          if i < length (coroutines s) \<and> i < length calls \<and> coroutines s ! i = Suspended
          then (case calls ! i of
                  (model_arg, outcome) \<Rightarrow>
                    s\<lparr>wrapper :=
                        fst (await_returns (wrapper s) (model_or_default model_arg) outcome),
                      coroutines := (coroutines s)[i := Finished]\<rparr>)
          else s)"

definition run_calls :: "generation_call list \<Rightarrow> sched list \<Rightarrow> LLMAPIWrapper \<Rightarrow> event_loop" where
  "run_calls calls schedule self =
     foldl (loop_step calls)
       \<lparr>wrapper = self, coroutines = replicate (length calls) NotStarted\<rparr> schedule"

definition finished_calls :: "event_loop \<Rightarrow> nat" where
  "finished_calls s = length (filter (\<lambda>c. c = Finished) (coroutines s))"

definition all_finished :: "event_loop \<Rightarrow> bool" where
  "all_finished s = list_all (\<lambda>c. c = Finished) (coroutines s)"

text \<open>
  A successful call that costs \<open>C\<close>: its \<open>await\<close> gives a completion with a choice, and
  \<open>total_cost\<close> is \<open>C\<close>.
\<close>

definition costs :: "rat \<Rightarrow> generation_call \<Rightarrow> bool" where
  "costs C call =
     (case snd call of
        Inl e \<Rightarrow> False
      | Inr response \<Rightarrow>
          call_cost (model_or_default (fst call)) response = Inr C \<and> choices response \<noteq> [])"

section \<open>app/models/report.py, app/models/job.py and main.py\<close>

record ReportModel =
  company_overview :: "string option"
  product_business_model :: "string option"
  market_analysis :: "string option"
  competitive_landscape :: "string option"
  financial_metrics :: "string option"
  fundraising_history :: "string option"
  team_key_stakeholders :: "string option"

datatype JobStatus = PENDING | PROCESSING | COMPLETED | FAILED

text \<open>The field \<open>id\<close> of the source is \<open>id_field\<close> here (\<open>id\<close> is HOL's identity).\<close>

record ScreenerJob =
  id_field :: string
  status :: JobStatus
  url :: string
  domain :: "string option"
  report :: "ReportModel option"
  error :: "string option"

text \<open>The module-level dictionary \<open>jobs_db\<close>: job identifier to job object.\<close>

type_synonym jobs_db = "string \<Rightarrow> ScreenerJob option"

record JobResponse =
  job_id :: string
  status :: JobStatus

text \<open>
  \<open>HTTPException(status_code, detail)\<close>. The detail of the 400 answer is an f-string over
  the job's status; it is kept as the status itself.
\<close>

datatype http_detail = JobNotFound | ReportNotReady JobStatus

datatype HTTPException = HTTPException nat http_detail

text \<open>
  \<open>generate\<close>: the identifier is the result of \<open>uuid.uuid4()\<close>, taken as an argument.
  The background task it schedules is \<open>generate_report_async\<close> below, run later.
\<close>

definition generate :: "jobs_db \<Rightarrow> string \<Rightarrow> string \<Rightarrow> jobs_db \<times> JobResponse" where
  "generate db jid url_arg =
     (let job = \<lparr>id_field = jid, status = PENDING, url = url_arg, domain = None,
                 report = None, error = None\<rparr>
      in (db(jid \<mapsto> job), \<lparr>job_id = jid, status = PENDING\<rparr>))"

definition get_job_status :: "jobs_db \<Rightarrow> string \<Rightarrow> HTTPException + JobResponse" where
  "get_job_status db jid =
     (case db jid of
        None \<Rightarrow> Inl (HTTPException 404 JobNotFound)
      | Some job \<Rightarrow> Inr \<lparr>job_id = jid, status = ScreenerJob.status job\<rparr>)"

definition get_report :: "jobs_db \<Rightarrow> string \<Rightarrow> HTTPException + ReportModel option" where
  "get_report db jid =
     (case db jid of
        None \<Rightarrow> Inl (HTTPException 404 JobNotFound)
      | Some job \<Rightarrow>
          if ScreenerJob.status job \<noteq> COMPLETED then
            Inl (HTTPException 400 (ReportNotReady (ScreenerJob.status job)))
          else Inr (report job))"

section \<open>app/utils/url\_parser.py\<close>

text \<open>\<open>s.split(sep)\<close> for a separator of one character: never the empty list.\<close>

fun py_split :: "char \<Rightarrow> string \<Rightarrow> string list" where
  "py_split sep [] = [[]]"
| "py_split sep (c # cs) =
     (if c = sep then [] # py_split sep cs
      else (case py_split sep cs of [] \<Rightarrow> [[c]] | p # ps \<Rightarrow> (c # p) # ps))"

text \<open>
  \<open>s.replace(old, new)\<close> for a non-empty \<open>old\<close>: the occurrences are replaced from the
  left, without overlap.
\<close>

function py_replace :: "string \<Rightarrow> string \<Rightarrow> string \<Rightarrow> string" where
  "py_replace old new [] = []"
| "py_replace old new (c # cs) =
     (if old \<noteq> [] \<and> startswith (c # cs) old
      then new @ py_replace old new (drop (length old) (c # cs))
      else c # py_replace old new cs)"
  by pat_completeness auto
termination
  by (relation "measure (\<lambda>(old, new, s). length s)") auto

text \<open>
  \<open>urlparse\<close> belongs to Python's library. The functions of this module take
  \<open>urlparse(url).netloc\<close> as a parameter: a function from the URL to the network
  location, or to the exception \<open>urlparse\<close> raises.
\<close>

definition extract_company_name_from_url ::
  "(string \<Rightarrow> exn + string) \<Rightarrow> string \<Rightarrow> exn + string" where
  "extract_company_name_from_url netloc_of url_arg =
     (case netloc_of url_arg of
        Inl e \<Rightarrow> Inl e
      | Inr netloc \<Rightarrow>
          (let d = (if startswith netloc ''www.'' then drop 4 netloc else netloc) in
           case py_split (CHR ''.'') d of
             [] \<Rightarrow> Inl (IndexError ''list index out of range'')
           | main_domain # _ \<Rightarrow>
               Inr (py_replace ''_'' '' '' (py_replace ''-'' '' '' main_domain))))"

definition extract_domain_from_url ::
  "(string \<Rightarrow> exn + string) \<Rightarrow> string \<Rightarrow> exn + string" where
  "extract_domain_from_url netloc_of url_arg =
     (case netloc_of url_arg of
        Inl e \<Rightarrow> Inl e
      | Inr netloc \<Rightarrow> Inr (if startswith netloc ''www.'' then drop 4 netloc else netloc))"

text \<open>
  A model of the network location CPython's \<open>urlsplit\<close> computes, used for the examples:
  a scheme is split off at the first colon when the text before it is a letter followed
  by scheme characters; after \<open>//\<close> the network location runs to the first of \<open>/\<close>,
  \<open>?\<close>, \<open>#\<close>; a bracket without its partner raises \<open>ValueError\<close>. The stripping of
  leading blanks and of tabs and line ends, and the later checks on bracketed hosts and on
  non-ASCII hosts, are not modelled.
\<close>

definition is_ascii_alpha :: "char \<Rightarrow> bool" where
  "is_ascii_alpha c =
     (let n = (of_char c :: nat) in (65 \<le> n \<and> n \<le> 90) \<or> (97 \<le> n \<and> n \<le> 122))"

definition is_scheme_char :: "char \<Rightarrow> bool" where
  "is_scheme_char c =
     (let n = (of_char c :: nat) in
        is_ascii_alpha c \<or> (48 \<le> n \<and> n \<le> 57) \<or> c = CHR ''+'' \<or> c = CHR ''-'' \<or> c = CHR ''.'')"

definition strip_scheme :: "string \<Rightarrow> string" where
  "strip_scheme u =
     (let before = takeWhile (\<lambda>c. c \<noteq> CHR '':'') u in
      if length before < length u \<and> before \<noteq> [] \<and> is_ascii_alpha (hd before)
         \<and> list_all is_scheme_char before
      then drop (length before + 1) u else u)"

definition py_urlparse_netloc :: "string \<Rightarrow> exn + string" where
  "py_urlparse_netloc u =
     (let rest = strip_scheme u;
          netloc = (if take 2 rest = ''//''
                    then takeWhile (\<lambda>c. c \<noteq> CHR ''/'' \<and> c \<noteq> CHR ''?'' \<and> c \<noteq> CHR ''#'')
                           (drop 2 rest)
                    else [])
      in if (CHR ''['' \<in> set netloc \<and> CHR '']'' \<notin> set netloc)
            \<or> (CHR '']'' \<in> set netloc \<and> CHR ''['' \<notin> set netloc)
         then Inl (ValueError ''Invalid IPv6 URL'') else Inr netloc)"

text \<open>
  The words of the specification, to compare with: strip a leading \<open>www.\<close>, take the
  label before the first dot, write a space for every \<open>-\<close> and \<open>_\<close>.
\<close>

definition host_label_name :: "string \<Rightarrow> string" where
  "host_label_name netloc =
     map (\<lambda>c. if c = CHR ''-'' \<or> c = CHR ''_'' then CHR '' '' else c)
       (takeWhile (\<lambda>c. c \<noteq> CHR ''.'')
          (if take 4 netloc = ''www.'' then drop 4 netloc else netloc))"

text \<open>
  The host of a network location \<open>userinfo@host:port\<close> (bracketed hosts aside): what
  follows the last \<open>@\<close>, up to the first colon.
\<close>

definition url_host :: "string \<Rightarrow> string" where
  "url_host netloc =
     takeWhile (\<lambda>c. c \<noteq> CHR '':'')
       (rev (takeWhile (\<lambda>c. c \<noteq> CHR ''@'') (rev netloc)))"

section \<open>asyncio.gather\<close>

text \<open>
  \<open>asyncio.gather\<close> belongs to Python's library. Each awaitable is given by its outcome,
  the value it returns or the exception it raises. The tasks finish in some order:
  \<open>completion_order order n\<close> is the order \<open>order\<close> names among the tasks \<open>0..<n\<close>,
  followed by the tasks it leaves out; every permutation of \<open>0..<n\<close> is such an order.
\<close>

definition completion_order :: "nat list \<Rightarrow> nat \<Rightarrow> nat list" where
  "completion_order order n = rev (remdups (rev (filter (\<lambda>i. i < n) order @ [0..<n])))"

text \<open>
  \<open>gather(*tasks)\<close>: the first exception to be raised, in the order of completion, is
  raised to the caller at once; when no task raises, the results come in the order of the
  arguments.
\<close>

fun first_exception :: "nat list \<Rightarrow> (exn + 'a) list \<Rightarrow> exn option" where
  "first_exception [] outs = None"
| "first_exception (i # rest) outs =
     (if i < length outs then
        (case outs ! i of Inl e \<Rightarrow> Some e | Inr v \<Rightarrow> first_exception rest outs)
      else first_exception rest outs)"

definition gather :: "nat list \<Rightarrow> (exn + 'a) list \<Rightarrow> exn + 'a list" where
  "gather order outs =
     (case first_exception (completion_order order (length outs)) outs of
        Some e \<Rightarrow> Inl e
      | None \<Rightarrow> Inr (concat (map (\<lambda>out. case out of Inl e \<Rightarrow> [] | Inr v \<Rightarrow> [v]) outs)))"

text \<open>
  \<open>gather(*tasks, return_exceptions=True)\<close>: every task has a future, pending
  (\<open>None\<close>) until the task finishes and then holding its value or its exception; when
  all have finished, the futures are read in the order of the arguments. The result is
  \<open>None\<close> when a future is still pending.
\<close>

fun complete :: "nat list \<Rightarrow> (exn + 'a) list \<Rightarrow> (exn + 'a) option list \<Rightarrow> (exn + 'a) option list" where
  "complete [] outs futures = futures"
| "complete (i # rest) outs futures =
     (if i < length outs then complete rest outs (futures[i := Some (outs ! i)])
      else complete rest outs futures)"

fun read_futures :: "'b option list \<Rightarrow> 'b list option" where
  "read_futures [] = Some []"
| "read_futures (None # fs) = None"
| "read_futures (Some r # fs) = (case read_futures fs of None \<Rightarrow> None | Some rs \<Rightarrow> Some (r # rs))"

definition gather_return_exceptions :: "nat list \<Rightarrow> (exn + 'a) list \<Rightarrow> (exn + 'a) list option" where
  "gather_return_exceptions order outs =
     read_futures
       (complete (completion_order order (length outs)) outs (replicate (length outs) None))"

section \<open>app/core/report\_generator.py: the fan-out over the data sources\<close>

text \<open>
  \<open>_safe_extract\<close> returns the dictionary \<open>{"error": message}\<close> or the source's own
  result; none of the five sources returns a dictionary of that shape, so the two are
  kept apart by constructors. The index is a Python \<open>int\<close>: a negative index counts
  from the end.
\<close>

datatype 'a extracted = ErrorMarker string | SourceData 'a

definition safe_extract :: "(exn + 'a) list \<Rightarrow> int \<Rightarrow> exn + 'a extracted" where
  "safe_extract results index =
     (if index \<ge> int (length results) then Inr (ErrorMarker ''Result index out of range'')
      else if index < - int (length results) then Inl (IndexError ''list index out of range'')
      else (case results ! nat (if index < 0 then index + int (length results) else index) of
              Inl e \<Rightarrow> Inr (ErrorMarker (str_exn e))
            | Inr v \<Rightarrow> Inr (SourceData v)))"

text \<open>
  The fan-out of \<open>generate_report_async\<close> in this module, inside its \<open>try\<close>. Before
  the tasks are made, the first source is awaited once on its own
  (\<open>serper_data = await self.serper_source.fetch_data(...)\<close>): an exception raised
  there leaves the \<open>try\<close>. Then the tasks (five in the source) are gathered with
  \<open>return_exceptions=True\<close>, and the raw data is read off with \<open>_safe_extract\<close> at the
  indices 0 to 4.
\<close>

fun extract_all :: "(exn + 'a) list \<Rightarrow> nat list \<Rightarrow> exn + 'a extracted list" where
  "extract_all results [] = Inr []"
| "extract_all results (i # rest) =
     (case safe_extract results (int i) of
        Inl e \<Rightarrow> Inl e
      | Inr x \<Rightarrow> (case extract_all results rest of Inl e \<Rightarrow> Inl e | Inr xs \<Rightarrow> Inr (x # xs)))"

definition collect_sources ::
  "exn + 'a \<Rightarrow> nat list \<Rightarrow> (exn + 'a) list \<Rightarrow> (exn + 'a extracted list) option" where
  "collect_sources serper_data order outs =
     (case serper_data of
        Inl e \<Rightarrow> Some (Inl e)
      | Inr v \<Rightarrow>
          (case gather_return_exceptions order outs of
             None \<Rightarrow> None
           | Some results \<Rightarrow> Some (extract_all results [0, 1, 2, 3, 4])))"

definition is_marker :: "'a extracted \<Rightarrow> bool" where
  "is_marker x = (case x of ErrorMarker m \<Rightarrow> True | SourceData v \<Rightarrow> False)"

text \<open>What an entry of the raw data is to be for an outcome: the marker of a failure, or the data.\<close>

definition marker_or_data :: "exn + 'a \<Rightarrow> 'a extracted" where
  "marker_or_data out = (case out of Inl e \<Rightarrow> ErrorMarker (str_exn e) | Inr v \<Rightarrow> SourceData v)"

text \<open>The results a \<open>gather\<close> without \<open>return_exceptions\<close> is to return when no task fails.\<close>

definition values_of :: "(exn + 'a) list \<Rightarrow> 'a list" where
  "values_of outs = concat (map (\<lambda>out. case out of Inl e \<Rightarrow> [] | Inr v \<Rightarrow> [v]) outs)"

section \<open>app/data\_sources/openai\_websearch.py and web\_searcher.py\<close>

record WebSearchResponse =
  content :: string
  link :: string

record raw_data =
  company_name :: string
  url :: string
  website_data :: "(string \<times> WebSearchResponse) list"

text \<open>
  The collaborators of one orchestration run, each a function to the value it returns or
  the exception it raises:
  \<^item> \<open>urlparse_netloc\<close>: \<open>urlparse(url).netloc\<close>;
  \<^item> \<open>search_llm topic website\<close>: the call \<open>self.llm.get_response(model=SEARCH_MODEL,
    prompt=...)\<close> of \<open>search_on_website\<close>, the prompt being built from the two;
  \<^item> \<open>parse_answer\<close>: \<open>parse_json_markdown\<close> followed by the construction of the
    \<open>WebSearchResponse\<close>;
  \<^item> \<open>overview_generate\<close>, \<open>product_generate\<close>, \<open>market_generate\<close>: the
    \<open>generate\<close> methods of the three section processors;
  \<^item> \<open>searches_order\<close>, \<open>sections_order\<close>: the orders in which the five search
    tasks and the three section tasks finish.
\<close>

record env =
  urlparse_netloc :: "string \<Rightarrow> exn + string"
  search_llm :: "string \<Rightarrow> string \<Rightarrow> exn + llm_reply"
  parse_answer :: "llm_reply \<Rightarrow> exn + WebSearchResponse"
  overview_generate :: "raw_data \<Rightarrow> exn + llm_reply"
  product_generate :: "raw_data \<Rightarrow> exn + llm_reply"
  market_generate :: "raw_data \<Rightarrow> exn + llm_reply"
  searches_order :: "nat list"
  sections_order :: "nat list"

text \<open>
  \<open>search_on_website\<close>: the prompt is built outside the \<open>try\<close> (\<open>str.replace\<close> raises
  \<open>TypeError\<close> for a \<open>website_url\<close> that is \<open>None\<close>); everything inside the \<open>try\<close> is
  answered by the \<open>N/A\<close> response.
\<close>

definition search_on_website :: "env \<Rightarrow> string \<Rightarrow> string option \<Rightarrow> exn + WebSearchResponse" where
  "search_on_website en topic website_url =
     (case website_url of
        None \<Rightarrow> Inl (TypeError ''replace() argument 2 must be str, not None'')
      | Some w \<Rightarrow>
          (case (case search_llm en topic w of
                   Inl e \<Rightarrow> Inl e
                 | Inr response \<Rightarrow> parse_answer en response) of
             Inl e \<Rightarrow> Inr \<lparr>content = ''N/A'', link = ''N/A''\<rparr>
           | Inr result \<Rightarrow> Inr result))"

definition info_topics :: "(string \<times> string) list" where
  "info_topics =
    [(''company_name'', ''What is the name of the company?''),
     (''business_model'',
      ''What is the business model of the company? It can be B2B, B2C, C2C, etc.''),
     (''products_services'', ''What products and/or services does the company offer?''),
     (''market'', ''What market does the company work in?''),
     (''team'', ''Who are the founders and team members of the company?'')]"

text \<open>The value bound to \<open>answer\<close> in \<open>fetch_info\<close>: a response object, or the string of the handler.\<close>

datatype answer = AnswerModel WebSearchResponse | AnswerStr string

definition fetch_info :: "env \<Rightarrow> ScreenerJob \<Rightarrow> string \<Rightarrow> string \<Rightarrow> string \<times> answer" where
  "fetch_info en job key topic =
     (case search_on_website en topic (domain job) of
        Inr a \<Rightarrow> (key, AnswerModel a)
      | Inl e \<Rightarrow> (key, AnswerStr ''N/A''))"

text \<open>\<open>answer.dict()\<close>: a method of the response object; a \<open>str\<close> has none.\<close>

fun answer_dict :: "answer \<Rightarrow> exn + WebSearchResponse" where
  "answer_dict (AnswerModel r) = Inr r"
| "answer_dict (AnswerStr s) =
     Inl (AttributeError (py_repr ''str'' @ '' object has no attribute '' @ py_repr ''dict''))"

text \<open>The dictionary comprehension \<open>{key: answer.dict() for key, answer in results_list}\<close>.\<close>

fun results_dict :: "(string \<times> answer) list \<Rightarrow> exn + (string \<times> WebSearchResponse) list" where
  "results_dict [] = Inr []"
| "results_dict ((key, a) # rest) =
     (case answer_dict a of
        Inl e \<Rightarrow> Inl e
      | Inr d \<Rightarrow> (case results_dict rest of Inl e \<Rightarrow> Inl e | Inr ds \<Rightarrow> Inr ((key, d) # ds)))"

text \<open>
  \<open>get_company_info\<close>: one \<open>fetch_info\<close> task for each topic, gathered without
  \<open>return_exceptions\<close>; \<open>fetch_info\<close> handles every exception of its search, so
  each task returns.
\<close>

definition get_company_info :: "env \<Rightarrow> ScreenerJob \<Rightarrow> exn + (string \<times> WebSearchResponse) list" where
  "get_company_info en job =
     (let tasks = map (\<lambda>(key, topic). Inr (fetch_info en job key topic)) info_topics
      in case gather (searches_order en) tasks of
           Inl e \<Rightarrow> Inl e
         | Inr results_list \<Rightarrow> results_dict results_list)"

section \<open>app/processors/report\_generator.py: the orchestrator\<close>

text \<open>
  The override of the company name. \<open>website_data["company_name"]\<close> is the dictionary
  of a response (two keys, so it is true as a condition); its \<open>content\<close> replaces the
  derived name when it is longer than three characters.
\<close>

definition resolve_company_name :: "(string \<times> WebSearchResponse) list \<Rightarrow> string \<Rightarrow> exn + string" where
  "resolve_company_name wd derived =
     (case py_getitem wd ''company_name'' of
        Inl e \<Rightarrow> Inl e
      | Inr entry \<Rightarrow> if length (content entry) > 3 then Inr (content entry) else Inr derived)"

text \<open>
  A field of \<open>ReportModel\<close> is \<open>str | None\<close>: the constructor accepts a string or \<open>None\<close>
  and raises a \<open>ValidationError\<close> (its text abbreviated here) for the dictionary of an
  annotated reply.
\<close>

fun field_value :: "llm_reply \<Rightarrow> exn + string option" where
  "field_value (ContentReply c) = Inr c"
| "field_value (AnnotatedReply a c) = Inl (ValidationError ''validation error for ReportModel'')"

definition make_report :: "llm_reply \<Rightarrow> llm_reply \<Rightarrow> llm_reply \<Rightarrow> exn + ReportModel" where
  "make_report r0 r1 r2 =
     (case (field_value r0, field_value r1, field_value r2) of
        (Inr f0, Inr f1, Inr f2) \<Rightarrow>
          Inr \<lparr>company_overview = f0, product_business_model = f1, market_analysis = f2,
               competitive_landscape = None, financial_metrics = None,
               fundraising_history = None, team_key_stakeholders = None\<rparr>
      | _ \<Rightarrow> Inl (ValidationError ''validation error for ReportModel''))"

text \<open>\<open>_generate_report_sections\<close>: the three section tasks, gathered without \<open>return_exceptions\<close>.\<close>

definition generate_report_sections :: "env \<Rightarrow> raw_data \<Rightarrow> exn + ReportModel" where
  "generate_report_sections en raw =
     (case gather (sections_order en)
             [overview_generate en raw, product_generate en raw, market_generate en raw] of
        Inl e \<Rightarrow> Inl e
      | Inr results \<Rightarrow>
          (case results of
             r0 # r1 # r2 # _ \<Rightarrow> make_report r0 r1 r2
           | _ \<Rightarrow> Inl (IndexError ''list index out of range'')))"

text \<open>
  The run of \<open>generate_report_async\<close> is recorded as a trace: the store after each
  statement that writes to the job (\<open>Stmt\<close>), the store at each \<open>await\<close> of the function,
  where the coroutine is suspended and other tasks of the event loop run (\<open>Await\<close>), the
  store on entry (\<open>Entry\<close>) and on return (\<open>Return\<close>). The job is an object held by the
  store, so an assignment to one of its attributes is a store update. Between two
  suspension points no other task runs.
\<close>

datatype point = Entry | Stmt | Await | Return

type_synonym trace = "(point \<times> jobs_db) list"

definition observable :: "point \<Rightarrow> bool" where
  "observable p = (p \<noteq> Stmt)"

text \<open>The body of the \<open>try\<close>: the trace, the store it leaves and its outcome.\<close>

definition try_block :: "env \<Rightarrow> string \<Rightarrow> string \<Rightarrow> jobs_db \<Rightarrow> trace \<times> jobs_db \<times> (exn + ReportModel)" where
  "try_block en jid url_arg db =
     (case db jid of
        None \<Rightarrow> ([], db, Inl (KeyError jid))
      | Some job \<Rightarrow>
          (let job1 = job\<lparr>ScreenerJob.status := PROCESSING\<rparr>;
               db1 = db(jid \<mapsto> job1);
               t1 = [(Stmt, db1)]
           in case extract_domain_from_url (urlparse_netloc en) url_arg of
                Inl e \<Rightarrow> (t1, db1, Inl e)
              | Inr d \<Rightarrow>
                  (let job2 = job1\<lparr>domain := Some d\<rparr>;
                       db2 = db1(jid \<mapsto> job2);
                       t2 = t1 @ [(Stmt, db2)]
                   in case extract_company_name_from_url (urlparse_netloc en) url_arg of
                        Inl e \<Rightarrow> (t2, db2, Inl e)
                      | Inr derived \<Rightarrow>
                          (let t3 = t2 @ [(Await, db2)]
                           in case get_company_info en job2 of
                                Inl e \<Rightarrow> (t3, db2, Inl e)
                              | Inr wd \<Rightarrow>
                                  (case resolve_company_name wd derived of
                                     Inl e \<Rightarrow> (t3, db2, Inl e)
                                   | Inr name \<Rightarrow>
                                       (let raw = \<lparr>company_name = name, url = url_arg,
                                                   website_data = wd\<rparr>;
                                            t4 = t3 @ [(Await, db2)]
                                        in case generate_report_sections en raw of
                                             Inl e \<Rightarrow> (t4, db2, Inl e)
                                           | Inr rep \<Rightarrow>
                                               (let job3 = job2\<lparr>report := Some rep\<rparr>;
                                                    db3 = db2(jid \<mapsto> job3);
                                                    job4 = job3\<lparr>ScreenerJob.status := COMPLETED\<rparr>;
                                                    db4 = db3(jid \<mapsto> job4);
                                                    db5 = db4(jid \<mapsto> job4)
                                                in (t4 @ [(Stmt, db3), (Stmt, db4), (Stmt, db5)],
                                                    db5, Inr rep))))))))"

text \<open>
  The handler \<open>except Exception as e\<close>. The subscript \<open>jobs_db[self.job_id]\<close> under the
  test \<open>self.job_id in jobs_db\<close> keeps its \<open>KeyError\<close> branch.
\<close>

definition except_block :: "string \<Rightarrow> exn \<Rightarrow> jobs_db \<Rightarrow> trace \<times> (exn + ReportModel option)" where
  "except_block jid e db =
     (if db jid \<noteq> None then
        (case db jid of
           None \<Rightarrow> ([], Inl (KeyError jid))
         | Some job \<Rightarrow>
             (let job1 = job\<lparr>ScreenerJob.status := FAILED\<rparr>;
                  db1 = db(jid \<mapsto> job1);
                  job2 = job1\<lparr>error := Some (str_exn e)\<rparr>;
                  db2 = db1(jid \<mapsto> job2);
                  db3 = db2(jid \<mapsto> job2)
              in ([(Stmt, db1), (Stmt, db2), (Stmt, db3), (Return, db3)], Inr None)))
      else ([(Return, db)], Inr None))"

text \<open>
  \<open>generate_report_async\<close>: the trace of the run and what the call gives its caller, the
  report (\<open>return report\<close>), \<open>None\<close> (the end of the handler) or an exception.
\<close>

definition generate_report_async ::
  "env \<Rightarrow> string \<Rightarrow> string \<Rightarrow> jobs_db \<Rightarrow> trace \<times> (exn + ReportModel option)" where
  "generate_report_async en jid url_arg db =
     (case try_block en jid url_arg db of
        (t, db', Inr rep) \<Rightarrow> ((Entry, db) # t @ [(Return, db')], Inr (Some rep))
      | (t, db', Inl e) \<Rightarrow>
          (case except_block jid e db' of (t', r) \<Rightarrow> ((Entry, db) # t @ t', r)))"

definition final_db :: "trace \<times> (exn + ReportModel option) \<Rightarrow> jobs_db" where
  "final_db run = snd (last (fst run))"

text \<open>
  The same function when an \<open>await\<close> can also raise an exception that is not under
  \<open>Exception\<close>: \<open>info_interrupt\<close> is what the \<open>await\<close> of \<open>get_company_info\<close> raises
  of that kind (the cancellation of the task while it is suspended there, for one), if
  anything, and \<open>sections_interrupt\<close> the same for the \<open>await\<close> of
  \<open>_generate_report_sections\<close>. The handler \<open>except Exception\<close> does not catch such an
  exception: it leaves the function, and the trace ends at the \<open>await\<close>. An outcome is
  \<open>Inl b\<close> for such an exception, and \<open>Inr\<close> of the outcome as above otherwise.
\<close>

definition try_block_base ::
  "env \<Rightarrow> base_exn option \<Rightarrow> base_exn option \<Rightarrow> string \<Rightarrow> string \<Rightarrow> jobs_db \<Rightarrow>
   trace \<times> jobs_db \<times> (base_exn + exn + ReportModel)" where
  "try_block_base en info_interrupt sections_interrupt jid url_arg db =
     (case db jid of
        None \<Rightarrow> ([], db, Inr (Inl (KeyError jid)))
      | Some job \<Rightarrow>
          (let job1 = job\<lparr>ScreenerJob.status := PROCESSING\<rparr>;
               db1 = db(jid \<mapsto> job1);
               t1 = [(Stmt, db1)]
           in case extract_domain_from_url (urlparse_netloc en) url_arg of
                Inl e \<Rightarrow> (t1, db1, Inr (Inl e))
              | Inr d \<Rightarrow>
                  (let job2 = job1\<lparr>domain := Some d\<rparr>;
                       db2 = db1(jid \<mapsto> job2);
                       t2 = t1 @ [(Stmt, db2)]
                   in case extract_company_name_from_url (urlparse_netloc en) url_arg of
                        Inl e \<Rightarrow> (t2, db2, Inr (Inl e))
                      | Inr derived \<Rightarrow>
                          (let t3 = t2 @ [(Await, db2)]
                           in case info_interrupt of
                                Some b \<Rightarrow> (t3, db2, Inl b)
                              | None \<Rightarrow>
                                  (case get_company_info en job2 of
                                     Inl e \<Rightarrow> (t3, db2, Inr (Inl e))
                                   | Inr wd \<Rightarrow>
                                       (case resolve_company_name wd derived of
                                          Inl e \<Rightarrow> (t3, db2, Inr (Inl e))
                                        | Inr name \<Rightarrow>
                                            (let raw = \<lparr>company_name = name, url = url_arg,
                                                        website_data = wd\<rparr>;
                                                 t4 = t3 @ [(Await, db2)]
                                             in case sections_interrupt of
                                                  Some b \<Rightarrow> (t4, db2, Inl b)
                                                | None \<Rightarrow>
                                                    (case generate_report_sections en raw of
                                                       Inl e \<Rightarrow> (t4, db2, Inr (Inl e))
                                                     | Inr rep \<Rightarrow>
                                                         (let job3 = job2\<lparr>report := Some rep\<rparr>;
                                                              db3 = db2(jid \<mapsto> job3);
                                                              job4 =
                                                                job3\<lparr>ScreenerJob.status := COMPLETED\<rparr>;
                                                              db4 = db3(jid \<mapsto> job4);
                                                              db5 = db4(jid \<mapsto> job4)
                                                          in (t4 @ [(Stmt, db3), (Stmt, db4),
                                                                    (Stmt, db5)],
                                                              db5, Inr (Inr rep)))))))))))"

definition generate_report_async_base ::
  "env \<Rightarrow> base_exn option \<Rightarrow> base_exn option \<Rightarrow> string \<Rightarrow> string \<Rightarrow> jobs_db \<Rightarrow>
   trace \<times> (base_exn + exn + ReportModel option)" where
  "generate_report_async_base en info_interrupt sections_interrupt jid url_arg db =
     (case try_block_base en info_interrupt sections_interrupt jid url_arg db of
        (t, db', Inl b) \<Rightarrow> ((Entry, db) # t, Inl b)
      | (t, db', Inr (Inr rep)) \<Rightarrow> ((Entry, db) # t @ [(Return, db')], Inr (Inr (Some rep)))
      | (t, db', Inr (Inl e)) \<Rightarrow>
          (case except_block jid e db' of (t', r) \<Rightarrow> ((Entry, db) # t @ t', Inr r)))"

definition final_store :: "trace \<Rightarrow> jobs_db" where
  "final_store t = snd (last t)"

text \<open>The states of one job along a trace, and the two properties asked of them.\<close>

definition job_states :: "string \<Rightarrow> trace \<Rightarrow> (point \<times> ScreenerJob option) list" where
  "job_states jid t = map (\<lambda>(p, db). (p, db jid)) t"

definition job_consistent :: "ScreenerJob \<Rightarrow> bool" where
  "job_consistent job =
     ((report job \<noteq> None) = (ScreenerJob.status job = COMPLETED)
      \<and> (error job \<noteq> None) = (ScreenerJob.status job = FAILED))"

definition status_step :: "JobStatus \<Rightarrow> JobStatus \<Rightarrow> bool" where
  "status_step s s' =
     (s' = s \<or> (s = PENDING \<and> s' = PROCESSING)
      \<or> (s = PROCESSING \<and> (s' = COMPLETED \<or> s' = FAILED)))"

fun lifecycle :: "JobStatus list \<Rightarrow> bool" where
  "lifecycle [] = True"
| "lifecycle [s] = True"
| "lifecycle (s # s' # rest) = (status_step s s' \<and> lifecycle (s' # rest))"

fun state_ok :: "point \<times> ScreenerJob option \<Rightarrow> bool" where
  "state_ok (p, None) = False"
| "state_ok (p, Some job) = job_consistent job"

definition every_state_consistent :: "(point \<times> ScreenerJob option) list \<Rightarrow> bool" where
  "every_state_consistent js = list_all state_ok js"

definition observable_states :: "(point \<times> ScreenerJob option) list \<Rightarrow> (point \<times> ScreenerJob option) list" where
  "observable_states js = filter (\<lambda>(p, j). observable p) js"

fun statuses :: "(point \<times> ScreenerJob option) list \<Rightarrow> JobStatus list" where
  "statuses [] = []"
| "statuses ((p, None) # js) = statuses js"
| "statuses ((p, Some job) # js) = ScreenerJob.status job # statuses js"

text \<open>
  What \<open>search_on_website\<close> answers for a topic and a website: the parsed response, or
  the \<open>N/A\<close> response when the call or the parsing fails.
\<close>

definition website_answer :: "env \<Rightarrow> string \<Rightarrow> string \<Rightarrow> WebSearchResponse" where
  "website_answer en topic w =
     (case search_llm en topic w of
        Inl e \<Rightarrow> \<lparr>content = ''N/A'', link = ''N/A''\<rparr>
      | Inr response \<Rightarrow>
          (case parse_answer en response of
             Inl e \<Rightarrow> \<lparr>content = ''N/A'', link = ''N/A''\<rparr>
           | Inr result \<Rightarrow> result))"

definition strip_www :: "string \<Rightarrow> string" where
  "strip_www netloc = (if take 4 netloc = ''www.'' then drop 4 netloc else netloc)"

text \<open>
  The raw data a run is to hand to the section processors, for a URL whose network
  location is \<open>n\<close>: the answers of the five searches on the domain, and as company name
  the answer to the first topic when it is longer than three characters, the name
  derived from the host label otherwise.
\<close>

definition website_answers :: "env \<Rightarrow> string \<Rightarrow> (string \<times> WebSearchResponse) list" where
  "website_answers en w = map (\<lambda>(key, topic). (key, website_answer en topic w)) info_topics"

definition resolved_name :: "env \<Rightarrow> string \<Rightarrow> string" where
  "resolved_name en n =
     (if length (content (website_answer en ''What is the name of the company?'' (strip_www n))) > 3
      then content (website_answer en ''What is the name of the company?'' (strip_www n))
      else host_label_name n)"

definition run_raw_data :: "env \<Rightarrow> string \<Rightarrow> string \<Rightarrow> raw_data" where
  "run_raw_data en u n =
     \<lparr>company_name = resolved_name en n, url = u,
      website_data = website_answers en (strip_www n)\<rparr>"

section \<open>Reading a log of events\<close>

fun sent_requests :: "event list \<Rightarrow> chat_request list" where
  "sent_requests [] = []"
| "sent_requests (Create r # evs) = r # sent_requests evs"
| "sent_requests (Sleep d # evs) = sent_requests evs"

fun sleeps :: "event list \<Rightarrow> nat list" where
  "sleeps [] = []"
| "sleeps (Create r # evs) = sleeps evs"
| "sleeps (Sleep d # evs) = d # sleeps evs"

definition roles :: "chat_request \<Rightarrow> string list" where
  "roles r = map fst (messages r)"

section \<open>Collaborators and inputs of the examples\<close>

definition always_rate_limited :: "nat \<Rightarrow> chat_request \<Rightarrow> exn + chat_completion" where
  "always_rate_limited n r = Inl (RateLimitError ''429'')"

definition fails_at_third :: "nat \<Rightarrow> chat_request \<Rightarrow> exn + chat_completion" where
  "fails_at_third n r = (if n < 2 then Inl (RateLimitError ''429'') else Inl (OtherError ''500''))"

definition sample_completion :: chat_completion where
  "sample_completion =
     \<lparr>usage = Some \<lparr>prompt_tokens = 1000, completion_tokens = 500\<rparr>,
      choices = [\<lparr>chat_message.content = Some ''hello'', annotations = []\<rparr>]\<rparr>"

definition always_answers :: "nat \<Rightarrow> chat_request \<Rightarrow> exn + chat_completion" where
  "always_answers n r = Inr sample_completion"

text \<open>
  Calls of the default model: one with 10000 prompt tokens and 10000 completion tokens,
  which costs \<open>0.1\<close>, and one with 125000 prompt tokens and no completion token, which
  costs \<open>0.25\<close>. Six of the first kind, resumed in another order than they were started;
  two of the second kind.
\<close>

definition tenth_completion :: chat_completion where
  "tenth_completion =
     \<lparr>usage = Some \<lparr>prompt_tokens = 10000, completion_tokens = 10000\<rparr>,
      choices = [\<lparr>chat_message.content = Some ''hello'', annotations = []\<rparr>]\<rparr>"

definition quarter_completion :: chat_completion where
  "quarter_completion =
     \<lparr>usage = Some \<lparr>prompt_tokens = 125000, completion_tokens = 0\<rparr>,
      choices = [\<lparr>chat_message.content = Some ''hello'', annotations = []\<rparr>]\<rparr>"

definition six_calls :: "generation_call list" where
  "six_calls = replicate 6 (None, Inr tenth_completion)"

definition six_schedule :: "sched list" where
  "six_schedule =
     [Start 0, Start 1, Start 2, Resume 1, Start 3, Start 4, Resume 4, Resume 0, Start 5,
      Resume 5, Resume 2, Resume 3]"

definition two_calls :: "generation_call list" where
  "two_calls = [(None, Inr quarter_completion), (Some '''', Inr quarter_completion)]"

definition two_schedule :: "sched list" where
  "two_schedule = [Start 0, Start 1, Resume 1, Resume 0]"

definition five_outcomes :: "(exn + string) list" where
  "five_outcomes =
     [Inr ''search'', Inr ''research'', Inl (OtherError ''503''), Inr ''linkedin'', Inr ''funding'']"

definition sample_report :: ReportModel where
  "sample_report =
     \<lparr>company_overview = Some ''overview'', product_business_model = Some ''product'',
      market_analysis = Some ''market'', competitive_landscape = None,
      financial_metrics = None, fundraising_history = None, team_key_stakeholders = None\<rparr>"

definition sample_db :: jobs_db where
  "sample_db =
     [''a'' \<mapsto> \<lparr>id_field = ''a'', status = COMPLETED, url = ''https://acme.co/'',
                 domain = Some ''acme.co'', report = Some sample_report, error = None\<rparr>,
      ''b'' \<mapsto> \<lparr>id_field = ''b'', status = PROCESSING, url = ''https://acme.co/'',
                 domain = Some ''acme.co'', report = None, error = None\<rparr>]"

text \<open>
  A run in which the search resolves the name \<open>Acme Robotics\<close> and every section
  processor answers with the company name it is given; the same with a search that always
  fails; and the same with an overview processor that raises.
\<close>

definition acme_parse :: "llm_reply \<Rightarrow> exn + WebSearchResponse" where
  "acme_parse reply =
     (case reply of
        ContentReply (Some t) \<Rightarrow>
          if t = ''What is the name of the company?''
          then Inr \<lparr>content = ''Acme Robotics'', link = ''https://acme.co/about''\<rparr>
          else Inr \<lparr>content = ''N/A'', link = ''N/A''\<rparr>
      | _ \<Rightarrow> Inl (OtherError ''no json''))"

definition echo_name :: "raw_data \<Rightarrow> exn + llm_reply" where
  "echo_name raw = Inr (ContentReply (Some (company_name raw)))"

definition acme_env :: env where
  "acme_env =
     \<lparr>urlparse_netloc = py_urlparse_netloc,
      search_llm = (\<lambda>topic w. Inr (ContentReply (Some topic))),
      parse_answer = acme_parse,
      overview_generate = echo_name, product_generate = echo_name,
      market_generate = echo_name,
      searches_order = [4, 3, 2, 1, 0],
      sections_order = [2, 0, 1]\<rparr>"

definition search_down_env :: env where
  "search_down_env = acme_env\<lparr>search_llm := (\<lambda>topic w. Inl (OtherError ''timeout''))\<rparr>"

definition overview_fails_env :: env where
  "overview_fails_env =
     acme_env\<lparr>overview_generate := (\<lambda>raw. Inl (RateLimitError ''429''))\<rparr>"

definition acme_url :: string where
  "acme_url = ''https://acme.co/about''"

definition acme_db :: jobs_db where
  "acme_db = fst (generate Map.empty ''j'' acme_url)"

definition named_report :: "string \<Rightarrow> ReportModel" where
  "named_report name =
     \<lparr>company_overview = Some name, product_business_model = Some name,
      market_analysis = Some name, competitive_landscape = None,
      financial_metrics = None, fundraising_history = None, team_key_stakeholders = None\<rparr>"

definition userinfo_url :: string where
  "userinfo_url = ''https://bob@acme.co/''"

definition bad_url :: string where
  "bad_url = ''http://[acme/''"

definition bad_db :: jobs_db where
  "bad_db = fst (generate Map.empty ''j'' bad_url)"

section \<open>Theorems: the text generator adapter\<close>

lemma range_max_retries: "[0..<max_retries] = [0, 1, 2, 3, 4]"
  by (simp add: max_retries_def upt_rec)

lemma get_openai_response_unfold:
  "get_openai_response create p sp mt m =
     retry_loop create p (system_prompt_or_default sp) mt m [0, 1, 2, 3, 4] 1"
  by (simp add: get_openai_response_def range_max_retries)

lemma retry_loop_requests_aux:
  "retry_loop create p sp mt m atts b = (evs, res) \<Longrightarrow> x \<in> set (sent_requests evs) \<Longrightarrow>
     x = build_request p sp mt m"
  by (induction atts arbitrary: b evs res)
     (auto simp: Let_def split: sum.splits prod.splits if_splits)

lemma retry_loop_requests:
  "\<forall>r \<in> set (sent_requests (fst (retry_loop create p sp mt m atts b))).
     r = build_request p sp mt m"
  using retry_loop_requests_aux[of create p sp mt m atts b] by (metis prod.collapse)

lemma retry_loop_sends:
  "atts \<noteq> [] \<Longrightarrow> sent_requests (fst (retry_loop create p sp mt m atts b)) \<noteq> []"
  by (cases atts) (auto simp: Let_def split: sum.splits prod.splits)

lemma requests_of_call:
  "sent_requests (fst (get_openai_response create p sp mt m)) \<noteq> [] \<and>
   (\<forall>r \<in> set (sent_requests (fst (get_openai_response create p sp mt m))).
      r = build_request p (system_prompt_or_default sp) mt m)"
  unfolding get_openai_response_unfold
  using retry_loop_requests[of create p "system_prompt_or_default sp" mt m "[0, 1, 2, 3, 4]" 1]
    retry_loop_sends[of "[0, 1, 2, 3, 4]" create p "system_prompt_or_default sp" mt m 1]
  by simp

text \<open>
  C9. Every request a generation call sends carries the model identifier it was called
  with, and its shape is decided by the prefix of that identifier alone: for an identifier
  starting with \<open>o1-\<close> or \<open>gpt-4o-search\<close> the only message has the role \<open>user\<close> and
  no sampling parameter is passed; for every other identifier the messages are a
  \<open>system\<close> message and a \<open>user\<close> message, with the seed 666, the temperature 0.5 and
  the token limit. Two calls with the same identifier send requests of the same shape,
  whatever the backend, the prompts and the token limit are. A call sends at least one
  request.
\<close>

theorem calling_convention_by_model_prefix:
  "sent_requests (fst (get_openai_response create p sp mt m)) \<noteq> [] \<and>
   (\<forall>r \<in> set (sent_requests (fst (get_openai_response create p sp mt m))).
      model r = m \<and>
      (if startswith m ''o1-'' \<or> startswith m ''gpt-4o-search''
       then roles r = [''user''] \<and> seed r = None \<and> temperature r = None
            \<and> max_tokens r = None
       else roles r = [''system'', ''user''] \<and> seed r = Some 666
            \<and> temperature r = Some (1 / 2) \<and> max_tokens r = Some mt) \<and>
      (\<forall>r' \<in> set (sent_requests (fst (get_openai_response create' p' sp' mt' m))).
         roles r' = roles r \<and> seed r' = seed r \<and> temperature r' = temperature r))"
proof -
  have a: "\<And>r. r \<in> set (sent_requests (fst (get_openai_response create p sp mt m)))
             \<Longrightarrow> r = build_request p (system_prompt_or_default sp) mt m"
    using requests_of_call[of create p sp mt m] by blast
  have b: "\<And>r. r \<in> set (sent_requests (fst (get_openai_response create' p' sp' mt' m)))
             \<Longrightarrow> r = build_request p' (system_prompt_or_default sp') mt' m"
    using requests_of_call[of create' p' sp' mt' m] by blast
  have ne: "sent_requests (fst (get_openai_response create p sp mt m)) \<noteq> []"
    using requests_of_call[of create p sp mt m] by blast
  show ?thesis
  proof (intro conjI ballI)
    show "sent_requests (fst (get_openai_response create p sp mt m)) \<noteq> []" by (rule ne)
  next
    fix r assume "r \<in> set (sent_requests (fst (get_openai_response create p sp mt m)))"
    then have r: "r = build_request p (system_prompt_or_default sp) mt m" by (rule a)
    show "model r = m" by (simp add: r build_request_def)
    show "if startswith m ''o1-'' \<or> startswith m ''gpt-4o-search''
       then roles r = [''user''] \<and> seed r = None \<and> temperature r = None
            \<and> max_tokens r = None
       else roles r = [''system'', ''user''] \<and> seed r = Some 666
            \<and> temperature r = Some (1 / 2) \<and> max_tokens r = Some mt"
      by (simp add: r build_request_def roles_def)
    fix r' assume "r' \<in> set (sent_requests (fst (get_openai_response create' p' sp' mt' m)))"
    then have r': "r' = build_request p' (system_prompt_or_default sp') mt' m" by (rule b)
    show "roles r' = roles r" by (simp add: r r' build_request_def roles_def)
    show "seed r' = seed r" by (simp add: r r' build_request_def)
    show "temperature r' = temperature r" by (simp add: r r' build_request_def)
  qed
qed

theorem calling_convention_by_model_prefix_witness:
  "map roles (sent_requests (fst (get_openai_response always_answers ''hi'' None 4096 ''o1-mini'')))
     = [[''user'']] \<and>
   map seed (sent_requests (fst (get_openai_response always_answers ''hi'' None 4096 ''o1-mini'')))
     = [None] \<and>
   map roles (sent_requests (fst (get_openai_response always_answers ''hi'' None 4096 ''gpt-4o'')))
     = [[''system'', ''user'']] \<and>
   map seed (sent_requests (fst (get_openai_response always_answers ''hi'' None 4096 ''gpt-4o'')))
     = [Some 666]"
  using calling_convention_by_model_prefix
          [of always_answers "''hi''" None 4096 "''o1-mini''" always_answers "''hi''" None 4096]
        calling_convention_by_model_prefix
          [of always_answers "''hi''" None 4096 "''gpt-4o''" always_answers "''hi''" None 4096]
  by (simp add: get_openai_response_unfold always_answers_def Let_def startswith_def)

lemma attempts_bounded:
  "length (sent_requests (fst (get_openai_response create p sp mt m))) \<le> 5"
  by (simp add: get_openai_response_unfold Let_def max_retries_def split: sum.splits)

lemma sleeps_prefix:
  "sleeps (fst (get_openai_response create p sp mt m)) =
     take (length (sent_requests (fst (get_openai_response create p sp mt m))) - 1) [1, 2, 4, 8]"
  by (simp add: get_openai_response_unfold Let_def max_retries_def split: sum.splits)

lemma persistent_rate_limit:
  assumes "\<forall>n r. \<exists>msg. create n r = Inl (RateLimitError msg)"
  shows "get_openai_response create p sp mt m =
     ([Create (build_request p (system_prompt_or_default sp) mt m), Sleep 1,
       Create (build_request p (system_prompt_or_default sp) mt m), Sleep 2,
       Create (build_request p (system_prompt_or_default sp) mt m), Sleep 4,
       Create (build_request p (system_prompt_or_default sp) mt m), Sleep 8,
       Create (build_request p (system_prompt_or_default sp) mt m)],
      create 4 (build_request p (system_prompt_or_default sp) mt m))"
proof -
  let ?rq = "build_request p (system_prompt_or_default sp) mt m"
  have r: "\<And>n. \<exists>msg. create n ?rq = Inl (RateLimitError msg)" using assms by blast
  obtain m0 where m0: "create 0 ?rq = Inl (RateLimitError m0)" using r[of 0] by blast
  obtain m1 where m1: "create (Suc 0) ?rq = Inl (RateLimitError m1)" using r[of "Suc 0"] by blast
  obtain m2 where m2: "create 2 ?rq = Inl (RateLimitError m2)" using r[of 2] by blast
  obtain m3 where m3: "create 3 ?rq = Inl (RateLimitError m3)" using r[of 3] by blast
  obtain m4 where m4: "create 4 ?rq = Inl (RateLimitError m4)" using r[of 4] by blast
  show ?thesis
    by (simp add: get_openai_response_unfold Let_def max_retries_def m0 m1 m2 m3 m4)
qed

lemma other_failure_immediate:
  assumes k: "k < 5"
    and rl: "\<forall>j<k. \<exists>msg. create j (build_request p (system_prompt_or_default sp) mt m)
                          = Inl (RateLimitError msg)"
    and e: "create k (build_request p (system_prompt_or_default sp) mt m) = Inl e"
           "\<not> is_RateLimitError e"
  shows "snd (get_openai_response create p sp mt m) = Inl e \<and>
         length (sent_requests (fst (get_openai_response create p sp mt m))) = k + 1 \<and>
         sleeps (fst (get_openai_response create p sp mt m)) = take k [1, 2, 4, 8] \<and>
         last (fst (get_openai_response create p sp mt m))
           = Create (build_request p (system_prompt_or_default sp) mt m)"
proof -
  let ?rq = "build_request p (system_prompt_or_default sp) mt m"
  have R: "\<And>j. j < k \<Longrightarrow> \<exists>msg. create j ?rq = Inl (RateLimitError msg)"
    using rl by blast
  from k have "k = 0 \<or> k = 1 \<or> k = 2 \<or> k = 3 \<or> k = 4" by arith
  then show ?thesis
  proof (elim disjE)
    assume "k = 0"
    with e show ?thesis by (simp add: get_openai_response_unfold Let_def max_retries_def)
  next
    assume k1: "k = 1"
    obtain m0 where "create 0 ?rq = Inl (RateLimitError m0)" using R[of 0] k1 by auto
    with e k1 show ?thesis by (simp add: get_openai_response_unfold Let_def max_retries_def)
  next
    assume k2: "k = 2"
    obtain m0 where m0: "create 0 ?rq = Inl (RateLimitError m0)" using R[of 0] k2 by auto
    obtain m1 where m1: "create (Suc 0) ?rq = Inl (RateLimitError m1)"
      using R[of "Suc 0"] k2 by auto
    with m0 e k2 show ?thesis by (simp add: get_openai_response_unfold Let_def max_retries_def)
  next
    assume k3: "k = 3"
    obtain m0 where m0: "create 0 ?rq = Inl (RateLimitError m0)" using R[of 0] k3 by auto
    obtain m1 where m1: "create (Suc 0) ?rq = Inl (RateLimitError m1)"
      using R[of "Suc 0"] k3 by auto
    obtain m2 where m2: "create 2 ?rq = Inl (RateLimitError m2)" using R[of 2] k3 by auto
    with m0 m1 e k3 show ?thesis
      by (simp add: get_openai_response_unfold Let_def max_retries_def)
  next
    assume k4: "k = 4"
    obtain m0 where m0: "create 0 ?rq = Inl (RateLimitError m0)" using R[of 0] k4 by auto
    obtain m1 where m1: "create (Suc 0) ?rq = Inl (RateLimitError m1)"
      using R[of "Suc 0"] k4 by auto
    obtain m2 where m2: "create 2 ?rq = Inl (RateLimitError m2)" using R[of 2] k4 by auto
    obtain m3 where m3: "create 3 ?rq = Inl (RateLimitError m3)" using R[of 3] k4 by auto
    with m0 m1 m2 e k4 show ?thesis
      by (simp add: get_openai_response_unfold Let_def max_retries_def)
  qed
qed

text \<open>
  C4, as the claim states it, asks for the backoff intervals 1, 2, 4, 8, 16. Under a
  backend that always signals the rate limit the delays of the call are 1, 2, 4, 8: the
  test \<open>attempt < max_retries - 1\<close> raises after the fifth failure without a delay, so
  a delay of 16 never occurs.
\<close>

theorem backoff_sixteen_counterexample:
  "sleeps (fst (get_openai_response always_rate_limited ''hi'' None 4096 ''gpt-4o''))
     \<noteq> [1, 2, 4, 8, 16]"
  by (simp add: get_openai_response_unfold always_rate_limited_def Let_def max_retries_def)

text \<open>
  C4, amended. A call sends at most 5 requests, and before each request after the first
  it waits: the delays are the first of 1, 2, 4, 8, one fewer than the requests. When
  every attempt is answered by the rate-limit error, the call sends 5 requests with the
  delays 1, 2, 4, 8 between them and raises the error of the fifth attempt, with no delay
  after it. When an attempt \<open>k\<close> (of 0 to 4) raises another exception, after \<open>k\<close>
  rate-limited attempts, the call raises that exception at once: \<open>k + 1\<close> requests,
  \<open>k\<close> delays, and the failed request is the last event.
\<close>

theorem retry_policy_four_backoffs:
  "length (sent_requests (fst (get_openai_response create p sp mt m))) \<le> 5 \<and>
   sleeps (fst (get_openai_response create p sp mt m)) =
     take (length (sent_requests (fst (get_openai_response create p sp mt m))) - 1) [1, 2, 4, 8] \<and>
   ((\<forall>n r. \<exists>msg. create n r = Inl (RateLimitError msg)) \<longrightarrow>
      length (sent_requests (fst (get_openai_response create p sp mt m))) = 5 \<and>
      sleeps (fst (get_openai_response create p sp mt m)) = [1, 2, 4, 8] \<and>
      last (fst (get_openai_response create p sp mt m))
        = Create (build_request p (system_prompt_or_default sp) mt m) \<and>
      snd (get_openai_response create p sp mt m)
        = create 4 (build_request p (system_prompt_or_default sp) mt m) \<and>
      (\<exists>msg. snd (get_openai_response create p sp mt m) = Inl (RateLimitError msg))) \<and>
   (\<forall>k e. k < 5
        \<and> (\<forall>j<k. \<exists>msg. create j (build_request p (system_prompt_or_default sp) mt m)
                         = Inl (RateLimitError msg))
        \<and> create k (build_request p (system_prompt_or_default sp) mt m) = Inl e
        \<and> \<not> is_RateLimitError e \<longrightarrow>
      snd (get_openai_response create p sp mt m) = Inl e \<and>
      length (sent_requests (fst (get_openai_response create p sp mt m))) = k + 1 \<and>
      sleeps (fst (get_openai_response create p sp mt m)) = take k [1, 2, 4, 8] \<and>
      last (fst (get_openai_response create p sp mt m))
        = Create (build_request p (system_prompt_or_default sp) mt m))"
proof (intro conjI impI allI)
  show "length (sent_requests (fst (get_openai_response create p sp mt m))) \<le> 5"
    by (rule attempts_bounded)
  show "sleeps (fst (get_openai_response create p sp mt m)) =
     take (length (sent_requests (fst (get_openai_response create p sp mt m))) - 1) [1, 2, 4, 8]"
    by (rule sleeps_prefix)
next
  assume a: "\<forall>n r. \<exists>msg. create n r = Inl (RateLimitError msg)"
  note run = persistent_rate_limit[OF a, of p sp mt m]
  show "length (sent_requests (fst (get_openai_response create p sp mt m))) = 5"
    by (simp add: run)
  show "sleeps (fst (get_openai_response create p sp mt m)) = [1, 2, 4, 8]"
    by (simp add: run)
  show "last (fst (get_openai_response create p sp mt m))
        = Create (build_request p (system_prompt_or_default sp) mt m)"
    by (simp add: run)
  show "snd (get_openai_response create p sp mt m)
        = create 4 (build_request p (system_prompt_or_default sp) mt m)"
    by (simp add: run)
  show "\<exists>msg. snd (get_openai_response create p sp mt m) = Inl (RateLimitError msg)"
    using a by (simp add: run)
next
  fix k e
  assume h: "k < 5
        \<and> (\<forall>j<k. \<exists>msg. create j (build_request p (system_prompt_or_default sp) mt m)
                         = Inl (RateLimitError msg))
        \<and> create k (build_request p (system_prompt_or_default sp) mt m) = Inl e
        \<and> \<not> is_RateLimitError e"
  then have r: "snd (get_openai_response create p sp mt m) = Inl e \<and>
         length (sent_requests (fst (get_openai_response create p sp mt m))) = k + 1 \<and>
         sleeps (fst (get_openai_response create p sp mt m)) = take k [1, 2, 4, 8] \<and>
         last (fst (get_openai_response create p sp mt m))
           = Create (build_request p (system_prompt_or_default sp) mt m)"
    using other_failure_immediate[of k create p sp mt m e] by blast
  from r show "snd (get_openai_response create p sp mt m) = Inl e" by blast
  from r show "length (sent_requests (fst (get_openai_response create p sp mt m))) = k + 1"
    by blast
  from r show "sleeps (fst (get_openai_response create p sp mt m)) = take k [1, 2, 4, 8]"
    by blast
  from r show "last (fst (get_openai_response create p sp mt m))
        = Create (build_request p (system_prompt_or_default sp) mt m)" by blast
qed

theorem retry_policy_four_backoffs_witness:
  "sleeps (fst (get_openai_response always_rate_limited ''hi'' None 4096 ''gpt-4o'')) = [1, 2, 4, 8] \<and>
   length (sent_requests (fst (get_openai_response always_rate_limited ''hi'' None 4096 ''gpt-4o''))) = 5 \<and>
   snd (get_openai_response always_rate_limited ''hi'' None 4096 ''gpt-4o'') = Inl (RateLimitError ''429'') \<and>
   snd (get_openai_response fails_at_third ''hi'' None 4096 ''gpt-4o'') = Inl (OtherError ''500'') \<and>
   sleeps (fst (get_openai_response fails_at_third ''hi'' None 4096 ''gpt-4o'')) = [1, 2] \<and>
   length (sent_requests (fst (get_openai_response fails_at_third ''hi'' None 4096 ''gpt-4o''))) = 3"
proof -
  have a: "\<forall>n r. \<exists>msg. always_rate_limited n r = Inl (RateLimitError msg)"
    by (simp add: always_rate_limited_def)
  have b: "(2::nat) < 5
        \<and> (\<forall>j<2. \<exists>msg. fails_at_third j (build_request ''hi'' (system_prompt_or_default None) 4096 ''gpt-4o'')
                         = Inl (RateLimitError msg))
        \<and> fails_at_third 2 (build_request ''hi'' (system_prompt_or_default None) 4096 ''gpt-4o'')
            = Inl (OtherError ''500'')
        \<and> \<not> is_RateLimitError (OtherError ''500'')"
    by (simp add: fails_at_third_def)
  from retry_policy_four_backoffs[of always_rate_limited "''hi''" None 4096 "''gpt-4o''"] a
  have 1: "sleeps (fst (get_openai_response always_rate_limited ''hi'' None 4096 ''gpt-4o'')) = [1, 2, 4, 8] \<and>
   length (sent_requests (fst (get_openai_response always_rate_limited ''hi'' None 4096 ''gpt-4o''))) = 5 \<and>
   snd (get_openai_response always_rate_limited ''hi'' None 4096 ''gpt-4o'') = Inl (RateLimitError ''429'')"
    by (simp add: always_rate_limited_def)
  from retry_policy_four_backoffs[of fails_at_third "''hi''" None 4096 "''gpt-4o''"] b
  have 2: "snd (get_openai_response fails_at_third ''hi'' None 4096 ''gpt-4o'') = Inl (OtherError ''500'') \<and>
   sleeps (fst (get_openai_response fails_at_third ''hi'' None 4096 ''gpt-4o'')) = take 2 [1, 2, 4, 8] \<and>
   length (sent_requests (fst (get_openai_response fails_at_third ''hi'' None 4096 ''gpt-4o''))) = 2 + 1"
    by blast
  from 1 2 show ?thesis by simp
qed

lemma py_getitem_Inr: "(py_getitem d k = Inr v) = (map_of d k = Some v)"
  by (simp add: py_getitem_def split: option.splits)

lemma call_cost_priced:
  assumes "map_of MODEL_COSTS m = Some prices" "map_of prices ''prompt'' = Some pp"
    and "map_of prices ''completion'' = Some cp" "usage response = Some u"
  shows "call_cost m response =
           Inr (fdiv (fadd (fmul pp (float_of_int (prompt_tokens u)))
                           (fmul cp (float_of_int (completion_tokens u))))
                     (float_of_int 1000000))"
  using assms by (simp add: call_cost_def py_getitem_def Let_def)

lemma call_cost_unknown:
  "map_of MODEL_COSTS m = None \<Longrightarrow> call_cost m response = Inl (KeyError m)"
  by (simp add: call_cost_def py_getitem_def)

lemma call_cost_Inr:
  assumes "call_cost m response = Inr C"
  shows "\<exists>u prices pp cp.
          usage response = Some u \<and> map_of MODEL_COSTS m = Some prices \<and>
          map_of prices ''prompt'' = Some pp \<and> map_of prices ''completion'' = Some cp \<and>
          C = fdiv (fadd (fmul pp (float_of_int (prompt_tokens u)))
                         (fmul cp (float_of_int (completion_tokens u))))
                   (float_of_int 1000000)"
  using assms unfolding call_cost_def Let_def
  by (auto split: sum.splits option.splits simp: py_getitem_Inr)

lemma after_response_cost:
  "call_cost m response = Inr C \<Longrightarrow>
   fst (after_response self m response)
     = self\<lparr>accumulated_cost := fadd (accumulated_cost self) C\<rparr>"
  by (simp add: after_response_def Let_def split: list.splits)

lemma after_response_reply:
  "call_cost m response = Inr C \<Longrightarrow> choices response \<noteq> [] \<Longrightarrow>
   \<exists>reply. snd (after_response self m response) = Inr reply"
  by (simp add: after_response_def Let_def split: list.splits)

lemma after_response_Inr:
  "after_response self m response = (self', Inr reply) \<Longrightarrow>
   \<exists>C. call_cost m response = Inr C \<and>
       accumulated_cost self' = fadd (accumulated_cost self) C"
  by (auto simp: after_response_def Let_def split: sum.splits list.splits if_splits)

lemma get_response_answered:
  "snd (get_openai_response create p sp mt (model_or_default m)) = Inr response \<Longrightarrow>
   get_response create self p sp mt m = after_response self (model_or_default m) response"
  by (simp add: get_response_def await_returns_def Let_def)

lemma get_response_backend_fails:
  "snd (get_openai_response create p sp mt (model_or_default m)) = Inl e \<Longrightarrow>
   get_response create self p sp mt m = (self, Inl e)"
  by (simp add: get_response_def await_returns_def Let_def)

lemma MODEL_COSTS_prices:
  "map_of MODEL_COSTS k = Some prices \<Longrightarrow>
   \<exists>pp cp. map_of prices ''prompt'' = Some pp \<and> map_of prices ''completion'' = Some cp"
  by (auto simp: MODEL_COSTS_def split: if_splits)

text \<open>Values of the float model, to compare with Python's: \<open>0.1\<close>, \<open>0.1 + 0.2\<close> and the cost of
  1000 prompt tokens and 500 completion tokens of \<open>gpt-4o-mini\<close>, \<open>0.00045\<close>.\<close>

lemma fl_tenth: "fl (1 / 10) = 3602879701896397 / 36028797018963968"
  by code_simp

lemma fadd_tenth_fifth:
  "fadd (fl (1 / 10)) (fl (2 / 10)) = 1351079888211149 / 4503599627370496"
  by code_simp

lemma mini_cost_value:
  "fadd 0 (fdiv (fadd (fmul (fl (15 / 100)) (float_of_int 1000))
                      (fmul (fl (6 / 10)) (float_of_int 500)))
                (float_of_int 1000000))
     = 4150517416584649 / 9223372036854775808"
  by code_simp

lemma always_answers_response:
  "snd (get_openai_response always_answers p sp mt m') = Inr sample_completion"
  by (simp add: get_openai_response_unfold always_answers_def Let_def)

lemma always_rate_limited_response:
  "snd (get_openai_response always_rate_limited p sp mt m') = Inl (RateLimitError ''429'')"
  by (simp add: get_openai_response_unfold always_rate_limited_def Let_def max_retries_def)

text \<open>
  C5, as the claim states it, has every call with a model that is not in the table fail
  with the error of the unknown model, and the cost be the quotient of the formula. The
  table is read after the backend has answered: a call with the unknown model
  \<open>gpt-3.5-turbo\<close> to a backend that is rate limited fails with the
  \<open>RateLimitError\<close> of the backend; a call with the empty string for a model, which is
  not a key of the table, runs on the default model and succeeds. And the cost of 1000
  prompt tokens and 500 completion tokens of \<open>gpt-4o-mini\<close> is the float that Python
  prints as \<open>0.00045\<close>, not the quotient \<open>450 / 1000000\<close>.
\<close>

theorem unknown_model_counterexample:
  "map_of MODEL_COSTS ''gpt-3.5-turbo'' = None \<and>
   get_response always_rate_limited LLMAPIWrapper_init ''hi'' None 4096 (Some ''gpt-3.5-turbo'')
     = (LLMAPIWrapper_init, Inl (RateLimitError ''429'')) \<and>
   map_of MODEL_COSTS '''' = None \<and>
   snd (get_response always_answers LLMAPIWrapper_init ''hi'' None 4096 (Some ''''))
     = Inr (ContentReply (Some ''hello'')) \<and>
   accumulated_cost
     (fst (get_response always_answers LLMAPIWrapper_init ''hi'' None 4096 (Some ''gpt-4o-mini'')))
     = 4150517416584649 / 9223372036854775808 \<and>
   accumulated_cost
     (fst (get_response always_answers LLMAPIWrapper_init ''hi'' None 4096 (Some ''gpt-4o-mini'')))
     \<noteq> (1000 * (15 / 100) + 500 * (6 / 10)) / 1000000"
proof -
  have 1: "map_of MODEL_COSTS ''gpt-3.5-turbo'' = None" "map_of MODEL_COSTS '''' = None"
    by (simp_all add: MODEL_COSTS_def)
  have 2: "get_response always_rate_limited LLMAPIWrapper_init ''hi'' None 4096 (Some ''gpt-3.5-turbo'')
     = (LLMAPIWrapper_init, Inl (RateLimitError ''429''))"
    by (rule get_response_backend_fails) (rule always_rate_limited_response)
  have d: "map_of MODEL_COSTS OPENAI_MODEL = Some [(''prompt'', fl 2), (''completion'', fl 8)]"
    by (simp add: MODEL_COSTS_def OPENAI_MODEL_def)
  have c: "call_cost OPENAI_MODEL sample_completion
             = Inr (fdiv (fadd (fmul (fl 2) (float_of_int 1000)) (fmul (fl 8) (float_of_int 500)))
                      (float_of_int 1000000))"
    using call_cost_priced[OF d, of "fl 2" "fl 8" sample_completion
            "\<lparr>prompt_tokens = 1000, completion_tokens = 500\<rparr>"]
    by (simp add: sample_completion_def)
  have 3: "snd (get_response always_answers LLMAPIWrapper_init ''hi'' None 4096 (Some ''''))
     = Inr (ContentReply (Some ''hello''))"
    using c
    by (simp add: get_response_def await_returns_def Let_def always_answers_response
          model_or_default_def after_response_def)
       (simp add: sample_completion_def)
  have m: "map_of MODEL_COSTS ''gpt-4o-mini''
             = Some [(''prompt'', fl (15 / 100)), (''completion'', fl (6 / 10))]"
    by (simp add: MODEL_COSTS_def)
  have c': "call_cost ''gpt-4o-mini'' sample_completion
             = Inr (fdiv (fadd (fmul (fl (15 / 100)) (float_of_int 1000))
                               (fmul (fl (6 / 10)) (float_of_int 500)))
                      (float_of_int 1000000))"
    using call_cost_priced[OF m, of "fl (15 / 100)" "fl (6 / 10)" sample_completion
            "\<lparr>prompt_tokens = 1000, completion_tokens = 500\<rparr>"]
    by (simp add: sample_completion_def)
  have 4: "accumulated_cost
     (fst (get_response always_answers LLMAPIWrapper_init ''hi'' None 4096 (Some ''gpt-4o-mini'')))
     = 4150517416584649 / 9223372036854775808"
    by (simp only: get_response_answered[of always_answers "''hi''" None 4096 "Some ''gpt-4o-mini''",
                     OF always_answers_response]
          model_or_default_def option.case list.simps if_False
          after_response_cost[OF c'] LLMAPIWrapper_init_def LLMAPIWrapper.simps mini_cost_value)
  have 5: "(4150517416584649 / 9223372036854775808 :: rat) \<noteq> (1000 * (15 / 100) + 500 * (6 / 10)) / 1000000"
    by simp
  from 1 2 3 4 5 show ?thesis by (simp only: simp_thms)
qed

text \<open>
  C5, amended. The model of a call is its argument, or the default model when the
  argument is \<open>None\<close> or the empty string. When the backend answers with a completion
  that carries its token counts and the model is a key of the price table, the
  accumulator grows by (prompt price times prompt tokens plus completion price times
  completion tokens) divided by 1,000,000, every operation in float arithmetic and the
  prices those of the table for the model, and the call succeeds when the completion
  has a choice; every entry of the table holds both prices. When the backend answers and
  the model is not a key of the table, the call fails with the \<open>KeyError\<close> of the model
  and the accumulator is unchanged. When the backend fails, the call fails with the
  exception of the backend, whatever the model, and the accumulator is unchanged.
  Conversely, a call that succeeds has added that cost.
\<close>

theorem generation_call_cost:
  "(\<forall>response u prices pp cp.
      snd (get_openai_response create p sp mt (model_or_default m)) = Inr response \<and>
      usage response = Some u \<and>
      map_of MODEL_COSTS (model_or_default m) = Some prices \<and>
      map_of prices ''prompt'' = Some pp \<and> map_of prices ''completion'' = Some cp \<longrightarrow>
        accumulated_cost (fst (get_response create self p sp mt m))
          = fadd (accumulated_cost self)
              (fdiv (fadd (fmul pp (float_of_int (prompt_tokens u)))
                          (fmul cp (float_of_int (completion_tokens u))))
                    (float_of_int 1000000)) \<and>
        (choices response \<noteq> [] \<longrightarrow>
           (\<exists>reply. snd (get_response create self p sp mt m) = Inr reply))) \<and>
   (\<forall>prices. map_of MODEL_COSTS (model_or_default m) = Some prices \<longrightarrow>
      (\<exists>pp cp. map_of prices ''prompt'' = Some pp \<and> map_of prices ''completion'' = Some cp)) \<and>
   (\<forall>response.
      snd (get_openai_response create p sp mt (model_or_default m)) = Inr response \<and>
      map_of MODEL_COSTS (model_or_default m) = None \<longrightarrow>
        get_response create self p sp mt m = (self, Inl (KeyError (model_or_default m)))) \<and>
   (\<forall>e. snd (get_openai_response create p sp mt (model_or_default m)) = Inl e \<longrightarrow>
        get_response create self p sp mt m = (self, Inl e)) \<and>
   (\<forall>self' reply. get_response create self p sp mt m = (self', Inr reply) \<longrightarrow>
      (\<exists>response u prices pp cp.
          snd (get_openai_response create p sp mt (model_or_default m)) = Inr response \<and>
          usage response = Some u \<and>
          map_of MODEL_COSTS (model_or_default m) = Some prices \<and>
          map_of prices ''prompt'' = Some pp \<and> map_of prices ''completion'' = Some cp \<and>
          accumulated_cost self'
            = fadd (accumulated_cost self)
                (fdiv (fadd (fmul pp (float_of_int (prompt_tokens u)))
                            (fmul cp (float_of_int (completion_tokens u))))
                      (float_of_int 1000000))))"
proof (intro conjI allI impI)
  fix response u prices pp cp
  assume a: "snd (get_openai_response create p sp mt (model_or_default m)) = Inr response \<and>
      usage response = Some u \<and>
      map_of MODEL_COSTS (model_or_default m) = Some prices \<and>
      map_of prices ''prompt'' = Some pp \<and> map_of prices ''completion'' = Some cp"
  then have a1: "map_of MODEL_COSTS (model_or_default m) = Some prices"
    and a2: "map_of prices ''prompt'' = Some pp"
    and a3: "map_of prices ''completion'' = Some cp"
    and a4: "usage response = Some u"
    by blast+
  have c: "call_cost (model_or_default m) response =
           Inr (fdiv (fadd (fmul pp (float_of_int (prompt_tokens u)))
                           (fmul cp (float_of_int (completion_tokens u))))
                     (float_of_int 1000000))"
    by (rule call_cost_priced[OF a1 a2 a3 a4])
  from a have g: "get_response create self p sp mt m
                    = after_response self (model_or_default m) response"
    by (intro get_response_answered) simp
  show "accumulated_cost (fst (get_response create self p sp mt m))
          = fadd (accumulated_cost self)
              (fdiv (fadd (fmul pp (float_of_int (prompt_tokens u)))
                          (fmul cp (float_of_int (completion_tokens u))))
                    (float_of_int 1000000))"
    by (simp add: g after_response_cost[OF c])
  assume "choices response \<noteq> []"
  then show "\<exists>reply. snd (get_response create self p sp mt m) = Inr reply"
    unfolding g by (rule after_response_reply[OF c])
next
  fix prices
  assume "map_of MODEL_COSTS (model_or_default m) = Some prices"
  then show "\<exists>pp cp. map_of prices ''prompt'' = Some pp \<and> map_of prices ''completion'' = Some cp"
    by (rule MODEL_COSTS_prices)
next
  fix response
  assume a: "snd (get_openai_response create p sp mt (model_or_default m)) = Inr response \<and>
      map_of MODEL_COSTS (model_or_default m) = None"
  then have "get_response create self p sp mt m
               = after_response self (model_or_default m) response"
    by (intro get_response_answered) simp
  then show "get_response create self p sp mt m = (self, Inl (KeyError (model_or_default m)))"
    using a by (simp add: after_response_def call_cost_unknown)
next
  fix e
  assume "snd (get_openai_response create p sp mt (model_or_default m)) = Inl e"
  then show "get_response create self p sp mt m = (self, Inl e)"
    by (rule get_response_backend_fails)
next
  fix self' reply
  assume a: "get_response create self p sp mt m = (self', Inr reply)"
  then obtain response where
    r: "snd (get_openai_response create p sp mt (model_or_default m)) = Inr response"
    by (cases "snd (get_openai_response create p sp mt (model_or_default m))")
       (auto simp: get_response_def await_returns_def Let_def)
  from a get_response_answered[OF r, of self]
  have "after_response self (model_or_default m) response = (self', Inr reply)" by simp
  from after_response_Inr[OF this] obtain C where
    C: "call_cost (model_or_default m) response = Inr C"
       "accumulated_cost self' = fadd (accumulated_cost self) C"
    by blast
  from call_cost_Inr[OF C(1)] C(2) r
  show "\<exists>response u prices pp cp.
          snd (get_openai_response create p sp mt (model_or_default m)) = Inr response \<and>
          usage response = Some u \<and>
          map_of MODEL_COSTS (model_or_default m) = Some prices \<and>
          map_of prices ''prompt'' = Some pp \<and> map_of prices ''completion'' = Some cp \<and>
          accumulated_cost self'
            = fadd (accumulated_cost self)
                (fdiv (fadd (fmul pp (float_of_int (prompt_tokens u)))
                            (fmul cp (float_of_int (completion_tokens u))))
                      (float_of_int 1000000))"
    by blast
qed

theorem generation_call_cost_witness:
  "accumulated_cost
     (fst (get_response always_answers LLMAPIWrapper_init ''hi'' None 4096 (Some ''gpt-4o-mini'')))
     = 4150517416584649 / 9223372036854775808 \<and>
   (\<exists>reply. snd (get_response always_answers LLMAPIWrapper_init ''hi'' None 4096
                    (Some ''gpt-4o-mini'')) = Inr reply) \<and>
   get_response always_answers LLMAPIWrapper_init ''hi'' None 4096 (Some ''gpt-3.5-turbo'')
     = (LLMAPIWrapper_init, Inl (KeyError ''gpt-3.5-turbo'')) \<and>
   get_response always_rate_limited LLMAPIWrapper_init ''hi'' None 4096 (Some ''gpt-4o-mini'')
     = (LLMAPIWrapper_init, Inl (RateLimitError ''429''))"
proof -
  let ?u = "\<lparr>prompt_tokens = 1000, completion_tokens = 500\<rparr>"
  let ?prices = "[(''prompt'', fl (15 / 100)), (''completion'', fl (6 / 10))]"
  have mo: "model_or_default (Some ''gpt-4o-mini'') = ''gpt-4o-mini''"
           "model_or_default (Some ''gpt-3.5-turbo'') = ''gpt-3.5-turbo''"
    by (simp_all add: model_or_default_def)
  have h: "snd (get_openai_response always_answers ''hi'' None 4096
                  (model_or_default (Some ''gpt-4o-mini''))) = Inr sample_completion \<and>
      usage sample_completion = Some ?u \<and>
      map_of MODEL_COSTS (model_or_default (Some ''gpt-4o-mini'')) = Some ?prices \<and>
      map_of ?prices ''prompt'' = Some (fl (15 / 100)) \<and>
      map_of ?prices ''completion'' = Some (fl (6 / 10))"
    by (simp add: always_answers_response mo sample_completion_def MODEL_COSTS_def)
  have ch: "choices sample_completion \<noteq> []" by (simp add: sample_completion_def)
  have h2: "snd (get_openai_response always_answers ''hi'' None 4096
                  (model_or_default (Some ''gpt-3.5-turbo''))) = Inr sample_completion \<and>
      map_of MODEL_COSTS (model_or_default (Some ''gpt-3.5-turbo'')) = None"
    by (simp add: always_answers_response mo MODEL_COSTS_def)
  have h3: "snd (get_openai_response always_rate_limited ''hi'' None 4096
                  (model_or_default (Some ''gpt-4o-mini''))) = Inl (RateLimitError ''429'')"
    by (rule always_rate_limited_response)
  from generation_call_cost[of always_answers "''hi''" None 4096 "Some ''gpt-4o-mini''"
         LLMAPIWrapper_init] h ch
  have 1: "accumulated_cost
     (fst (get_response always_answers LLMAPIWrapper_init ''hi'' None 4096 (Some ''gpt-4o-mini'')))
     = fadd (accumulated_cost LLMAPIWrapper_init)
         (fdiv (fadd (fmul (fl (15 / 100)) (float_of_int (prompt_tokens ?u)))
                     (fmul (fl (6 / 10)) (float_of_int (completion_tokens ?u))))
               (float_of_int 1000000))"
    and 2: "\<exists>reply. snd (get_response always_answers LLMAPIWrapper_init ''hi'' None 4096
                    (Some ''gpt-4o-mini'')) = Inr reply"
    by blast+
  from generation_call_cost[of always_answers "''hi''" None 4096 "Some ''gpt-3.5-turbo''"
         LLMAPIWrapper_init] h2
  have 3: "get_response always_answers LLMAPIWrapper_init ''hi'' None 4096 (Some ''gpt-3.5-turbo'')
     = (LLMAPIWrapper_init, Inl (KeyError (model_or_default (Some ''gpt-3.5-turbo''))))"
    by blast
  from generation_call_cost[of always_rate_limited "''hi''" None 4096 "Some ''gpt-4o-mini''"
         LLMAPIWrapper_init] h3
  have 4: "get_response always_rate_limited LLMAPIWrapper_init ''hi'' None 4096 (Some ''gpt-4o-mini'')
     = (LLMAPIWrapper_init, Inl (RateLimitError ''429''))"
    by blast
  have v: "fadd (accumulated_cost LLMAPIWrapper_init)
         (fdiv (fadd (fmul (fl (15 / 100)) (float_of_int (prompt_tokens ?u)))
                     (fmul (fl (6 / 10)) (float_of_int (completion_tokens ?u))))
               (float_of_int 1000000)) = 4150517416584649 / 9223372036854775808"
    by (simp only: LLMAPIWrapper_init_def LLMAPIWrapper.simps completion_usage.simps
          mini_cost_value)
  from 1 2 3 4 show ?thesis by (simp only: v mo simp_thms)
qed

section \<open>Theorems: concurrent calls and the accumulated cost\<close>

lemma count_update_new:
  "i < length xs \<Longrightarrow> xs ! i \<noteq> v \<Longrightarrow>
   length (filter (\<lambda>c. c = v) (xs[i := v])) = Suc (length (filter (\<lambda>c. c = v) xs))"
  by (induction xs arbitrary: i) (auto split: nat.splits)

lemma count_update_other:
  "i < length xs \<Longrightarrow> xs ! i \<noteq> v \<Longrightarrow> w \<noteq> v \<Longrightarrow>
   length (filter (\<lambda>c. c = v) (xs[i := w])) = length (filter (\<lambda>c. c = v) xs)"
  by (induction xs arbitrary: i) (auto split: nat.splits)

lemma costs_resume:
  "costs C (m, outcome) \<Longrightarrow>
   fst (await_returns self (model_or_default m) outcome)
     = self\<lparr>accumulated_cost := fadd (accumulated_cost self) C\<rparr>"
  by (cases outcome) (simp_all add: costs_def await_returns_def after_response_cost)

lemma loop_step_length:
  "length (coroutines (loop_step calls s st)) = length (coroutines s)"
  by (simp add: loop_step_def split: sched.splits prod.splits)

lemma loop_step_cases:
  assumes "list_all (costs C) calls"
  shows "(accumulated_cost (wrapper (loop_step calls s st)) = accumulated_cost (wrapper s) \<and>
          finished_calls (loop_step calls s st) = finished_calls s) \<or>
         (accumulated_cost (wrapper (loop_step calls s st))
            = fadd (accumulated_cost (wrapper s)) C \<and>
          finished_calls (loop_step calls s st) = Suc (finished_calls s))"
proof (cases st)
  case (Start i)
  then show ?thesis
    by (simp add: loop_step_def finished_calls_def count_update_other)
next
  case (Resume i)
  show ?thesis
  proof (cases "i < length (coroutines s) \<and> i < length calls \<and> coroutines s ! i = Suspended")
    case False
    with Resume show ?thesis by (auto simp: loop_step_def)
  next
    case True
    obtain m outcome where c: "calls ! i = (m, outcome)" by (cases "calls ! i") auto
    from assms True have "costs C (calls ! i)" by (simp add: list_all_length)
    with c have "costs C (m, outcome)" by simp
    from costs_resume[OF this] True Resume c show ?thesis
      by (simp add: loop_step_def finished_calls_def count_update_new)
  qed
qed

lemma foldl_accumulates:
  assumes "list_all (costs C) calls"
  shows "finished_calls s \<le> finished_calls (foldl (loop_step calls) s schedule) \<and>
         accumulated_cost (wrapper (foldl (loop_step calls) s schedule))
           = ((\<lambda>a. fadd a C)
                ^^ (finished_calls (foldl (loop_step calls) s schedule) - finished_calls s))
               (accumulated_cost (wrapper s))"
proof (induction schedule arbitrary: s)
  case Nil
  then show ?case by simp
next
  case (Cons st rest)
  let ?s1 = "loop_step calls s st"
  let ?n = "finished_calls (foldl (loop_step calls) ?s1 rest)"
  from Cons[of ?s1] have le: "finished_calls ?s1 \<le> ?n"
    and eq: "accumulated_cost (wrapper (foldl (loop_step calls) ?s1 rest))
           = ((\<lambda>a. fadd a C) ^^ (?n - finished_calls ?s1)) (accumulated_cost (wrapper ?s1))"
    by simp_all
  from loop_step_cases[OF assms, of s st] show ?case
  proof
    assume "accumulated_cost (wrapper ?s1) = accumulated_cost (wrapper s) \<and>
            finished_calls ?s1 = finished_calls s"
    with le eq show ?thesis by simp
  next
    assume a: "accumulated_cost (wrapper ?s1) = fadd (accumulated_cost (wrapper s)) C \<and>
               finished_calls ?s1 = Suc (finished_calls s)"
    with le have "?n - finished_calls s = Suc (?n - Suc (finished_calls s))" by simp
    with a le eq
      funpow_swap1[of "\<lambda>a. fadd a C" "?n - Suc (finished_calls s)" "accumulated_cost (wrapper s)"]
    show ?thesis by simp
  qed
qed

lemma run_calls_accumulates:
  assumes "list_all (costs C) calls"
  shows "accumulated_cost (wrapper (run_calls calls schedule self))
           = ((\<lambda>a. fadd a C) ^^ finished_calls (run_calls calls schedule self))
               (accumulated_cost self)"
  using foldl_accumulates[OF assms,
          of "\<lparr>wrapper = self, coroutines = replicate (length calls) NotStarted\<rparr>" schedule]
  by (simp add: run_calls_def finished_calls_def)

lemma foldl_length:
  "length (coroutines (foldl (loop_step calls) s schedule)) = length (coroutines s)"
  by (induction schedule arbitrary: s) (simp_all add: loop_step_length)

lemma all_finished_count:
  "all_finished (run_calls calls schedule self) \<Longrightarrow>
   finished_calls (run_calls calls schedule self) = length calls"
proof -
  assume "all_finished (run_calls calls schedule self)"
  then have "filter (\<lambda>c. c = Finished) (coroutines (run_calls calls schedule self))
               = coroutines (run_calls calls schedule self)"
    by (simp add: all_finished_def list_all_iff)
  then show ?thesis
    by (simp add: finished_calls_def run_calls_def foldl_length)
qed

lemma exact_sums:
  "(\<forall>k<M. fl (a + of_nat (Suc k) * C) = a + of_nat (Suc k) * C) \<Longrightarrow>
   ((\<lambda>x. fadd x C) ^^ M) a = a + of_nat M * C"
proof (induction M)
  case 0
  then show ?case by simp
next
  case (Suc M)
  then have IH: "((\<lambda>x. fadd x C) ^^ M) a = a + of_nat M * C" by simp
  have e: "a + of_nat M * C + C = a + of_nat (Suc M) * C" by (simp add: algebra_simps)
  from Suc.prems have r: "fl (a + of_nat (Suc M) * C) = a + of_nat (Suc M) * C" by blast
  have "((\<lambda>x. fadd x C) ^^ Suc M) a = fadd (((\<lambda>x. fadd x C) ^^ M) a) C" by simp
  also have "\<dots> = fl (a + of_nat M * C + C)" by (simp only: IH, simp only: fadd_def)
  also have "\<dots> = a + of_nat (Suc M) * C" by (simp only: e r)
  finally show ?case .
qed

lemma default_model: "model_or_default None = OPENAI_MODEL" "model_or_default (Some '''') = OPENAI_MODEL"
  by (simp_all add: model_or_default_def)

lemma default_prices:
  "map_of MODEL_COSTS OPENAI_MODEL = Some [(''prompt'', fl 2), (''completion'', fl 8)]"
  by (simp add: MODEL_COSTS_def OPENAI_MODEL_def)

lemma tenth_cost_value:
  "fdiv (fadd (fmul (fl 2) (float_of_int 10000)) (fmul (fl 8) (float_of_int 10000)))
        (float_of_int 1000000)
     = 3602879701896397 / 36028797018963968"
  by code_simp

lemma quarter_cost_value:
  "fdiv (fadd (fmul (fl 2) (float_of_int 125000)) (fmul (fl 8) (float_of_int 0)))
        (float_of_int 1000000)
     = 1 / 4"
  by code_simp

lemma tenth_cost:
  "call_cost OPENAI_MODEL tenth_completion = Inr (3602879701896397 / 36028797018963968)"
  using call_cost_priced[OF default_prices, of "fl 2" "fl 8" tenth_completion
          "\<lparr>prompt_tokens = 10000, completion_tokens = 10000\<rparr>"]
  by (simp add: tenth_completion_def tenth_cost_value)

lemma quarter_cost: "call_cost OPENAI_MODEL quarter_completion = Inr (1 / 4)"
  using call_cost_priced[OF default_prices, of "fl 2" "fl 8" quarter_completion
          "\<lparr>prompt_tokens = 125000, completion_tokens = 0\<rparr>"]
  by (simp add: quarter_completion_def quarter_cost_value)

lemma six_calls_cost: "list_all (costs (3602879701896397 / 36028797018963968)) six_calls"
  by (simp add: six_calls_def costs_def default_model tenth_cost list_all_length)
     (simp add: tenth_completion_def)

lemma two_calls_cost: "list_all (costs (1 / 4)) two_calls"
  by (simp add: two_calls_def costs_def default_model quarter_cost)
     (simp add: quarter_completion_def)

lemma six_calls_finish:
  "coroutines (run_calls six_calls six_schedule LLMAPIWrapper_init)
     = [Finished, Finished, Finished, Finished, Finished, Finished]"
  by (simp add: run_calls_def six_calls_def six_schedule_def loop_step_def numeral_eq_Suc)

lemma two_calls_finish:
  "coroutines (run_calls two_calls two_schedule LLMAPIWrapper_init) = [Finished, Finished]"
  by (simp add: run_calls_def two_calls_def two_schedule_def loop_step_def)

text \<open>The six float additions of \<open>0.1\<close>, from \<open>0\<close>: \<open>0.1\<close>, \<open>0.2\<close>,
  \<open>0.30000000000000004\<close>, \<open>0.4\<close>, \<open>0.5\<close>, \<open>0.6\<close>.\<close>

lemma tenth_sum_1:
  "fadd 0 (3602879701896397 / 36028797018963968) = 3602879701896397 / 36028797018963968"
  by code_simp

lemma tenth_sum_2:
  "fadd (3602879701896397 / 36028797018963968) (3602879701896397 / 36028797018963968)
     = 3602879701896397 / 18014398509481984"
  by code_simp

lemma tenth_sum_3:
  "fadd (3602879701896397 / 18014398509481984) (3602879701896397 / 36028797018963968)
     = 1351079888211149 / 4503599627370496"
  by code_simp

lemma tenth_sum_4:
  "fadd (1351079888211149 / 4503599627370496) (3602879701896397 / 36028797018963968)
     = 3602879701896397 / 9007199254740992"
  by code_simp

lemma tenth_sum_5:
  "fadd (3602879701896397 / 9007199254740992) (3602879701896397 / 36028797018963968) = 1 / 2"
  by code_simp

lemma tenth_sum_6:
  "fadd (1 / 2) (3602879701896397 / 36028797018963968) = 5404319552844595 / 9007199254740992"
  by code_simp

lemma six_times_tenth:
  "fmul (float_of_int 6) (3602879701896397 / 36028797018963968)
     = 1351079888211149 / 2251799813685248"
  by code_simp

lemma funpow_six: "(f ^^ 6) a = f (f (f (f (f (f a)))))"
  by (simp add: numeral_eq_Suc)

text \<open>
  C6, as the claim states it, has the accumulator equal \<open>M \<times> C\<close> exactly. Six concurrent
  calls that cost \<open>0.1\<close> each, on a new object, all complete; the accumulator is then the
  float \<open>0.6\<close>, which is neither six times the cost nor the float product
  \<open>6 * 0.1 = 0.6000000000000001\<close>.
\<close>

theorem accumulator_rounding_counterexample:
  "list_all (costs (3602879701896397 / 36028797018963968)) six_calls \<and>
   all_finished (run_calls six_calls six_schedule LLMAPIWrapper_init) \<and>
   accumulated_cost (wrapper (run_calls six_calls six_schedule LLMAPIWrapper_init))
     = 5404319552844595 / 9007199254740992 \<and>
   accumulated_cost (wrapper (run_calls six_calls six_schedule LLMAPIWrapper_init))
     \<noteq> 6 * (3602879701896397 / 36028797018963968) \<and>
   accumulated_cost (wrapper (run_calls six_calls six_schedule LLMAPIWrapper_init))
     \<noteq> fmul (float_of_int 6) (3602879701896397 / 36028797018963968)"
proof -
  have f: "all_finished (run_calls six_calls six_schedule LLMAPIWrapper_init)"
    by (simp add: all_finished_def six_calls_finish)
  have n: "finished_calls (run_calls six_calls six_schedule LLMAPIWrapper_init) = 6"
    by (simp add: finished_calls_def six_calls_finish)
  have "accumulated_cost (wrapper (run_calls six_calls six_schedule LLMAPIWrapper_init))
     = ((\<lambda>a. fadd a (3602879701896397 / 36028797018963968)) ^^ 6)
         (accumulated_cost LLMAPIWrapper_init)"
    using run_calls_accumulates[OF six_calls_cost, of six_schedule LLMAPIWrapper_init]
    by (simp only: n)
  also have "\<dots> = 5404319552844595 / 9007199254740992"
    by (simp only: funpow_six LLMAPIWrapper_init_def LLMAPIWrapper.simps tenth_sum_1
          tenth_sum_2 tenth_sum_3 tenth_sum_4 tenth_sum_5 tenth_sum_6)
  finally have a: "accumulated_cost (wrapper (run_calls six_calls six_schedule LLMAPIWrapper_init))
     = 5404319552844595 / 9007199254740992" .
  have b: "(5404319552844595 / 9007199254740992 :: rat) \<noteq> 6 * (3602879701896397 / 36028797018963968)"
    by simp
  have c: "(5404319552844595 / 9007199254740992 :: rat) \<noteq> 1351079888211149 / 2251799813685248"
    by simp
  from six_calls_cost f a b c show ?thesis by (simp only: six_times_tenth simp_thms)
qed

text \<open>
  C6, amended. For calls that each succeed and cost \<open>C\<close>, and every schedule: the
  accumulator is the result of as many float additions of \<open>C\<close> to its first value as
  calls have finished, so no update is lost; once all the calls have finished it is the
  result of as many additions as there are calls, the same for every schedule under
  which they all finish; and it is the first value plus \<open>M \<times> C\<close> exactly when none of
  the partial sums is rounded.
\<close>

theorem accumulator_under_interleaving:
  "list_all (costs C) calls \<longrightarrow>
     accumulated_cost (wrapper (run_calls calls schedule self))
       = ((\<lambda>a. fadd a C) ^^ finished_calls (run_calls calls schedule self))
           (accumulated_cost self) \<and>
     (all_finished (run_calls calls schedule self) \<longrightarrow>
        accumulated_cost (wrapper (run_calls calls schedule self))
          = ((\<lambda>a. fadd a C) ^^ length calls) (accumulated_cost self) \<and>
        (all_finished (run_calls calls schedule' self) \<longrightarrow>
           accumulated_cost (wrapper (run_calls calls schedule' self))
             = accumulated_cost (wrapper (run_calls calls schedule self))) \<and>
        ((\<forall>k<length calls.
            fl (accumulated_cost self + of_nat (Suc k) * C)
              = accumulated_cost self + of_nat (Suc k) * C) \<longrightarrow>
         accumulated_cost (wrapper (run_calls calls schedule self))
           = accumulated_cost self + of_nat (length calls) * C))"
proof (intro impI conjI)
  assume c: "list_all (costs C) calls"
  show "accumulated_cost (wrapper (run_calls calls schedule self))
       = ((\<lambda>a. fadd a C) ^^ finished_calls (run_calls calls schedule self))
           (accumulated_cost self)"
    by (rule run_calls_accumulates[OF c])
  assume f: "all_finished (run_calls calls schedule self)"
  show all: "accumulated_cost (wrapper (run_calls calls schedule self))
          = ((\<lambda>a. fadd a C) ^^ length calls) (accumulated_cost self)"
    using run_calls_accumulates[OF c, of schedule self] all_finished_count[OF f] by simp
  {
    assume f': "all_finished (run_calls calls schedule' self)"
    show "accumulated_cost (wrapper (run_calls calls schedule' self))
             = accumulated_cost (wrapper (run_calls calls schedule self))"
      using run_calls_accumulates[OF c, of schedule' self] all_finished_count[OF f'] all
      by simp
  }
  assume "\<forall>k<length calls.
            fl (accumulated_cost self + of_nat (Suc k) * C)
              = accumulated_cost self + of_nat (Suc k) * C"
  from exact_sums[OF this] all
  show "accumulated_cost (wrapper (run_calls calls schedule self))
           = accumulated_cost self + of_nat (length calls) * C"
    by simp
qed

theorem accumulator_under_interleaving_witness:
  "list_all (costs (1 / 4)) two_calls \<and>
   all_finished (run_calls two_calls two_schedule LLMAPIWrapper_init) \<and>
   all_finished (run_calls two_calls [Start 1, Resume 1, Start 0, Resume 0] LLMAPIWrapper_init) \<and>
   accumulated_cost (wrapper (run_calls two_calls two_schedule LLMAPIWrapper_init)) = 2 * (1 / 4) \<and>
   accumulated_cost
     (wrapper (run_calls two_calls [Start 1, Resume 1, Start 0, Resume 0] LLMAPIWrapper_init))
     = 2 * (1 / 4)"
proof -
  have f: "all_finished (run_calls two_calls two_schedule LLMAPIWrapper_init)"
    by (simp add: all_finished_def two_calls_finish)
  have f': "all_finished (run_calls two_calls [Start 1, Resume 1, Start 0, Resume 0]
                            LLMAPIWrapper_init)"
    by (simp add: all_finished_def run_calls_def two_calls_def loop_step_def)
  have q: "fl (1 / 4) = 1 / 4" "fl (1 / 2) = 1 / 2" by code_simp+
  have e: "\<forall>k<length two_calls.
            fl (accumulated_cost LLMAPIWrapper_init + of_nat (Suc k) * (1 / 4))
              = accumulated_cost LLMAPIWrapper_init + of_nat (Suc k) * (1 / 4)"
    by (simp add: two_calls_def LLMAPIWrapper_init_def less_Suc_eq numeral_2_eq_2 q)
  from accumulator_under_interleaving[of "1 / 4" two_calls two_schedule LLMAPIWrapper_init
         "[Start 1, Resume 1, Start 0, Resume 0]"] two_calls_cost f f' e
  have "accumulated_cost (wrapper (run_calls two_calls two_schedule LLMAPIWrapper_init))
          = accumulated_cost LLMAPIWrapper_init + of_nat (length two_calls) * (1 / 4)"
    and "accumulated_cost
           (wrapper (run_calls two_calls [Start 1, Resume 1, Start 0, Resume 0] LLMAPIWrapper_init))
          = accumulated_cost (wrapper (run_calls two_calls two_schedule LLMAPIWrapper_init))"
    by blast+
  with two_calls_cost f f' show ?thesis
    by (simp add: two_calls_def LLMAPIWrapper_init_def)
qed

section \<open>Theorems: the queries of main.py\<close>

text \<open>
  C7. For a job in the store, the status query answers with the job's current status.
  The report query answers with a value exactly when the status is \<open>COMPLETED\<close>, and
  that value is the job's report (a report, not \<open>None\<close>, for a job whose fields agree
  with its status); for every other status it raises the HTTP error 400, so no report is
  given out before completion. For an identifier that is not in the store both queries
  raise the HTTP error 404.
\<close>

theorem job_queries:
  "(db jid = Some job \<longrightarrow>
      get_job_status db jid = Inr \<lparr>job_id = jid, status = ScreenerJob.status job\<rparr> \<and>
      ((\<exists>r. get_report db jid = Inr r) = (ScreenerJob.status job = COMPLETED)) \<and>
      (ScreenerJob.status job = COMPLETED \<longrightarrow> get_report db jid = Inr (report job)) \<and>
      (ScreenerJob.status job = COMPLETED \<and> job_consistent job \<longrightarrow>
         (\<exists>c. report job = Some c \<and> get_report db jid = Inr (Some c))) \<and>
      (ScreenerJob.status job \<noteq> COMPLETED \<longrightarrow>
         get_report db jid = Inl (HTTPException 400 (ReportNotReady (ScreenerJob.status job))))) \<and>
   (db jid = None \<longrightarrow>
      get_job_status db jid = Inl (HTTPException 404 JobNotFound) \<and>
      get_report db jid = Inl (HTTPException 404 JobNotFound))"
  by (auto simp: get_job_status_def get_report_def job_consistent_def)

theorem job_queries_witness:
  "get_job_status sample_db ''a'' = Inr \<lparr>job_id = ''a'', status = COMPLETED\<rparr> \<and>
   get_report sample_db ''a'' = Inr (Some sample_report) \<and>
   get_job_status sample_db ''b'' = Inr \<lparr>job_id = ''b'', status = PROCESSING\<rparr> \<and>
   get_report sample_db ''b'' = Inl (HTTPException 400 (ReportNotReady PROCESSING)) \<and>
   get_job_status sample_db ''c'' = Inl (HTTPException 404 JobNotFound) \<and>
   get_report sample_db ''c'' = Inl (HTTPException 404 JobNotFound)"
  using job_queries[of sample_db "''a''" "the (sample_db ''a'')"]
        job_queries[of sample_db "''b''" "the (sample_db ''b'')"]
        job_queries[of sample_db "''c''"]
  by (simp add: sample_db_def job_consistent_def)

section \<open>Theorems: the fan-out collector\<close>

lemma completion_order_set: "set (completion_order order n) = {0..<n}"
  by (auto simp: completion_order_def)

lemma completion_order_distinct: "distinct (completion_order order n)"
  by (simp add: completion_order_def)

lemma remdups_append_subset: "set xs \<subseteq> set ys \<Longrightarrow> remdups (xs @ ys) = remdups ys"
  by (induction xs) auto

text \<open>Every permutation of the tasks is a completion order of the model.\<close>

lemma completion_order_permutation:
  assumes "distinct p" "set p = {0..<n}"
  shows "completion_order p n = p"
proof -
  have f: "filter (\<lambda>i. i < n) p = p" using assms(2) by (auto intro: filter_True)
  have "remdups (rev [0..<n] @ rev p) = remdups (rev p)"
    using assms(2) by (intro remdups_append_subset) auto
  also have "\<dots> = rev p" using assms(1) by (simp add: distinct_remdups_id)
  finally show ?thesis by (simp add: completion_order_def f)
qed

lemma length_complete: "length (complete is outs futs) = length futs"
  by (induction "is" arbitrary: futs) auto

lemma complete_nth:
  "length futs = length outs \<Longrightarrow> j < length outs \<Longrightarrow>
   complete is outs futs ! j = (if j \<in> set is then Some (outs ! j) else futs ! j)"
proof (induction "is" arbitrary: futs)
  case Nil
  then show ?case by simp
next
  case (Cons i rest)
  then show ?case by (auto simp: nth_list_update)
qed

lemma read_futures_Some: "read_futures (map Some xs) = Some xs"
  by (induction xs) auto

lemma gather_return_exceptions_eq: "gather_return_exceptions order outs = Some outs"
proof -
  let ?f = "complete (completion_order order (length outs)) outs (replicate (length outs) None)"
  have len: "length ?f = length outs" by (simp add: length_complete)
  have "\<And>j. j < length outs \<Longrightarrow> ?f ! j = Some (outs ! j)"
    by (simp add: complete_nth completion_order_set)
  then have "?f = map Some outs" using len by (intro nth_equalityI) auto
  then show ?thesis by (simp add: gather_return_exceptions_def read_futures_Some)
qed

lemma safe_extract_in_range:
  "i < length results \<Longrightarrow> safe_extract results (int i) = Inr (marker_or_data (results ! i))"
  by (simp add: safe_extract_def marker_or_data_def split: sum.splits)

lemma safe_extract_nat:
  "safe_extract results (int i)
     = Inr (if i < length results then marker_or_data (results ! i)
            else ErrorMarker ''Result index out of range'')"
  by (simp add: safe_extract_def marker_or_data_def split: sum.splits)

lemma extract_all_eq:
  "extract_all results is
     = Inr (map (\<lambda>i. if i < length results then marker_or_data (results ! i)
                      else ErrorMarker ''Result index out of range'') is)"
  by (induction "is") (simp_all add: safe_extract_nat)

lemma collect_sources_eq:
  "collect_sources (Inr v) order outs
     = Some (Inr (map (\<lambda>i. if i < length outs then marker_or_data (outs ! i)
                             else ErrorMarker ''Result index out of range'') [0, 1, 2, 3, 4]))"
  by (simp only: collect_sources_def gather_return_exceptions_eq extract_all_eq sum.case
        option.case)

lemma collect_sources_first_fails: "collect_sources (Inl e) order outs = Some (Inl e)"
  by (simp add: collect_sources_def)

lemma five_sources:
  assumes "length outs = 5"
  shows "map (\<lambda>i. if i < length outs then marker_or_data (outs ! i)
                    else ErrorMarker ''Result index out of range'') [0, 1, 2, 3, 4]
           = map marker_or_data outs"
  using assms by (intro nth_equalityI) (auto simp: less_Suc_eq numeral_eq_Suc)

lemma markers_count:
  "length (filter is_marker (map marker_or_data outs)) = length (filter isl outs)"
  by (induction outs) (auto simp: is_marker_def marker_or_data_def split: sum.splits)

lemma first_exception_None:
  "first_exception is outs = None \<Longrightarrow> i \<in> set is \<Longrightarrow> i < length outs \<Longrightarrow> \<not> isl (outs ! i)"
  by (induction "is") (auto split: if_splits sum.splits)

lemma first_exception_Some:
  "first_exception is outs = Some e \<Longrightarrow> Inl e \<in> set outs"
  by (induction "is") (auto split: if_splits sum.splits dest: nth_mem)

lemma first_exception_no_failure:
  "\<forall>out \<in> set outs. \<not> isl out \<Longrightarrow> first_exception is outs = None"
proof (induction "is")
  case Nil
  then show ?case by simp
next
  case (Cons i rest)
  show ?case
  proof (cases "i < length outs")
    case True
    then have "outs ! i \<in> set outs" by simp
    with Cons.prems have "\<not> isl (outs ! i)" by blast
    then obtain v where "outs ! i = Inr v" by (cases "outs ! i") auto
    with True Cons show ?thesis by simp
  next
    case False
    with Cons show ?thesis by simp
  qed
qed

lemma gather_fails:
  assumes "Inl e0 \<in> set outs"
  shows "\<exists>e. gather order outs = Inl e \<and> Inl e \<in> set outs"
proof (cases "first_exception (completion_order order (length outs)) outs")
  case None
  from assms obtain i where i: "i < length outs" "outs ! i = Inl e0"
    by (auto simp: in_set_conv_nth)
  then have "i \<in> set (completion_order order (length outs))"
    by (simp add: completion_order_set)
  from first_exception_None[OF None this i(1)] i(2) show ?thesis by simp
next
  case (Some e)
  then show ?thesis using first_exception_Some[OF Some] by (simp add: gather_def)
qed

lemma gather_all_return:
  "gather order (map Inr vs) = Inr vs"
proof -
  have a: "first_exception (completion_order order (length (map Inr vs))) (map Inr vs) = None"
    by (intro first_exception_no_failure) auto
  have b: "concat (map (\<lambda>out. case out of Inl e \<Rightarrow> [] | Inr v \<Rightarrow> [v]) (map Inr vs)) = vs"
    by (induction vs) auto
  show ?thesis by (simp only: gather_def a b option.case)
qed

lemma gather_no_failure:
  "\<forall>out \<in> set outs. \<not> isl out \<Longrightarrow> gather order outs = Inr (values_of outs)"
  by (simp add: gather_def values_of_def first_exception_no_failure)

lemma values_of_all:
  "\<forall>out \<in> set outs. \<not> isl out \<Longrightarrow> map Inr (values_of outs) = outs"
  by (induction outs) (auto simp: values_of_def split: sum.splits)

text \<open>
  C2, amended. For every list of outcomes of \<open>N\<close> independent operations and every
  order in which they finish: \<open>gather\<close> with \<open>return_exceptions=True\<close> returns a list of
  length \<open>N\<close> whose entry \<open>j\<close> is the outcome of operation \<open>j\<close>, so it holds as many
  exceptions as operations failed, and when one operation fails instead (in any other
  order of completion) the call still returns and every other entry is unchanged. The
  fan-out over the data sources raises the exception of its first, separate \<open>await\<close>
  when that fails; otherwise it returns the five entries of the raw data, entry \<open>j\<close> the
  error marker of operation \<open>j\<close>'s exception or its data (the marker of a missing result
  when there are fewer operations), with as many markers as operations failed when the
  operations are five. \<open>gather\<close> without \<open>return_exceptions\<close>, the fan-out over the
  sections, returns the results in the order of the operations when none fails, and
  raises the exception of an operation that failed when one does.
\<close>

theorem fan_out_collectors:
  "(\<exists>results.
      gather_return_exceptions order outs = Some results \<and>
      length results = length outs \<and>
      (\<forall>j<length outs. results ! j = outs ! j) \<and>
      length (filter isl results) = length (filter isl outs)) \<and>
   (\<forall>i<length outs. \<forall>e. \<exists>results'.
      gather_return_exceptions order' (outs[i := Inl e]) = Some results' \<and>
      length results' = length outs \<and> results' ! i = Inl e \<and>
      (\<forall>j<length outs. j \<noteq> i \<longrightarrow> results' ! j = outs ! j)) \<and>
   (\<forall>e. collect_sources (Inl e) order outs = Some (Inl e)) \<and>
   (\<forall>v. \<exists>bag.
      collect_sources (Inr v) order outs = Some (Inr bag) \<and>
      length bag = 5 \<and>
      (\<forall>j<5. bag ! j = (if j < length outs then marker_or_data (outs ! j)
                         else ErrorMarker ''Result index out of range'')) \<and>
      (length outs = 5 \<longrightarrow>
         bag = map marker_or_data outs \<and>
         length (filter is_marker bag) = length (filter isl outs))) \<and>
   ((\<forall>out \<in> set outs. \<not> isl out) \<longrightarrow>
      gather order outs = Inr (values_of outs) \<and> map Inr (values_of outs) = outs) \<and>
   ((\<exists>out \<in> set outs. isl out) \<longrightarrow>
      (\<exists>e. gather order outs = Inl e \<and> Inl e \<in> set outs))"
proof (intro conjI allI impI)
  show "\<exists>results.
      gather_return_exceptions order outs = Some results \<and>
      length results = length outs \<and>
      (\<forall>j<length outs. results ! j = outs ! j) \<and>
      length (filter isl results) = length (filter isl outs)"
    by (intro exI[of _ outs]) (simp add: gather_return_exceptions_eq)
next
  fix i e
  assume "i < length outs"
  then show "\<exists>results'.
      gather_return_exceptions order' (outs[i := Inl e]) = Some results' \<and>
      length results' = length outs \<and> results' ! i = Inl e \<and>
      (\<forall>j<length outs. j \<noteq> i \<longrightarrow> results' ! j = outs ! j)"
    by (intro exI[of _ "outs[i := Inl e]"]) (simp add: gather_return_exceptions_eq)
next
  fix e
  show "collect_sources (Inl e) order outs = Some (Inl e)"
    by (rule collect_sources_first_fails)
next
  fix v
  let ?bag = "map (\<lambda>i. if i < length outs then marker_or_data (outs ! i)
                        else ErrorMarker ''Result index out of range'') [0, 1, 2, 3, 4]"
  have a: "collect_sources (Inr v) order outs = Some (Inr ?bag)" by (rule collect_sources_eq)
  have b: "length ?bag = 5" by simp
  have c: "\<forall>j<5. ?bag ! j = (if j < length outs then marker_or_data (outs ! j)
                         else ErrorMarker ''Result index out of range'')"
    by (auto simp: less_Suc_eq numeral_eq_Suc)
  have d: "length outs = 5 \<longrightarrow>
         ?bag = map marker_or_data outs \<and>
         length (filter is_marker ?bag) = length (filter isl outs)"
  proof (intro impI conjI)
    assume l: "length outs = 5"
    show e: "?bag = map marker_or_data outs" by (rule five_sources[OF l])
    show "length (filter is_marker ?bag) = length (filter isl outs)"
      by (simp only: e markers_count)
  qed
  from a b c d show "\<exists>bag.
      collect_sources (Inr v) order outs = Some (Inr bag) \<and>
      length bag = 5 \<and>
      (\<forall>j<5. bag ! j = (if j < length outs then marker_or_data (outs ! j)
                         else ErrorMarker ''Result index out of range'')) \<and>
      (length outs = 5 \<longrightarrow>
         bag = map marker_or_data outs \<and>
         length (filter is_marker bag) = length (filter isl outs))"
    by blast
next
  assume a: "\<forall>out \<in> set outs. \<not> isl out"
  show "gather order outs = Inr (values_of outs)" by (rule gather_no_failure[OF a])
  show "map Inr (values_of outs) = outs" by (rule values_of_all[OF a])
next
  assume "\<exists>out \<in> set outs. isl out"
  then obtain e0 where "Inl e0 \<in> set outs" by (auto simp: isl_def)
  then show "\<exists>e. gather order outs = Inl e \<and> Inl e \<in> set outs" by (rule gather_fails)
qed

theorem fan_out_collectors_witness:
  "gather_return_exceptions [4, 2, 0, 3, 1] five_outcomes = Some five_outcomes \<and>
   collect_sources (Inr ''search'') [4, 2, 0, 3, 1] five_outcomes =
     Some (Inr [SourceData ''search'', SourceData ''research'', ErrorMarker ''503'',
                SourceData ''linkedin'', SourceData ''funding'']) \<and>
   gather_return_exceptions [1, 0] (five_outcomes[0 := Inl (OtherError ''404'')]) =
     Some [Inl (OtherError ''404''), Inr ''research'', Inl (OtherError ''503''), Inr ''linkedin'',
           Inr ''funding''] \<and>
   gather [4, 2, 0, 3, 1] five_outcomes = Inl (OtherError ''503'') \<and>
   gather [2, 0, 1] [Inr ''overview'', Inr ''product'', Inr ''market'']
     = Inr [''overview'', ''product'', ''market'']"
proof -
  note inst = fan_out_collectors[of "[4, 2, 0, 3, 1]" five_outcomes "[1, 0]"]
  from inst obtain results where
    r: "gather_return_exceptions [4, 2, 0, 3, 1] five_outcomes = Some results"
       "length results = length five_outcomes"
       "\<forall>j<length five_outcomes. results ! j = five_outcomes ! j"
    by blast
  have len: "length five_outcomes = 5" by (simp add: five_outcomes_def)
  from inst obtain bag where
    b: "collect_sources (Inr ''search'') [4, 2, 0, 3, 1] five_outcomes = Some (Inr bag)"
       "length five_outcomes = 5 \<longrightarrow> bag = map marker_or_data five_outcomes"
    by blast
  from inst have s: "\<forall>i<length five_outcomes. \<forall>e. \<exists>results'.
      gather_return_exceptions [1, 0] (five_outcomes[i := Inl e]) = Some results' \<and>
      length results' = length five_outcomes \<and> results' ! i = Inl e \<and>
      (\<forall>j<length five_outcomes. j \<noteq> i \<longrightarrow> results' ! j = five_outcomes ! j)"
    by blast
  have 1: "results = five_outcomes" using r(2,3) by (intro nth_equalityI) auto
  have 2: "bag = map marker_or_data five_outcomes" using b(2) len by blast
  have pos: "0 < length five_outcomes" by (simp add: five_outcomes_def)
  from s pos have "\<exists>results'.
      gather_return_exceptions [1, 0] (five_outcomes[0 := Inl (OtherError ''404'')]) = Some results' \<and>
      length results' = length five_outcomes \<and> results' ! 0 = Inl (OtherError ''404'') \<and>
      (\<forall>j<length five_outcomes. j \<noteq> 0 \<longrightarrow> results' ! j = five_outcomes ! j)"
    by blast
  then obtain results' where
    r': "gather_return_exceptions [1, 0] (five_outcomes[0 := Inl (OtherError ''404'')]) = Some results'"
        "length results' = length five_outcomes" "results' ! 0 = Inl (OtherError ''404'')"
        "\<forall>j<length five_outcomes. j \<noteq> 0 \<longrightarrow> results' ! j = five_outcomes ! j"
    by blast
  have 3: "results' = five_outcomes[0 := Inl (OtherError ''404'')]"
    using r'(2,3,4) pos by (intro nth_equalityI) (auto simp: nth_list_update)
  have fails: "\<exists>out \<in> set five_outcomes. isl out" by (simp add: five_outcomes_def)
  with inst obtain e where
    e: "gather [4, 2, 0, 3, 1] five_outcomes = Inl e" "Inl e \<in> set five_outcomes"
    by blast
  from e(2) have e503: "e = OtherError ''503''" by (auto simp: five_outcomes_def)
  have ok: "\<forall>out \<in> set [Inr ''overview'', Inr ''product'', Inr ''market'' :: exn + string].
              \<not> isl out"
    by simp
  from fan_out_collectors[of "[2, 0, 1]"
         "[Inr ''overview'', Inr ''product'', Inr ''market'' :: exn + string]" "[]"] ok
  have 4: "gather [2, 0, 1] [Inr ''overview'', Inr ''product'', Inr ''market'' :: exn + string]
             = Inr (values_of [Inr ''overview'', Inr ''product'', Inr ''market''])"
    by blast
  show ?thesis
    using r(1) b(1) r'(1) e(1) 4 unfolding 1 2 3 e503
    by (simp add: five_outcomes_def marker_or_data_def values_of_def)
qed

section \<open>Theorems: the company name\<close>

lemma py_split_nonempty: "py_split sep s \<noteq> []"
  by (induction s) (auto split: list.splits)

lemma hd_py_split: "hd (py_split sep s) = takeWhile (\<lambda>c. c \<noteq> sep) s"
  by (induction s) (auto split: list.splits simp: py_split_nonempty)

lemma py_replace_char: "py_replace [a] [b] s = map (\<lambda>c. if c = a then b else c) s"
  by (induction s) (auto simp: startswith_def)

lemma startswith_www: "startswith n ''www.'' = (take 4 n = ''www.'')"
  by (simp add: startswith_def numeral_eq_Suc)

lemma extract_company_name_eq:
  "extract_company_name_from_url netloc_of u =
     (case netloc_of u of Inl e \<Rightarrow> Inl e | Inr n \<Rightarrow> Inr (host_label_name n))"
proof (cases "netloc_of u")
  case (Inl e)
  then show ?thesis by (simp add: extract_company_name_from_url_def)
next
  case (Inr n)
  let ?d = "if take 4 n = ''www.'' then drop 4 n else n"
  obtain x xs where sp: "py_split (CHR ''.'') ?d = x # xs"
    using py_split_nonempty[of "CHR ''.''" ?d] by (cases "py_split (CHR ''.'') ?d") auto
  have x: "x = takeWhile (\<lambda>c. c \<noteq> CHR ''.'') ?d"
    using hd_py_split[of "CHR ''.''" ?d] sp by simp
  show ?thesis
    using Inr sp x
    by (simp add: extract_company_name_from_url_def startswith_www Let_def host_label_name_def
          py_replace_char cong: if_cong)
qed

lemma extract_domain_eq:
  "extract_domain_from_url netloc_of u =
     (case netloc_of u of Inl e \<Rightarrow> Inl e | Inr n \<Rightarrow> Inr (strip_www n))"
  by (simp add: extract_domain_from_url_def strip_www_def startswith_www split: sum.splits)

lemma acme_netloc: "py_urlparse_netloc ''https://acme.co/about'' = Inr ''acme.co''"
  by (simp add: py_urlparse_netloc_def strip_scheme_def is_scheme_char_def is_ascii_alpha_def Let_def)

lemma acme_name: "extract_company_name_from_url py_urlparse_netloc ''https://acme.co/about'' = Inr ''acme''"
  by (simp add: extract_company_name_eq acme_netloc host_label_name_def)

lemma bad_url_raises: "py_urlparse_netloc bad_url = Inl (ValueError ''Invalid IPv6 URL'')"
  by (simp add: bad_url_def py_urlparse_netloc_def strip_scheme_def is_scheme_char_def
        is_ascii_alpha_def Let_def)

section \<open>Theorems: the orchestrator\<close>

lemma search_on_website_Some:
  "search_on_website en topic (Some w) = Inr (website_answer en topic w)"
  by (simp add: search_on_website_def website_answer_def split: sum.splits)

lemma fetch_info_domain:
  "domain job = Some w \<Longrightarrow> fetch_info en job key topic = (key, AnswerModel (website_answer en topic w))"
  by (simp add: fetch_info_def search_on_website_Some)

lemma results_dict_models:
  "results_dict (map (\<lambda>(key, topic). (key, AnswerModel (f topic))) kts)
     = Inr (map (\<lambda>(key, topic). (key, f topic)) kts)"
  by (induction kts) auto

lemma get_company_info_unfold:
  "get_company_info en job
     = results_dict (map (\<lambda>(key, topic). fetch_info en job key topic) info_topics)"
proof -
  have m: "map (\<lambda>(key, topic). Inr (fetch_info en job key topic)) info_topics
          = map Inr (map (\<lambda>(key, topic). fetch_info en job key topic) info_topics)"
    by (simp add: case_prod_beta)
  show ?thesis
    by (simp only: get_company_info_def Let_def m gather_all_return sum.case)
qed

lemma get_company_info_domain:
  assumes "domain job = Some w"
  shows "get_company_info en job = Inr (website_answers en w)"
proof -
  have "map (\<lambda>(key, topic). fetch_info en job key topic) info_topics
        = map (\<lambda>(key, topic). (key, AnswerModel (website_answer en topic w))) info_topics"
    using assms by (simp add: fetch_info_domain)
  then show ?thesis
    by (simp only: get_company_info_unfold website_answers_def results_dict_models)
qed

lemma results_dict_keys: "results_dict l = Inr wd \<Longrightarrow> map fst wd = map fst l"
  by (induction l arbitrary: wd) (auto split: sum.splits)

lemma fst_fetch_info: "fst (fetch_info en job key topic) = key"
  by (simp add: fetch_info_def split: sum.splits)

lemma get_company_info_keys:
  assumes "get_company_info en job = Inr wd"
  shows "map fst wd = map fst info_topics"
proof -
  have "map fst wd = map fst (map (\<lambda>(key, topic). fetch_info en job key topic) info_topics)"
    using assms by (simp add: get_company_info_unfold results_dict_keys)
  also have "\<dots> = map fst info_topics"
    by (simp add: case_prod_beta fst_fetch_info comp_def)
  finally show ?thesis .
qed

lemma resolve_total:
  assumes "get_company_info en job = Inr wd"
  shows "\<exists>name. resolve_company_name wd derived = Inr name"
proof -
  have "''company_name'' \<in> set (map fst info_topics)" by (simp add: info_topics_def)
  then have "''company_name'' \<in> fst ` set wd"
    using get_company_info_keys[OF assms] by (simp only: set_map [symmetric])
  then have "map_of wd ''company_name'' \<noteq> None" by (simp only: map_of_eq_None_iff not_not)
  then obtain r where "map_of wd ''company_name'' = Some r" by blast
  then show ?thesis by (simp add: resolve_company_name_def py_getitem_def)
qed

lemma resolve_answers:
  "resolve_company_name (website_answers en w) derived =
     Inr (if length (content (website_answer en ''What is the name of the company?'' w)) > 3
          then content (website_answer en ''What is the name of the company?'' w) else derived)"
  by (simp add: resolve_company_name_def py_getitem_def website_answers_def info_topics_def)


lemma try_block_absent:
  "db jid = None \<Longrightarrow> try_block en jid u db = ([], db, Inl (KeyError jid))"
  by (simp add: try_block_def)

lemma try_block_urlparse_fails:
  "db jid = Some job \<Longrightarrow> urlparse_netloc en u = Inl e \<Longrightarrow>
   try_block en jid u db =
     ([(Stmt, db(jid \<mapsto> job\<lparr>ScreenerJob.status := PROCESSING\<rparr>))],
      db(jid \<mapsto> job\<lparr>ScreenerJob.status := PROCESSING\<rparr>), Inl e)"
  by (simp add: try_block_def extract_domain_eq Let_def)

lemma try_block_sections_fail:
  assumes "db jid = Some job" "urlparse_netloc en u = Inr n"
    and "generate_report_sections en (run_raw_data en u n) = Inl e"
  shows "try_block en jid u db =
     ([(Stmt, db(jid \<mapsto> job\<lparr>ScreenerJob.status := PROCESSING\<rparr>)),
       (Stmt, db(jid \<mapsto> job\<lparr>ScreenerJob.status := PROCESSING, domain := Some (strip_www n)\<rparr>)),
       (Await, db(jid \<mapsto> job\<lparr>ScreenerJob.status := PROCESSING, domain := Some (strip_www n)\<rparr>)),
       (Await, db(jid \<mapsto> job\<lparr>ScreenerJob.status := PROCESSING, domain := Some (strip_www n)\<rparr>))],
      db(jid \<mapsto> job\<lparr>ScreenerJob.status := PROCESSING, domain := Some (strip_www n)\<rparr>), Inl e)"
  using assms
  by (simp add: try_block_def extract_domain_eq extract_company_name_eq Let_def
        get_company_info_domain resolve_answers run_raw_data_def resolved_name_def)

lemma try_block_sections_ok:
  assumes "db jid = Some job" "urlparse_netloc en u = Inr n"
    and "generate_report_sections en (run_raw_data en u n) = Inr rep"
  shows "try_block en jid u db =
     ([(Stmt, db(jid \<mapsto> job\<lparr>ScreenerJob.status := PROCESSING\<rparr>)),
       (Stmt, db(jid \<mapsto> job\<lparr>ScreenerJob.status := PROCESSING, domain := Some (strip_www n)\<rparr>)),
       (Await, db(jid \<mapsto> job\<lparr>ScreenerJob.status := PROCESSING, domain := Some (strip_www n)\<rparr>)),
       (Await, db(jid \<mapsto> job\<lparr>ScreenerJob.status := PROCESSING, domain := Some (strip_www n)\<rparr>)),
       (Stmt, db(jid \<mapsto> job\<lparr>ScreenerJob.status := PROCESSING, domain := Some (strip_www n), report := Some rep\<rparr>)),
       (Stmt, db(jid \<mapsto> job\<lparr>domain := Some (strip_www n), report := Some rep, ScreenerJob.status := COMPLETED\<rparr>)),
       (Stmt, db(jid \<mapsto> job\<lparr>domain := Some (strip_www n), report := Some rep, ScreenerJob.status := COMPLETED\<rparr>))],
      db(jid \<mapsto> job\<lparr>domain := Some (strip_www n), report := Some rep, ScreenerJob.status := COMPLETED\<rparr>), Inr rep)"
  using assms
  by (simp add: try_block_def extract_domain_eq extract_company_name_eq Let_def
        get_company_info_domain resolve_answers run_raw_data_def resolved_name_def)


lemma run_absent:
  "db jid = None \<Longrightarrow>
   generate_report_async en jid u db = ([(Entry, db), (Return, db)], Inr None)"
  by (simp add: generate_report_async_def try_block_absent except_block_def)

lemma run_urlparse_fails:
  assumes "db jid = Some job" "urlparse_netloc en u = Inl e"
  shows "generate_report_async en jid u db =
     ([(Entry, db),
       (Stmt, db(jid \<mapsto> job\<lparr>ScreenerJob.status := PROCESSING\<rparr>)),
       (Stmt, db(jid \<mapsto> job\<lparr>ScreenerJob.status := FAILED\<rparr>)),
       (Stmt, db(jid \<mapsto> job\<lparr>ScreenerJob.status := FAILED, error := Some (str_exn e)\<rparr>)),
       (Stmt, db(jid \<mapsto> job\<lparr>ScreenerJob.status := FAILED, error := Some (str_exn e)\<rparr>)),
       (Return, db(jid \<mapsto> job\<lparr>ScreenerJob.status := FAILED, error := Some (str_exn e)\<rparr>))],
      Inr None)"
  by (simp add: generate_report_async_def try_block_urlparse_fails[of db jid job en u e, OF assms] except_block_def Let_def)

lemma run_sections_fail:
  assumes "db jid = Some job" "urlparse_netloc en u = Inr n"
    and "generate_report_sections en (run_raw_data en u n) = Inl e"
  shows "generate_report_async en jid u db =
     ([(Entry, db),
       (Stmt, db(jid \<mapsto> job\<lparr>ScreenerJob.status := PROCESSING\<rparr>)),
       (Stmt, db(jid \<mapsto> job\<lparr>ScreenerJob.status := PROCESSING, domain := Some (strip_www n)\<rparr>)),
       (Await, db(jid \<mapsto> job\<lparr>ScreenerJob.status := PROCESSING, domain := Some (strip_www n)\<rparr>)),
       (Await, db(jid \<mapsto> job\<lparr>ScreenerJob.status := PROCESSING, domain := Some (strip_www n)\<rparr>)),
       (Stmt, db(jid \<mapsto> job\<lparr>domain := Some (strip_www n), ScreenerJob.status := FAILED\<rparr>)),
       (Stmt, db(jid \<mapsto> job\<lparr>domain := Some (strip_www n), ScreenerJob.status := FAILED,
                              error := Some (str_exn e)\<rparr>)),
       (Stmt, db(jid \<mapsto> job\<lparr>domain := Some (strip_www n), ScreenerJob.status := FAILED,
                              error := Some (str_exn e)\<rparr>)),
       (Return, db(jid \<mapsto> job\<lparr>domain := Some (strip_www n), ScreenerJob.status := FAILED,
                              error := Some (str_exn e)\<rparr>))],
      Inr None)"
  by (simp add: generate_report_async_def try_block_sections_fail[of db jid job en u n e, OF assms] except_block_def Let_def)

lemma run_ok:
  assumes "db jid = Some job" "urlparse_netloc en u = Inr n"
    and "generate_report_sections en (run_raw_data en u n) = Inr rep"
  shows "generate_report_async en jid u db =
     ([(Entry, db),
       (Stmt, db(jid \<mapsto> job\<lparr>ScreenerJob.status := PROCESSING\<rparr>)),
       (Stmt, db(jid \<mapsto> job\<lparr>ScreenerJob.status := PROCESSING, domain := Some (strip_www n)\<rparr>)),
       (Await, db(jid \<mapsto> job\<lparr>ScreenerJob.status := PROCESSING, domain := Some (strip_www n)\<rparr>)),
       (Await, db(jid \<mapsto> job\<lparr>ScreenerJob.status := PROCESSING, domain := Some (strip_www n)\<rparr>)),
       (Stmt, db(jid \<mapsto> job\<lparr>ScreenerJob.status := PROCESSING, domain := Some (strip_www n), report := Some rep\<rparr>)),
       (Stmt, db(jid \<mapsto> job\<lparr>domain := Some (strip_www n), report := Some rep, ScreenerJob.status := COMPLETED\<rparr>)),
       (Stmt, db(jid \<mapsto> job\<lparr>domain := Some (strip_www n), report := Some rep, ScreenerJob.status := COMPLETED\<rparr>)),
       (Return, db(jid \<mapsto> job\<lparr>domain := Some (strip_www n), report := Some rep, ScreenerJob.status := COMPLETED\<rparr>))],
      Inr (Some rep))"
  by (simp add: generate_report_async_def try_block_sections_ok[of db jid job en u n rep, OF assms])


lemma sections_fail:
  assumes "overview_generate en raw = Inl e0 \<or> product_generate en raw = Inl e0
           \<or> market_generate en raw = Inl e0"
  shows "\<exists>e. generate_report_sections en raw = Inl e \<and>
             (overview_generate en raw = Inl e \<or> product_generate en raw = Inl e
              \<or> market_generate en raw = Inl e)"
proof -
  let ?outs = "[overview_generate en raw, product_generate en raw, market_generate en raw]"
  have "Inl e0 \<in> set ?outs" using assms by auto
  from gather_fails[OF this, of "sections_order en"]
  obtain e where "gather (sections_order en) ?outs = Inl e" "Inl e \<in> set ?outs" by blast
  then show ?thesis by (auto simp: generate_report_sections_def)
qed

lemma sections_return:
  assumes "overview_generate en raw = Inr r0" "product_generate en raw = Inr r1"
          "market_generate en raw = Inr r2"
  shows "generate_report_sections en raw = make_report r0 r1 r2"
  using gather_all_return[of "sections_order en" "[r0, r1, r2]"] assms
  by (simp add: generate_report_sections_def)

lemma acme_db_job:
  "acme_db ''j'' = Some \<lparr>id_field = ''j'', status = PENDING, url = acme_url, domain = None,
                          report = None, error = None\<rparr>"
  by (simp add: acme_db_def generate_def)

lemma acme_url_netloc: "py_urlparse_netloc acme_url = Inr ''acme.co''"
  by (simp add: acme_url_def acme_netloc)

lemma strip_www_acme: "strip_www ''acme.co'' = ''acme.co''"
  by (simp add: strip_www_def)

lemma host_label_acme: "host_label_name ''acme.co'' = ''acme''"
  by (simp add: host_label_name_def)

lemma acme_resolved: "resolved_name acme_env ''acme.co'' = ''Acme Robotics''"
  by (simp add: resolved_name_def website_answer_def acme_env_def acme_parse_def)

lemma search_down_resolved: "resolved_name search_down_env ''acme.co'' = ''acme''"
  by (simp add: resolved_name_def website_answer_def search_down_env_def acme_env_def
        host_label_acme)

lemma acme_generators:
  "overview_generate acme_env = echo_name" "product_generate acme_env = echo_name"
  "market_generate acme_env = echo_name"
  by (simp_all add: acme_env_def)

lemma search_down_generators:
  "overview_generate search_down_env = echo_name" "product_generate search_down_env = echo_name"
  "market_generate search_down_env = echo_name"
  by (simp_all add: search_down_env_def acme_env_def)

lemma overview_fails_generators:
  "overview_generate overview_fails_env = (\<lambda>raw. Inl (RateLimitError ''429''))"
  "product_generate overview_fails_env = echo_name"
  "market_generate overview_fails_env = echo_name"
  by (simp_all add: overview_fails_env_def acme_env_def)

lemma acme_sections:
  "generate_report_sections acme_env (run_raw_data acme_env acme_url ''acme.co'')
     = Inr (named_report ''Acme Robotics'')"
proof -
  let ?raw = "run_raw_data acme_env acme_url ''acme.co''"
  have n: "company_name ?raw = ''Acme Robotics''" by (simp add: run_raw_data_def acme_resolved)
  have "generate_report_sections acme_env ?raw
          = make_report (ContentReply (Some ''Acme Robotics'')) (ContentReply (Some ''Acme Robotics''))
              (ContentReply (Some ''Acme Robotics''))"
    by (rule sections_return) (simp_all add: acme_generators echo_name_def n)
  then show ?thesis by (simp add: make_report_def named_report_def)
qed

lemma search_down_sections:
  "generate_report_sections search_down_env (run_raw_data search_down_env acme_url ''acme.co'')
     = Inr (named_report ''acme'')"
proof -
  let ?raw = "run_raw_data search_down_env acme_url ''acme.co''"
  have n: "company_name ?raw = ''acme''" by (simp add: run_raw_data_def search_down_resolved)
  have "generate_report_sections search_down_env ?raw
          = make_report (ContentReply (Some ''acme'')) (ContentReply (Some ''acme''))
              (ContentReply (Some ''acme''))"
    by (rule sections_return) (simp_all add: search_down_generators echo_name_def n)
  then show ?thesis by (simp add: make_report_def named_report_def)
qed

lemma overview_fails_sections:
  "generate_report_sections overview_fails_env (run_raw_data overview_fails_env acme_url ''acme.co'')
     = Inl (RateLimitError ''429'')"
proof -
  let ?raw = "run_raw_data overview_fails_env acme_url ''acme.co''"
  have "overview_generate overview_fails_env ?raw = Inl (RateLimitError ''429'')"
    by (simp add: overview_fails_generators)
  then obtain e where e: "generate_report_sections overview_fails_env ?raw = Inl e"
    "overview_generate overview_fails_env ?raw = Inl e \<or> product_generate overview_fails_env ?raw = Inl e
              \<or> market_generate overview_fails_env ?raw = Inl e"
    using sections_fail[of overview_fails_env ?raw "RateLimitError ''429''"] by blast
  from e(2) have "e = RateLimitError ''429''"
    by (simp add: overview_fails_generators echo_name_def)
  with e(1) show ?thesis by simp
qed

text \<open>
  C2, as the claim states it, has every fan-out return a sequence of outcomes in which
  the failures are markers, and no failure abort a sibling. The fan-out over the report
  sections gathers without \<open>return_exceptions\<close>: of three operations of which the first
  fails, the call raises the exception of the first and returns no sequence, so that
  \<open>_generate_report_sections\<close> raises although the product processor has returned.
  And the fan-out over the data sources awaits its first source once before the gather,
  outside of it: when that fails the call raises, although the five gathered operations
  all return.
\<close>

theorem section_fan_out_counterexample:
  "gather [2, 0, 1] [Inl (RateLimitError ''429''), Inr ''product'', Inr ''market'']
     = Inl (RateLimitError ''429'') \<and>
   product_generate overview_fails_env (run_raw_data overview_fails_env acme_url ''acme.co'')
     = Inr (ContentReply (Some ''Acme Robotics'')) \<and>
   generate_report_sections overview_fails_env
       (run_raw_data overview_fails_env acme_url ''acme.co'')
     = Inl (RateLimitError ''429'') \<and>
   collect_sources (Inl (OtherError ''503'')) [0, 1, 2, 3, 4]
       [Inr ''search'', Inr ''research'', Inr ''website'', Inr ''linkedin'', Inr ''funding'']
     = Some (Inl (OtherError ''503''))"
proof -
  have 1: "gather [2, 0, 1] [Inl (RateLimitError ''429''), Inr ''product'', Inr ''market'']
     = Inl (RateLimitError ''429'')"
    by (simp add: gather_def completion_order_def numeral_eq_Suc)
  have r: "resolved_name overview_fails_env ''acme.co'' = ''Acme Robotics''"
    by (simp add: resolved_name_def website_answer_def overview_fails_env_def acme_env_def
          acme_parse_def strip_www_acme)
  have 2: "product_generate overview_fails_env
             (run_raw_data overview_fails_env acme_url ''acme.co'')
     = Inr (ContentReply (Some ''Acme Robotics''))"
    by (simp add: overview_fails_generators echo_name_def run_raw_data_def r)
  from 1 2 overview_fails_sections show ?thesis
    by (simp only: collect_sources_first_fails simp_thms)
qed

lemma acme_run:
  "job_states ''j'' (fst (generate_report_async acme_env ''j'' acme_url acme_db)) =
     [(Entry, Some \<lparr>id_field = ''j'', status = PENDING, url = acme_url, domain = None,
                     report = None, error = None\<rparr>),
      (Stmt, Some \<lparr>id_field = ''j'', status = PROCESSING, url = acme_url, domain = None,
                     report = None, error = None\<rparr>),
      (Stmt, Some \<lparr>id_field = ''j'', status = PROCESSING, url = acme_url, domain = Some ''acme.co'',
                     report = None, error = None\<rparr>),
      (Await, Some \<lparr>id_field = ''j'', status = PROCESSING, url = acme_url, domain = Some ''acme.co'',
                     report = None, error = None\<rparr>),
      (Await, Some \<lparr>id_field = ''j'', status = PROCESSING, url = acme_url, domain = Some ''acme.co'',
                     report = None, error = None\<rparr>),
      (Stmt, Some \<lparr>id_field = ''j'', status = PROCESSING, url = acme_url, domain = Some ''acme.co'',
                     report = Some (named_report ''Acme Robotics''), error = None\<rparr>),
      (Stmt, Some \<lparr>id_field = ''j'', status = COMPLETED, url = acme_url, domain = Some ''acme.co'',
                     report = Some (named_report ''Acme Robotics''), error = None\<rparr>),
      (Stmt, Some \<lparr>id_field = ''j'', status = COMPLETED, url = acme_url, domain = Some ''acme.co'',
                     report = Some (named_report ''Acme Robotics''), error = None\<rparr>),
      (Return, Some \<lparr>id_field = ''j'', status = COMPLETED, url = acme_url, domain = Some ''acme.co'',
                     report = Some (named_report ''Acme Robotics''), error = None\<rparr>)]"
proof -
  have u: "urlparse_netloc acme_env acme_url = Inr ''acme.co''"
    by (simp add: acme_env_def acme_url_netloc)
  show ?thesis
    by (simp add: run_ok[of acme_db "''j''" _ acme_env acme_url "''acme.co''", OF acme_db_job u acme_sections] job_states_def strip_www_acme
          acme_db_job)
qed


lemma overview_fails_run:
  "generate_report_async overview_fails_env ''j'' acme_url acme_db =
     ([(Entry, acme_db),
       (Stmt, acme_db(''j'' \<mapsto> \<lparr>id_field = ''j'', status = PROCESSING, url = acme_url, domain = None,
                     report = None, error = None\<rparr>)),
       (Stmt, acme_db(''j'' \<mapsto> \<lparr>id_field = ''j'', status = PROCESSING, url = acme_url, domain = Some ''acme.co'',
                     report = None, error = None\<rparr>)),
       (Await, acme_db(''j'' \<mapsto> \<lparr>id_field = ''j'', status = PROCESSING, url = acme_url, domain = Some ''acme.co'',
                     report = None, error = None\<rparr>)),
       (Await, acme_db(''j'' \<mapsto> \<lparr>id_field = ''j'', status = PROCESSING, url = acme_url, domain = Some ''acme.co'',
                     report = None, error = None\<rparr>)),
       (Stmt, acme_db(''j'' \<mapsto> \<lparr>id_field = ''j'', status = FAILED, url = acme_url, domain = Some ''acme.co'',
                     report = None, error = None\<rparr>)),
       (Stmt, acme_db(''j'' \<mapsto> \<lparr>id_field = ''j'', status = FAILED, url = acme_url, domain = Some ''acme.co'',
                     report = None, error = Some ''429''\<rparr>)),
       (Stmt, acme_db(''j'' \<mapsto> \<lparr>id_field = ''j'', status = FAILED, url = acme_url, domain = Some ''acme.co'',
                     report = None, error = Some ''429''\<rparr>)),
       (Return, acme_db(''j'' \<mapsto> \<lparr>id_field = ''j'', status = FAILED, url = acme_url, domain = Some ''acme.co'',
                     report = None, error = Some ''429''\<rparr>))],
      Inr None)"
proof -
  have u: "urlparse_netloc overview_fails_env acme_url = Inr ''acme.co''"
    by (simp add: overview_fails_env_def acme_env_def acme_url_netloc)
  show ?thesis
    by (simp add: run_sections_fail[of acme_db "''j''" _ overview_fails_env acme_url "''acme.co''",
                    OF acme_db_job u overview_fails_sections] strip_www_acme)
qed

text \<open>
  C1, as the claim states it, asks the report to be present exactly when the status is
  \<open>COMPLETED\<close> and the error exactly when it is \<open>FAILED\<close> at every step of
  \<open>generate_report_async\<close>. The function assigns the two attributes one after the
  other: after \<open>job.report = report\<close> and before \<open>job.status = JobStatus.COMPLETED\<close>
  the job has a report and the status \<open>PROCESSING\<close> (and, in the handler, after
  \<open>job.status = JobStatus.FAILED\<close> and before \<open>job.error = str(e)\<close> it is failed
  without an error). The run of the example passes through such a state.
\<close>

theorem transient_state_counterexample:
  "\<not> every_state_consistent
       (job_states ''j'' (fst (generate_report_async acme_env ''j'' acme_url acme_db)))"
  by (simp add: acme_run every_state_consistent_def job_consistent_def)

text \<open>
  C1, amended. For a job created by \<open>generate\<close> and run by \<open>generate_report_async\<close>,
  whatever the collaborators do: the job is in the store at every state of the run; its
  statuses start at \<open>PENDING\<close> and each step keeps the status or goes from \<open>PENDING\<close>
  to \<open>PROCESSING\<close> or from \<open>PROCESSING\<close> to \<open>COMPLETED\<close> or \<open>FAILED\<close>, so no
  step leaves a terminal status; the run ends in \<open>COMPLETED\<close> or \<open>FAILED\<close>; and at
  every state another task can observe (the creation, each \<open>await\<close> of the function,
  its return) the report is present exactly when the status is \<open>COMPLETED\<close> and the
  error exactly when it is \<open>FAILED\<close>.
\<close>

theorem job_lifecycle_observable:
  "every_state_consistent (observable_states
      (job_states jid (fst (generate_report_async en jid u (fst (generate db0 jid u)))))) \<and>
   lifecycle (statuses
      (job_states jid (fst (generate_report_async en jid u (fst (generate db0 jid u)))))) \<and>
   length (statuses
      (job_states jid (fst (generate_report_async en jid u (fst (generate db0 jid u))))))
     = length (fst (generate_report_async en jid u (fst (generate db0 jid u)))) \<and>
   hd (statuses
      (job_states jid (fst (generate_report_async en jid u (fst (generate db0 jid u))))))
     = PENDING \<and>
   (last (statuses
      (job_states jid (fst (generate_report_async en jid u (fst (generate db0 jid u))))))
     = COMPLETED \<or>
    last (statuses
      (job_states jid (fst (generate_report_async en jid u (fst (generate db0 jid u))))))
     = FAILED)"
proof -
  let ?job = "\<lparr>id_field = jid, status = PENDING, url = u, domain = None, report = None,
               error = None\<rparr>"
  let ?db = "fst (generate db0 jid u)"
  have j: "?db jid = Some ?job" by (simp add: generate_def)
  note defs = job_states_def observable_states_def every_state_consistent_def observable_def
    job_consistent_def status_step_def
  show ?thesis
  proof (cases "urlparse_netloc en u")
    case (Inl e)
    show ?thesis
      by (simp add: run_urlparse_fails[of ?db jid ?job en u e, OF j Inl] defs j)
  next
    case (Inr n)
    show ?thesis
    proof (cases "generate_report_sections en (run_raw_data en u n)")
      case (Inl e)
      show ?thesis
        by (simp add: run_sections_fail[of ?db jid ?job en u n e, OF j Inr Inl] defs j)
    next
      case rep: (Inr rep)
      show ?thesis
        by (simp add: run_ok[of ?db jid ?job en u n rep, OF j Inr rep] defs j)
    qed
  qed
qed

theorem job_lifecycle_observable_witness:
  "every_state_consistent (observable_states
      (job_states ''j'' (fst (generate_report_async acme_env ''j'' acme_url acme_db)))) \<and>
   statuses (job_states ''j'' (fst (generate_report_async acme_env ''j'' acme_url acme_db)))
     = [PENDING, PROCESSING, PROCESSING, PROCESSING, PROCESSING, PROCESSING, COMPLETED,
        COMPLETED, COMPLETED] \<and>
   lifecycle (statuses (job_states ''j'' (fst (generate_report_async acme_env ''j'' acme_url acme_db))))"
  using job_lifecycle_observable[of "''j''" acme_env acme_url Map.empty]
  by (simp add: acme_db_def[symmetric] acme_run)

text \<open>
  C3, as the claim states it, asks that the failure of one section generation be kept
  inside the result and the job still proceed. \<open>_generate_report_sections\<close> gathers
  its tasks without \<open>return_exceptions\<close>: when the overview processor raises, the
  exception reaches the handler of \<open>generate_report_async\<close> and the job ends
  \<open>FAILED\<close>, without a report, with the message of that exception.
\<close>

theorem section_failure_counterexample:
  "overview_generate overview_fails_env (run_raw_data overview_fails_env acme_url ''acme.co'')
     = Inl (RateLimitError ''429'') \<and>
   map_option ScreenerJob.status
     (final_db (generate_report_async overview_fails_env ''j'' acme_url acme_db) ''j'') = Some FAILED \<and>
   map_option report
     (final_db (generate_report_async overview_fails_env ''j'' acme_url acme_db) ''j'') = Some None \<and>
   map_option error
     (final_db (generate_report_async overview_fails_env ''j'' acme_url acme_db) ''j'')
     = Some (Some ''429'')"
  by (simp add: overview_fails_run final_db_def overview_fails_generators)


lemma website_answer_marker:
  "(search_llm en topic w = Inl e \<longrightarrow>
      website_answer en topic w = \<lparr>content = ''N/A'', link = ''N/A''\<rparr>) \<and>
   (search_llm en topic w = Inr r \<and> parse_answer en r = Inl e \<longrightarrow>
      website_answer en topic w = \<lparr>content = ''N/A'', link = ''N/A''\<rparr>) \<and>
   (search_llm en topic w = Inr r \<and> parse_answer en r = Inr a \<longrightarrow>
      website_answer en topic w = a)"
  by (simp add: website_answer_def)

text \<open>
  C3, amended. For a job in the store: when \<open>urlparse\<close> raises, the job ends
  \<open>FAILED\<close> with the message of the exception. Otherwise the five website searches
  never fail the job: \<open>get_company_info\<close> returns the answers, and the answer of a
  search whose call or whose parsing raises is the \<open>N/A\<close> response. The section
  generations are not isolated: the job ends \<open>COMPLETED\<close> with the report exactly
  when \<open>_generate_report_sections\<close> returns one, and \<open>FAILED\<close> with the message of
  the exception when it raises; it raises whenever one of the three processors raises,
  and then with the exception of one of them; it returns the report of the three contents
  when the three processors return contents.
\<close>

theorem failure_propagation:
  "db jid = Some job \<longrightarrow>
     (\<forall>e. urlparse_netloc en u = Inl e \<longrightarrow>
        final_db (generate_report_async en jid u db) jid
          = Some (job\<lparr>ScreenerJob.status := FAILED, error := Some (str_exn e)\<rparr>)) \<and>
     (\<forall>n. urlparse_netloc en u = Inr n \<longrightarrow>
        get_company_info en (job\<lparr>ScreenerJob.status := PROCESSING, domain := Some (strip_www n)\<rparr>)
          = Inr (website_answers en (strip_www n)) \<and>
        (\<forall>topic e r.
           search_llm en topic (strip_www n) = Inl e
           \<or> (search_llm en topic (strip_www n) = Inr r \<and> parse_answer en r = Inl e) \<longrightarrow>
           website_answer en topic (strip_www n) = \<lparr>content = ''N/A'', link = ''N/A''\<rparr>) \<and>
        (\<forall>rep. generate_report_sections en (run_raw_data en u n) = Inr rep \<longrightarrow>
           final_db (generate_report_async en jid u db) jid
             = Some (job\<lparr>domain := Some (strip_www n), report := Some rep,
                         ScreenerJob.status := COMPLETED\<rparr>)) \<and>
        (\<forall>e. generate_report_sections en (run_raw_data en u n) = Inl e \<longrightarrow>
           final_db (generate_report_async en jid u db) jid
             = Some (job\<lparr>domain := Some (strip_www n), ScreenerJob.status := FAILED,
                         error := Some (str_exn e)\<rparr>)) \<and>
        (\<forall>e0. overview_generate en (run_raw_data en u n) = Inl e0
              \<or> product_generate en (run_raw_data en u n) = Inl e0
              \<or> market_generate en (run_raw_data en u n) = Inl e0 \<longrightarrow>
           (\<exists>e. generate_report_sections en (run_raw_data en u n) = Inl e \<and>
                (overview_generate en (run_raw_data en u n) = Inl e
                 \<or> product_generate en (run_raw_data en u n) = Inl e
                 \<or> market_generate en (run_raw_data en u n) = Inl e))) \<and>
        (\<forall>c0 c1 c2.
           overview_generate en (run_raw_data en u n) = Inr (ContentReply c0)
           \<and> product_generate en (run_raw_data en u n) = Inr (ContentReply c1)
           \<and> market_generate en (run_raw_data en u n) = Inr (ContentReply c2) \<longrightarrow>
           generate_report_sections en (run_raw_data en u n)
             = Inr \<lparr>company_overview = c0, product_business_model = c1, market_analysis = c2,
                    competitive_landscape = None, financial_metrics = None,
                    fundraising_history = None, team_key_stakeholders = None\<rparr>))"
proof (intro impI conjI allI)
  fix e assume j: "db jid = Some job" and u: "urlparse_netloc en u = Inl e"
  show "final_db (generate_report_async en jid u db) jid
          = Some (job\<lparr>ScreenerJob.status := FAILED, error := Some (str_exn e)\<rparr>)"
    by (simp add: run_urlparse_fails[of db jid job en u e, OF j u] final_db_def)
next
  fix n assume j: "db jid = Some job" and u: "urlparse_netloc en u = Inr n"
  show "get_company_info en (job\<lparr>ScreenerJob.status := PROCESSING, domain := Some (strip_www n)\<rparr>)
          = Inr (website_answers en (strip_www n))"
    by (rule get_company_info_domain) simp
next
  fix n topic e r
  assume "search_llm en topic (strip_www n) = Inl e
           \<or> (search_llm en topic (strip_www n) = Inr r \<and> parse_answer en r = Inl e)"
  then show "website_answer en topic (strip_www n) = \<lparr>content = ''N/A'', link = ''N/A''\<rparr>"
    using website_answer_marker[of en topic "strip_www n" e r] by blast
next
  fix n rep
  assume j: "db jid = Some job" and u: "urlparse_netloc en u = Inr n"
    and r: "generate_report_sections en (run_raw_data en u n) = Inr rep"
  show "final_db (generate_report_async en jid u db) jid
             = Some (job\<lparr>domain := Some (strip_www n), report := Some rep,
                         ScreenerJob.status := COMPLETED\<rparr>)"
    by (simp add: run_ok[of db jid job en u n rep, OF j u r] final_db_def)
next
  fix n e
  assume j: "db jid = Some job" and u: "urlparse_netloc en u = Inr n"
    and r: "generate_report_sections en (run_raw_data en u n) = Inl e"
  show "final_db (generate_report_async en jid u db) jid
             = Some (job\<lparr>domain := Some (strip_www n), ScreenerJob.status := FAILED,
                         error := Some (str_exn e)\<rparr>)"
    by (simp add: run_sections_fail[of db jid job en u n e, OF j u r] final_db_def)
next
  fix n e0
  assume "overview_generate en (run_raw_data en u n) = Inl e0
              \<or> product_generate en (run_raw_data en u n) = Inl e0
              \<or> market_generate en (run_raw_data en u n) = Inl e0"
  then show "\<exists>e. generate_report_sections en (run_raw_data en u n) = Inl e \<and>
                (overview_generate en (run_raw_data en u n) = Inl e
                 \<or> product_generate en (run_raw_data en u n) = Inl e
                 \<or> market_generate en (run_raw_data en u n) = Inl e)"
    by (rule sections_fail)
next
  fix n c0 c1 c2
  assume "overview_generate en (run_raw_data en u n) = Inr (ContentReply c0)
           \<and> product_generate en (run_raw_data en u n) = Inr (ContentReply c1)
           \<and> market_generate en (run_raw_data en u n) = Inr (ContentReply c2)"
  then show "generate_report_sections en (run_raw_data en u n)
             = Inr \<lparr>company_overview = c0, product_business_model = c1, market_analysis = c2,
                    competitive_landscape = None, financial_metrics = None,
                    fundraising_history = None, team_key_stakeholders = None\<rparr>"
    using sections_return[of en "run_raw_data en u n" "ContentReply c0" "ContentReply c1"
            "ContentReply c2"]
    by (simp add: make_report_def)
qed


theorem failure_propagation_witness:
  "final_db (generate_report_async search_down_env ''j'' acme_url acme_db) ''j''
     = Some \<lparr>id_field = ''j'', status = COMPLETED, url = acme_url, domain = Some ''acme.co'',
              report = Some (named_report ''acme''), error = None\<rparr> \<and>
   map snd (website_answers search_down_env ''acme.co'')
     = replicate 5 \<lparr>content = ''N/A'', link = ''N/A''\<rparr> \<and>
   final_db (generate_report_async overview_fails_env ''j'' acme_url acme_db) ''j''
     = Some \<lparr>id_field = ''j'', status = FAILED, url = acme_url, domain = Some ''acme.co'',
              report = None, error = Some ''429''\<rparr> \<and>
   final_db (generate_report_async acme_env ''j'' bad_url bad_db) ''j''
     = Some \<lparr>id_field = ''j'', status = FAILED, url = bad_url, domain = None,
              report = None, error = Some ''Invalid IPv6 URL''\<rparr>"
proof -
  let ?job = "\<lparr>id_field = ''j'', status = PENDING, url = acme_url, domain = None,
               report = None, error = None\<rparr>"
  let ?bad = "\<lparr>id_field = ''j'', status = PENDING, url = bad_url, domain = None,
               report = None, error = None\<rparr>"
  have b0: "bad_db ''j'' = Some ?bad" by (simp add: bad_db_def generate_def)
  have u0: "urlparse_netloc acme_env bad_url = Inl (ValueError ''Invalid IPv6 URL'')"
    by (simp add: acme_env_def bad_url_raises)
  from failure_propagation[of bad_db "''j''" ?bad acme_env bad_url] b0 u0
  have 0: "final_db (generate_report_async acme_env ''j'' bad_url bad_db) ''j''
             = Some (?bad\<lparr>ScreenerJob.status := FAILED,
                          error := Some (str_exn (ValueError ''Invalid IPv6 URL''))\<rparr>)"
    by blast
  have u1: "urlparse_netloc search_down_env acme_url = Inr ''acme.co''"
    by (simp add: search_down_env_def acme_env_def acme_url_netloc)
  have u2: "urlparse_netloc overview_fails_env acme_url = Inr ''acme.co''"
    by (simp add: overview_fails_env_def acme_env_def acme_url_netloc)
  from failure_propagation[of acme_db "''j''" ?job search_down_env acme_url]
    acme_db_job u1 search_down_sections
  have 1: "final_db (generate_report_async search_down_env ''j'' acme_url acme_db) ''j''
             = Some (?job\<lparr>domain := Some (strip_www ''acme.co''),
                          report := Some (named_report ''acme''),
                          ScreenerJob.status := COMPLETED\<rparr>)"
    by blast
  from failure_propagation[of acme_db "''j''" ?job overview_fails_env acme_url]
    acme_db_job u2 overview_fails_sections
  have 2: "final_db (generate_report_async overview_fails_env ''j'' acme_url acme_db) ''j''
             = Some (?job\<lparr>domain := Some (strip_www ''acme.co''),
                          ScreenerJob.status := FAILED,
                          error := Some (str_exn (RateLimitError ''429''))\<rparr>)"
    by blast
  have 3: "map snd (website_answers search_down_env ''acme.co'')
     = replicate 5 \<lparr>content = ''N/A'', link = ''N/A''\<rparr>"
    by (simp add: website_answers_def info_topics_def website_answer_def search_down_env_def
          acme_env_def numeral_eq_Suc)
  from 0 1 2 3 show ?thesis by (simp add: strip_www_acme)
qed

lemma try_block_keeps_job:
  "try_block en jid u db = (t, db', r) \<Longrightarrow> db jid \<noteq> None \<Longrightarrow> db' jid \<noteq> None"
  by (auto simp: try_block_def Let_def split: option.splits sum.splits)

lemma except_block_present:
  "db jid = Some job \<Longrightarrow>
   except_block jid e db =
     ([(Stmt, db(jid \<mapsto> job\<lparr>ScreenerJob.status := FAILED\<rparr>)),
       (Stmt, db(jid \<mapsto> job\<lparr>ScreenerJob.status := FAILED, error := Some (str_exn e)\<rparr>)),
       (Stmt, db(jid \<mapsto> job\<lparr>ScreenerJob.status := FAILED, error := Some (str_exn e)\<rparr>)),
       (Return, db(jid \<mapsto> job\<lparr>ScreenerJob.status := FAILED, error := Some (str_exn e)\<rparr>))],
      Inr None)"
  by (simp add: except_block_def Let_def)

lemma except_block_returns: "\<exists>t. except_block jid e db = (t, Inr None)"
  by (cases "db jid") (simp_all add: except_block_def Let_def)

text \<open>
  When every exception raised inside the function is under \<open>Exception\<close>, it never
  raises: it returns the report or \<open>None\<close>. When the body of its \<open>try\<close> raises \<open>e\<close>
  and the job is in the store, the call returns \<open>None\<close> and the store it leaves is
  the store the body left, with the job's status \<open>FAILED\<close> and its error \<open>str(e)\<close>.
  When the job is not in the store, the trace is the entry and the return, both with the
  store as it was.
\<close>

lemma run_catches_exceptions:
  "(\<exists>r. snd (generate_report_async en jid u db) = Inr r) \<and>
   (\<forall>t db' e. try_block en jid u db = (t, db', Inl e) \<and> db jid \<noteq> None \<longrightarrow>
      snd (generate_report_async en jid u db) = Inr None \<and>
      (\<exists>job'. db' jid = Some job' \<and>
         final_db (generate_report_async en jid u db)
           = db'(jid \<mapsto> job'\<lparr>ScreenerJob.status := FAILED, error := Some (str_exn e)\<rparr>))) \<and>
   (db jid = None \<longrightarrow>
      generate_report_async en jid u db = ([(Entry, db), (Return, db)], Inr None) \<and>
      final_db (generate_report_async en jid u db) = db)"
proof (intro conjI allI impI)
  obtain t db' r where tb: "try_block en jid u db = (t, db', r)"
    by (cases "try_block en jid u db") auto
  show "\<exists>r. snd (generate_report_async en jid u db) = Inr r"
  proof (cases r)
    case (Inl e)
    obtain t' where "except_block jid e db' = (t', Inr None)"
      using except_block_returns by blast
    with tb Inl show ?thesis by (simp add: generate_report_async_def)
  next
    case (Inr rep)
    with tb show ?thesis by (simp add: generate_report_async_def)
  qed
next
  fix t db' e
  assume a: "try_block en jid u db = (t, db', Inl e) \<and> db jid \<noteq> None"
  then obtain job' where j': "db' jid = Some job'"
    using try_block_keeps_job[of en jid u db t db' "Inl e"] by auto
  show "snd (generate_report_async en jid u db) = Inr None"
    using a by (simp add: generate_report_async_def except_block_present[of db' jid job' e, OF j'])
  show "\<exists>job'. db' jid = Some job' \<and>
         final_db (generate_report_async en jid u db)
           = db'(jid \<mapsto> job'\<lparr>ScreenerJob.status := FAILED, error := Some (str_exn e)\<rparr>)"
    using a j'
    by (simp add: generate_report_async_def except_block_present[of db' jid job' e, OF j'] final_db_def)
next
  assume "db jid = None"
  then show "generate_report_async en jid u db = ([(Entry, db), (Return, db)], Inr None)"
    by (rule run_absent)
next
  assume "db jid = None"
  then show "final_db (generate_report_async en jid u db) = db"
    by (simp add: run_absent final_db_def)
qed

lemma try_block_base_None:
  "try_block_base en None None jid u db
     = (case try_block en jid u db of (t, db', r) \<Rightarrow> (t, db', Inr r))"
  by (simp add: try_block_base_def try_block_def Let_def split: option.splits sum.splits)

lemma run_base_None:
  "generate_report_async_base en None None jid u db
     = (fst (generate_report_async en jid u db), Inr (snd (generate_report_async en jid u db)))"
proof -
  obtain t db' r where tb: "try_block en jid u db = (t, db', r)"
    by (cases "try_block en jid u db") auto
  show ?thesis
  proof (cases r)
    case (Inl e)
    obtain t' r' where "except_block jid e db' = (t', r')" by (cases "except_block jid e db'") auto
    with tb Inl show ?thesis
      by (simp add: generate_report_async_base_def generate_report_async_def try_block_base_None)
  next
    case (Inr rep)
    with tb show ?thesis
      by (simp add: generate_report_async_base_def generate_report_async_def try_block_base_None)
  qed
qed

lemma run_base_no_exception:
  "snd (generate_report_async_base en bi bs jid u db) \<noteq> Inr (Inl e)"
proof -
  obtain t db' r where tb: "try_block_base en bi bs jid u db = (t, db', r)"
    by (cases "try_block_base en bi bs jid u db") auto
  show ?thesis
  proof (cases r)
    case (Inl b)
    with tb show ?thesis by (simp add: generate_report_async_base_def)
  next
    case (Inr x)
    show ?thesis
    proof (cases x)
      case (Inl e')
      obtain t' where "except_block jid e' db' = (t', Inr None)"
        using except_block_returns by blast
      with tb Inr Inl show ?thesis by (simp add: generate_report_async_base_def)
    next
      case (Inr rep)
      with tb \<open>r = Inr x\<close> show ?thesis by (simp add: generate_report_async_base_def)
    qed
  qed
qed

lemma run_base_absent:
  "db jid = None \<Longrightarrow>
   generate_report_async_base en bi bs jid u db = ([(Entry, db), (Return, db)], Inr (Inr None))"
  by (simp add: generate_report_async_base_def try_block_base_def except_block_def)

lemma run_base_info_interrupt:
  assumes "db jid = Some job" "urlparse_netloc en u = Inr n"
  shows "generate_report_async_base en (Some b) bs jid u db =
     ([(Entry, db),
       (Stmt, db(jid \<mapsto> job\<lparr>ScreenerJob.status := PROCESSING\<rparr>)),
       (Stmt, db(jid \<mapsto> job\<lparr>ScreenerJob.status := PROCESSING, domain := Some (strip_www n)\<rparr>)),
       (Await, db(jid \<mapsto> job\<lparr>ScreenerJob.status := PROCESSING, domain := Some (strip_www n)\<rparr>))],
      Inl b)"
  using assms
  by (simp add: generate_report_async_base_def try_block_base_def extract_domain_eq
        extract_company_name_eq Let_def)

lemma run_base_sections_interrupt:
  assumes "db jid = Some job" "urlparse_netloc en u = Inr n"
  shows "generate_report_async_base en None (Some b) jid u db =
     ([(Entry, db),
       (Stmt, db(jid \<mapsto> job\<lparr>ScreenerJob.status := PROCESSING\<rparr>)),
       (Stmt, db(jid \<mapsto> job\<lparr>ScreenerJob.status := PROCESSING, domain := Some (strip_www n)\<rparr>)),
       (Await, db(jid \<mapsto> job\<lparr>ScreenerJob.status := PROCESSING, domain := Some (strip_www n)\<rparr>)),
       (Await, db(jid \<mapsto> job\<lparr>ScreenerJob.status := PROCESSING, domain := Some (strip_www n)\<rparr>))],
      Inl b)"
  using assms
  by (simp add: generate_report_async_base_def try_block_base_def extract_domain_eq
        extract_company_name_eq Let_def get_company_info_domain resolve_answers)

text \<open>
  C10, as the claim states it, has \<open>generate_report_async\<close> never raise, whatever the
  data sources and the backend do. The handler is \<open>except Exception\<close>: when the
  \<open>await\<close> of \<open>get_company_info\<close> raises \<open>asyncio.CancelledError\<close>, which is not under
  \<open>Exception\<close>, the call raises it to its caller, and the job is left \<open>PROCESSING\<close>,
  with no error.
\<close>

theorem cancelled_run_counterexample:
  "snd (generate_report_async_base acme_env (Some (CancelledError '''')) None ''j'' acme_url acme_db)
     = Inl (CancelledError '''') \<and>
   final_store
     (fst (generate_report_async_base acme_env (Some (CancelledError '''')) None ''j'' acme_url
             acme_db)) ''j''
     = Some \<lparr>id_field = ''j'', status = PROCESSING, url = acme_url, domain = Some ''acme.co'',
              report = None, error = None\<rparr>"
proof -
  have u: "urlparse_netloc acme_env acme_url = Inr ''acme.co''"
    by (simp add: acme_env_def acme_url_netloc)
  show ?thesis
    by (simp add: run_base_info_interrupt[where db=acme_db and jid="''j''" and en=acme_env and u=acme_url
            and n="''acme.co''", OF acme_db_job u] final_store_def strip_www_acme)
qed

text \<open>
  C10, amended. Without an exception from outside \<open>Exception\<close>, the run is the run
  above, and it never raises: it returns the report or \<open>None\<close>; when the body of the
  \<open>try\<close> raises \<open>e\<close> and the job is in the store, the call returns \<open>None\<close> and leaves
  the job \<open>FAILED\<close> with the error \<open>str(e)\<close>; when the job is not in the store, the
  call returns \<open>None\<close> and the store is as it was, nothing written or created. With
  or without such an exception, no exception under \<open>Exception\<close> ever reaches the caller.
  An exception from outside \<open>Exception\<close> raised at one of the two \<open>await\<close>s of a run for
  a job in the store is raised to the caller, and the job is left \<open>PROCESSING\<close>,
  without report and without error.
\<close>

theorem run_raises_only_base_exceptions:
  "generate_report_async_base en None None jid u db
     = (fst (generate_report_async en jid u db), Inr (snd (generate_report_async en jid u db))) \<and>
   (\<forall>e. snd (generate_report_async_base en bi bs jid u db) \<noteq> Inr (Inl e)) \<and>
   (\<exists>r. snd (generate_report_async en jid u db) = Inr r) \<and>
   (\<forall>t db' e. try_block en jid u db = (t, db', Inl e) \<and> db jid \<noteq> None \<longrightarrow>
      snd (generate_report_async en jid u db) = Inr None \<and>
      (\<exists>job'. db' jid = Some job' \<and>
         final_db (generate_report_async en jid u db)
           = db'(jid \<mapsto> job'\<lparr>ScreenerJob.status := FAILED, error := Some (str_exn e)\<rparr>))) \<and>
   (db jid = None \<longrightarrow>
      generate_report_async en jid u db = ([(Entry, db), (Return, db)], Inr None) \<and>
      final_db (generate_report_async en jid u db) = db \<and>
      generate_report_async_base en bi bs jid u db
        = ([(Entry, db), (Return, db)], Inr (Inr None))) \<and>
   (\<forall>job n b. db jid = Some job \<and> urlparse_netloc en u = Inr n \<longrightarrow>
      snd (generate_report_async_base en (Some b) bs jid u db) = Inl b \<and>
      final_store (fst (generate_report_async_base en (Some b) bs jid u db))
        = db(jid \<mapsto> job\<lparr>ScreenerJob.status := PROCESSING, domain := Some (strip_www n)\<rparr>) \<and>
      snd (generate_report_async_base en None (Some b) jid u db) = Inl b \<and>
      final_store (fst (generate_report_async_base en None (Some b) jid u db))
        = db(jid \<mapsto> job\<lparr>ScreenerJob.status := PROCESSING, domain := Some (strip_www n)\<rparr>))"
proof (intro conjI allI impI)
  show "generate_report_async_base en None None jid u db
     = (fst (generate_report_async en jid u db), Inr (snd (generate_report_async en jid u db)))"
    by (rule run_base_None)
next
  fix e
  show "snd (generate_report_async_base en bi bs jid u db) \<noteq> Inr (Inl e)"
    by (rule run_base_no_exception)
next
  show "\<exists>r. snd (generate_report_async en jid u db) = Inr r"
    using run_catches_exceptions[of en jid u db] by blast
next
  fix t db' e
  assume a: "try_block en jid u db = (t, db', Inl e) \<and> db jid \<noteq> None"
  with run_catches_exceptions[of en jid u db]
  show "snd (generate_report_async en jid u db) = Inr None"
    and "\<exists>job'. db' jid = Some job' \<and>
         final_db (generate_report_async en jid u db)
           = db'(jid \<mapsto> job'\<lparr>ScreenerJob.status := FAILED, error := Some (str_exn e)\<rparr>)"
    by blast+
next
  assume a: "db jid = None"
  then show "generate_report_async en jid u db = ([(Entry, db), (Return, db)], Inr None)"
    by (rule run_absent)
  from a show "final_db (generate_report_async en jid u db) = db"
    by (simp add: run_absent final_db_def)
  from a show "generate_report_async_base en bi bs jid u db
        = ([(Entry, db), (Return, db)], Inr (Inr None))"
    by (rule run_base_absent)
next
  fix job n b
  assume a: "db jid = Some job \<and> urlparse_netloc en u = Inr n"
  then have j: "db jid = Some job" and n: "urlparse_netloc en u = Inr n" by blast+
  show "snd (generate_report_async_base en (Some b) bs jid u db) = Inl b"
    by (simp add: run_base_info_interrupt[where db=db and jid=jid and job=job and en=en and u=u and n=n, OF j n])
  show "final_store (fst (generate_report_async_base en (Some b) bs jid u db))
        = db(jid \<mapsto> job\<lparr>ScreenerJob.status := PROCESSING, domain := Some (strip_www n)\<rparr>)"
    by (simp add: run_base_info_interrupt[where db=db and jid=jid and job=job and en=en and u=u and n=n, OF j n] final_store_def)
  show "snd (generate_report_async_base en None (Some b) jid u db) = Inl b"
    by (simp add: run_base_sections_interrupt[where db=db and jid=jid and job=job and en=en and u=u and n=n, OF j n])
  show "final_store (fst (generate_report_async_base en None (Some b) jid u db))
        = db(jid \<mapsto> job\<lparr>ScreenerJob.status := PROCESSING, domain := Some (strip_www n)\<rparr>)"
    by (simp add: run_base_sections_interrupt[where db=db and jid=jid and job=job and en=en and u=u and n=n, OF j n] final_store_def)
qed

theorem run_raises_only_base_exceptions_witness:
  "generate_report_async acme_env ''k'' acme_url acme_db
     = ([(Entry, acme_db), (Return, acme_db)], Inr None) \<and>
   snd (generate_report_async overview_fails_env ''j'' acme_url acme_db) = Inr None \<and>
   final_db (generate_report_async overview_fails_env ''j'' acme_url acme_db) ''j''
     = Some \<lparr>id_field = ''j'', status = FAILED, url = acme_url, domain = Some ''acme.co'',
              report = None, error = Some ''429''\<rparr> \<and>
   snd (generate_report_async_base acme_env None (Some KeyboardInterrupt) ''j'' acme_url acme_db)
     = Inl KeyboardInterrupt \<and>
   final_store
     (fst (generate_report_async_base acme_env None (Some KeyboardInterrupt) ''j'' acme_url
             acme_db)) ''j''
     = Some \<lparr>id_field = ''j'', status = PROCESSING, url = acme_url, domain = Some ''acme.co'',
              report = None, error = None\<rparr>"
proof -
  have k: "acme_db ''k'' = None" by (simp add: acme_db_def generate_def)
  have u: "urlparse_netloc acme_env acme_url = Inr ''acme.co''"
    by (simp add: acme_env_def acme_url_netloc)
  have u2: "urlparse_netloc overview_fails_env acme_url = Inr ''acme.co''"
    by (simp add: overview_fails_env_def acme_env_def acme_url_netloc)
  note tb = try_block_sections_fail[of acme_db "''j''" _ overview_fails_env acme_url "''acme.co''",
              OF acme_db_job u2 overview_fails_sections]
  from run_raises_only_base_exceptions[of acme_env "''k''" acme_url acme_db] k
  have 1: "generate_report_async acme_env ''k'' acme_url acme_db
     = ([(Entry, acme_db), (Return, acme_db)], Inr None)" by blast
  from run_raises_only_base_exceptions[of overview_fails_env "''j''" acme_url acme_db] tb acme_db_job
  have 2: "snd (generate_report_async overview_fails_env ''j'' acme_url acme_db) = Inr None \<and>
      (\<exists>job'. (acme_db(''j'' \<mapsto> \<lparr>id_field = ''j'', status = PENDING, url = acme_url, domain = None,
               report = None, error = None\<rparr>\<lparr>ScreenerJob.status := PROCESSING, domain := Some (strip_www ''acme.co'')\<rparr>)) ''j'' = Some job' \<and>
         final_db (generate_report_async overview_fails_env ''j'' acme_url acme_db)
           = (acme_db(''j'' \<mapsto> \<lparr>id_field = ''j'', status = PENDING, url = acme_url, domain = None,
               report = None, error = None\<rparr>\<lparr>ScreenerJob.status := PROCESSING, domain := Some (strip_www ''acme.co'')\<rparr>))(''j'' \<mapsto> job'\<lparr>ScreenerJob.status := FAILED, error := Some (str_exn (RateLimitError ''429''))\<rparr>))"
    by (metis option.distinct(1))
  from run_raises_only_base_exceptions[of acme_env "''j''" acme_url acme_db None] acme_db_job u
  have 3: "snd (generate_report_async_base acme_env None (Some KeyboardInterrupt) ''j'' acme_url
                  acme_db) = Inl KeyboardInterrupt \<and>
      final_store (fst (generate_report_async_base acme_env None (Some KeyboardInterrupt) ''j''
                          acme_url acme_db))
        = acme_db(''j'' \<mapsto> \<lparr>id_field = ''j'', status = PENDING, url = acme_url, domain = None,
               report = None, error = None\<rparr>\<lparr>ScreenerJob.status := PROCESSING, domain := Some (strip_www ''acme.co'')\<rparr>)"
    by blast
  from 1 2 3 show ?thesis by (auto simp: strip_www_acme)
qed


lemma url_host_plain:
  "CHR ''@'' \<notin> set n \<Longrightarrow> CHR '':'' \<notin> set n \<Longrightarrow> url_host n = n"
proof -
  assume a: "CHR ''@'' \<notin> set n" and b: "CHR '':'' \<notin> set n"
  have 1: "takeWhile (\<lambda>c. c \<noteq> CHR ''@'') (rev n) = rev n"
    using a by (intro takeWhile_eq_all_conv[THEN iffD2]) auto
  have 2: "takeWhile (\<lambda>c. c \<noteq> CHR '':'') n = n"
    using b by (intro takeWhile_eq_all_conv[THEN iffD2]) auto
  show ?thesis by (simp only: url_host_def 1 rev_rev_ident 2)
qed

lemma userinfo_netloc: "py_urlparse_netloc userinfo_url = Inr ''bob@acme.co''"
  by (simp add: userinfo_url_def py_urlparse_netloc_def strip_scheme_def is_scheme_char_def
        is_ascii_alpha_def Let_def)

text \<open>
  C8. The claim derives the name from the host label of every URL, and so does the
  comment of the function (``the main part of the domain''). The function reads
  \<open>urlparse(url).netloc\<close>, which also holds the user information and the port, where
  the host is \<open>urlparse(url).hostname\<close>: for \<open>https://bob@acme.co/\<close> the host is
  \<open>acme.co\<close>, its label is \<open>acme\<close>, and \<open>extract_company_name_from_url\<close> returns
  \<open>bob@acme\<close>.
\<close>

theorem derived_name_keeps_userinfo:
  "py_urlparse_netloc userinfo_url = Inr ''bob@acme.co'' \<and>
   url_host ''bob@acme.co'' = ''acme.co'' \<and>
   host_label_name (url_host ''bob@acme.co'') = ''acme'' \<and>
   extract_company_name_from_url py_urlparse_netloc userinfo_url = Inr ''bob@acme'' \<and>
   extract_company_name_from_url py_urlparse_netloc userinfo_url
     \<noteq> Inr (host_label_name (url_host ''bob@acme.co''))"
  by (simp add: userinfo_netloc extract_company_name_eq host_label_name_def url_host_def)

lemma try_block_outcome:
  assumes "db jid = Some job" "urlparse_netloc en u = Inr n"
  shows "snd (snd (try_block en jid u db)) = generate_report_sections en (run_raw_data en u n)"
proof (cases "generate_report_sections en (run_raw_data en u n)")
  case (Inl e)
  then show ?thesis
    by (simp add: try_block_sections_fail[of db jid job en u n e, OF assms Inl])
next
  case (Inr rep)
  then show ?thesis
    by (simp add: try_block_sections_ok[of db jid job en u n rep, OF assms Inr])
qed

text \<open>
  Where the derived name is the host label: on a network location without user
  information and without port, and on one with a port after a dotted host
  (\<open>acme.co:8080\<close>).
\<close>

lemma derived_name_plain_netloc:
  "netloc_of u = Inr n \<Longrightarrow> CHR ''@'' \<notin> set n \<Longrightarrow> CHR '':'' \<notin> set n \<Longrightarrow>
   extract_company_name_from_url netloc_of u = Inr (host_label_name (url_host n))"
  by (simp add: extract_company_name_eq url_host_plain)

lemma derived_name_with_port:
  "py_urlparse_netloc ''https://acme.co:8080/about'' = Inr ''acme.co:8080'' \<and>
   url_host ''acme.co:8080'' = ''acme.co'' \<and>
   extract_company_name_from_url py_urlparse_netloc ''https://acme.co:8080/about''
     = Inr (host_label_name (url_host ''acme.co:8080''))"
proof -
  have n: "py_urlparse_netloc ''https://acme.co:8080/about'' = Inr ''acme.co:8080''"
    by (simp add: py_urlparse_netloc_def strip_scheme_def is_scheme_char_def is_ascii_alpha_def
          Let_def)
  show ?thesis
    by (simp add: n extract_company_name_eq host_label_name_def url_host_def)
qed

text \<open>
  The override of the derived name. \<open>https://acme.co/about\<close> gives \<open>acme\<close>. For a job in
  the store and a URL that \<open>urlparse\<close> accepts, the raw data carries as company name
  the answer of the name search when it is longer than three characters and the derived
  name otherwise; the outcome of the body of the \<open>try\<close> is the outcome of
  \<open>_generate_report_sections\<close> on that raw data, which hands it to each of the three
  processors. The override never raises on the answers \<open>get_company_info\<close> returns.
\<close>

lemma company_name_override:
  "extract_company_name_from_url py_urlparse_netloc ''https://acme.co/about'' = Inr ''acme'' \<and>
   (\<forall>job n. db jid = Some job \<and> urlparse_netloc en u = Inr n \<longrightarrow>
      (\<exists>derived.
         extract_company_name_from_url (urlparse_netloc en) u = Inr derived \<and>
         company_name (run_raw_data en u n)
           = (if 3 < length (content (website_answer en ''What is the name of the company?''
                                        (strip_www n)))
              then content (website_answer en ''What is the name of the company?'' (strip_www n))
              else derived)) \<and>
      snd (snd (try_block en jid u db)) = generate_report_sections en (run_raw_data en u n) \<and>
      generate_report_sections en (run_raw_data en u n)
        = (case gather (sections_order en)
                  [overview_generate en (run_raw_data en u n),
                   product_generate en (run_raw_data en u n),
                   market_generate en (run_raw_data en u n)] of
             Inl e \<Rightarrow> Inl e
           | Inr results \<Rightarrow>
               (case results of
                  r0 # r1 # r2 # x \<Rightarrow> make_report r0 r1 r2
                | _ \<Rightarrow> Inl (IndexError ''list index out of range'')))) \<and>
   (\<forall>job wd derived. get_company_info en job = Inr wd \<longrightarrow>
      (\<exists>name. resolve_company_name wd derived = Inr name))"
proof (intro conjI allI impI)
  show "extract_company_name_from_url py_urlparse_netloc ''https://acme.co/about'' = Inr ''acme''"
    by (rule acme_name)
next
  fix job n assume "db jid = Some job \<and> urlparse_netloc en u = Inr n"
  then show "\<exists>derived.
         extract_company_name_from_url (urlparse_netloc en) u = Inr derived \<and>
         company_name (run_raw_data en u n)
           = (if 3 < length (content (website_answer en ''What is the name of the company?''
                                        (strip_www n)))
              then content (website_answer en ''What is the name of the company?'' (strip_www n))
              else derived)"
    by (simp add: extract_company_name_eq run_raw_data_def resolved_name_def)
next
  fix job n assume "db jid = Some job \<and> urlparse_netloc en u = Inr n"
  then show "snd (snd (try_block en jid u db)) = generate_report_sections en (run_raw_data en u n)"
    using try_block_outcome[of db jid job en u n] by blast
next
  fix job n
  show "generate_report_sections en (run_raw_data en u n)
        = (case gather (sections_order en)
                  [overview_generate en (run_raw_data en u n),
                   product_generate en (run_raw_data en u n),
                   market_generate en (run_raw_data en u n)] of
             Inl e \<Rightarrow> Inl e
           | Inr results \<Rightarrow>
               (case results of
                  r0 # r1 # r2 # x \<Rightarrow> make_report r0 r1 r2
                | _ \<Rightarrow> Inl (IndexError ''list index out of range'')))"
    by (simp add: generate_report_sections_def)
next
  fix job wd derived assume "get_company_info en job = Inr wd"
  then show "\<exists>name. resolve_company_name wd derived = Inr name"
    by (rule resolve_total)
qed

lemma company_name_override_acme:
  "extract_company_name_from_url py_urlparse_netloc acme_url = Inr ''acme'' \<and>
   company_name (run_raw_data acme_env acme_url ''acme.co'') = ''Acme Robotics'' \<and>
   snd (snd (try_block acme_env ''j'' acme_url acme_db)) = Inr (named_report ''Acme Robotics'') \<and>
   company_name (run_raw_data search_down_env acme_url ''acme.co'') = ''acme''"
proof -
  have u: "urlparse_netloc acme_env acme_url = Inr ''acme.co''"
    by (simp add: acme_env_def acme_url_netloc)
  have u1: "urlparse_netloc search_down_env acme_url = Inr ''acme.co''"
    by (simp add: search_down_env_def acme_env_def acme_url_netloc)
  note inst = company_name_override[of acme_db "''j''" acme_env acme_url]
  have 1: "extract_company_name_from_url py_urlparse_netloc acme_url
             = Inr (host_label_name (url_host ''acme.co''))"
    by (rule derived_name_plain_netloc[where netloc_of=py_urlparse_netloc and u=acme_url
                and n="''acme.co''", OF acme_url_netloc]) simp_all
  from inst acme_db_job u
  have 2: "snd (snd (try_block acme_env ''j'' acme_url acme_db))
              = generate_report_sections acme_env (run_raw_data acme_env acme_url ''acme.co'')"
    by blast
  from inst acme_db_job u
  obtain derived where 3:
    "extract_company_name_from_url (urlparse_netloc acme_env) acme_url = Inr derived"
    "company_name (run_raw_data acme_env acme_url ''acme.co'')
        = (if 3 < length (content (website_answer acme_env ''What is the name of the company?''
                                     (strip_www ''acme.co'')))
           then content (website_answer acme_env ''What is the name of the company?''
                           (strip_www ''acme.co''))
           else derived)"
    by blast
  from company_name_override[of acme_db "''j''" search_down_env acme_url]
    acme_db_job u1
  obtain derived' where 4:
    "extract_company_name_from_url (urlparse_netloc search_down_env) acme_url = Inr derived'"
    "company_name (run_raw_data search_down_env acme_url ''acme.co'')
        = (if 3 < length (content (website_answer search_down_env
                                     ''What is the name of the company?'' (strip_www ''acme.co'')))
           then content (website_answer search_down_env ''What is the name of the company?''
                           (strip_www ''acme.co''))
           else derived')"
    by blast
  have d': "derived' = ''acme''"
    using 4(1) by (simp add: extract_company_name_eq u1 host_label_acme)
  have h: "url_host ''acme.co'' = ''acme.co''" by (simp add: url_host_def)
  have a: "website_answer acme_env ''What is the name of the company?'' ''acme.co''
             = \<lparr>content = ''Acme Robotics'', link = ''https://acme.co/about''\<rparr>"
    by (simp add: website_answer_def acme_env_def acme_parse_def)
  have b: "website_answer search_down_env ''What is the name of the company?'' ''acme.co''
             = \<lparr>content = ''N/A'', link = ''N/A''\<rparr>"
    by (simp add: website_answer_def search_down_env_def acme_env_def)
  show ?thesis
    using 1 2 3(2) 4(2) d' by (simp add: host_label_acme strip_www_acme a b acme_sections h)
qed

end
